theory Spec2Isabelle
  imports Main
begin

chapter \<open>The libsass parser (parser.cpp): a shallow embedding\<close>

text \<open>
  The source buffer is a \<^typ>\<open>string\<close> (a list of bytes), pointers into it are
  offsets of type \<^typ>\<open>nat\<close>, and a null pointer is \<^term>\<open>None\<close>.  An exception
  is a value of type \<open>Exception\<close> on the left of a sum.
\<close>

section \<open>Source positions and errors\<close>

text \<open>
  \<open>Offset\<close> (a line and a column) stands for both \<open>Offset\<close> and \<open>Position\<close> of
  position.hpp; the file index of a \<open>Position\<close> is left out.
\<close>

record Offset =
  line :: nat
  column :: nat

text \<open>
  \<open>InvalidSass\<close> is \<open>Exception::InvalidSass(pstate, traces, msg)\<close> with the position it
  is raised at; \<open>NestingLimitError\<close> is what \<open>NESTING_GUARD\<close> throws; \<open>Runtime_Error\<close>
  is \<open>std::runtime_error\<close>; \<open>Crash\<close> marks
  undefined behaviour of the C++ (a read through a null pointer, \<open>back()\<close> of an
  empty vector); \<open>OutOfFuel\<close> is the model's own: a loop or recursion that was cut.
\<close>

datatype Exception =
    InvalidSass Offset string
  | NestingLimitError
  | Runtime_Error string
  | Crash string
  | OutOfFuel

section \<open>Reading bytes\<close>

text \<open>
  All pointers of one parse point into one NUL-terminated character array, the
  \<open>buffer\<close>.  \<open>byte_at buf p\<close> is \<open>*p\<close>: the terminator is read at (and, in the
  model, beyond) the end of the string.
\<close>

definition byte_at :: "string \<Rightarrow> nat \<Rightarrow> char" where
  "byte_at buf p = (if p < length buf then buf ! p else CHR 0x00)"

text \<open>\<open>std::string(begin, end)\<close> for two pointers into the buffer.\<close>

definition substring :: "string \<Rightarrow> nat \<Rightarrow> nat \<Rightarrow> string" where
  "substring buf b e = take (e - b) (drop b buf)"

section \<open>Byte-order marks\<close>

text \<open>
  Modelled from the spec: the tables of constants.cpp, which parser.cpp reads in
  \<open>read_bom\<close>; the file is not part of the sources at hand, the bytes are the
  standard marks of the encodings the specification lists (7).
\<close>

definition utf_8_bom :: string where "utf_8_bom = [CHR 0xEF, CHR 0xBB, CHR 0xBF]"
definition utf_16_bom_be :: string where "utf_16_bom_be = [CHR 0xFE, CHR 0xFF]"
definition utf_16_bom_le :: string where "utf_16_bom_le = [CHR 0xFF, CHR 0xFE]"
definition utf_32_bom_be :: string where "utf_32_bom_be = [CHR 0x00, CHR 0x00, CHR 0xFE, CHR 0xFF]"
definition utf_32_bom_le :: string where "utf_32_bom_le = [CHR 0xFF, CHR 0xFE, CHR 0x00, CHR 0x00]"
definition utf_7_bom_1 :: string where "utf_7_bom_1 = [CHR 0x2B, CHR 0x2F, CHR 0x76, CHR 0x38]"
definition utf_7_bom_2 :: string where "utf_7_bom_2 = [CHR 0x2B, CHR 0x2F, CHR 0x76, CHR 0x39]"
definition utf_7_bom_3 :: string where "utf_7_bom_3 = [CHR 0x2B, CHR 0x2F, CHR 0x76, CHR 0x2B]"
definition utf_7_bom_4 :: string where "utf_7_bom_4 = [CHR 0x2B, CHR 0x2F, CHR 0x76, CHR 0x2F]"
definition utf_7_bom_5 :: string where "utf_7_bom_5 = [CHR 0x2B, CHR 0x2F, CHR 0x76, CHR 0x38, CHR 0x2D]"
definition utf_1_bom :: string where "utf_1_bom = [CHR 0xF7, CHR 0x64, CHR 0x4C]"
definition utf_ebcdic_bom :: string where "utf_ebcdic_bom = [CHR 0xDD, CHR 0x73, CHR 0x66, CHR 0x73]"
definition scsu_bom :: string where "scsu_bom = [CHR 0x0E, CHR 0xFE, CHR 0xFF]"
definition bocu_1_bom :: string where "bocu_1_bom = [CHR 0xFB, CHR 0xEE, CHR 0x28]"
definition gb_18030_bom :: string where "gb_18030_bom = [CHR 0x84, CHR 0x31, CHR 0x95, CHR 0x33]"

text \<open>
  \<open>check_bom_chars(src, end, bom, len)\<close>: the guard \<open>src + len > end\<close>, then the loop
  \<open>for (i = 0; i < len; ++i, ++skip) if (src[i] != bom[i]) return 0;\<close>
  with \<open>i\<close> and \<open>skip\<close> as arguments.
\<close>

function check_bom_loop :: "string \<Rightarrow> nat \<Rightarrow> string \<Rightarrow> nat \<Rightarrow> nat \<Rightarrow> nat \<Rightarrow> nat" where
  "check_bom_loop buf src bom len i skip =
     (if i < len
      then (if byte_at buf (src + i) \<noteq> byte_at bom i then 0
            else check_bom_loop buf src bom len (i + 1) (skip + 1))
      else skip)"
  by pat_completeness auto
termination
  by (relation "measure (\<lambda>(buf, src, bom, len, i, skip). len - i)") auto

declare check_bom_loop.simps [simp del]

definition check_bom_chars :: "string \<Rightarrow> nat \<Rightarrow> nat \<Rightarrow> string \<Rightarrow> nat \<Rightarrow> nat" where
  "check_bom_chars buf src e bom len =
     (if src + len > e then 0 else check_bom_loop buf src bom len 0 0)"

section \<open>The syntax tree\<close>

text \<open>
  The node classes of ast.hpp that parser.cpp builds, as tagged variants.  Every
  expression carries the flags \<open>is_delayed\<close> and \<open>is_interpolant\<close>; a fresh node has
  both false.  The source range each node carries (\<open>pstate\<close>) is left out of the nodes:
  no function modelled here reads it back.  A \<open>Number\<close> holds the text handed to
  \<open>sass_strtod\<close> in place of the double it returns, so no floating point value is
  computed.
\<close>

datatype Sass_OP = AND | OR | EQ | NEQ | GT | GTE | LT | LTE | ADD | SUB | MUL | DIV | MOD

record Operand =
  operand :: Sass_OP
  ws_before :: bool
  ws_after :: bool

datatype Unary_Type = PLUS | MINUS | NOT | SLASH

datatype Sass_Separator = SASS_COMMA | SASS_SPACE | SASS_HASH

datatype Node =
    List "Expression list" Sass_Separator bool bool
  | Binary_Expression Operand Expression Expression
  | Unary_Expression Unary_Type Expression
  | Function_Call string "Argument list"
  | Function_Call_Schema Expression "Argument list"
  | Number string string bool
  | Color_RGBA nat nat nat nat string
  | String_Constant string
  | String_Quoted string
  | String_Schema "Expression list"
  | Variable string
  | Boolean bool
  | Null
  | Parent_Reference
  | Foreign_Expression string
and Expression = Expression (node: Node) (is_delayed: bool) (is_interpolant: bool)
and Argument = Argument Expression string bool bool

text \<open>
  \<open>List elements separator is_arglist is_bracketed\<close>;
  \<open>Number value unit zero\<close>; \<open>Argument value name is_rest_argument is_keyword_argument\<close>;
  \<open>Function_Call_Schema\<close> is a \<open>Function_Call\<close> whose name is a schema.
  \<open>Foreign_Expression\<close> stands for the nodes only productions outside this model
  build.  \<open>SASS_MEMORY_NEW\<close> of an expression class:
\<close>

definition new :: "Node \<Rightarrow> Expression" where
  "new n = Expression n False False"

text \<open>
  Statements.  \<open>Foreign\<close> is the payload of what productions outside this model
  build (selectors, media queries, the nodes of \<open>@media\<close>, \<open>@include\<close>, ...).
  \<open>Declaration property value is_custom_property is_indented tabs block\<close>;
  \<open>Ruleset selector schema block is_root\<close>;
  \<open>If_Node predicate block alternative\<close> is the class \<open>If\<close>;
  \<open>For variable lower_bound upper_bound block is_inclusive\<close>;
  \<open>Definition name parameters block type\<close>; \<open>Comment text is_important\<close>;
  \<open>ExtendRule selector isOptional\<close>.  An \<open>Include\<close> (a resolved file) is its path.
\<close>

datatype Foreign = Foreign string

datatype Definition_Type = MIXIN | FUNCTION

datatype Parameter = Parameter string "Expression option" bool

record Import =
  urls :: "Expression list"
  incs :: "string list"
  import_queries :: "Foreign option"

datatype Statement =
    Assignment string Expression bool bool
  | Declaration Expression Expression bool bool nat "Block option"
  | Ruleset "Foreign option" "Foreign option" Block bool
  | If_Node Expression Block "Block option"
  | For string Expression Expression Block bool
  | Each "string list" Expression Block
  | While Expression Block
  | Return Expression
  | Warning Expression
  | Error Expression
  | Debug Expression
  | Import_Node Import
  | Import_Stub string
  | ExtendRule Foreign bool
  | Definition string "Parameter list" Block Definition_Type
  | Comment Expression bool
  | Foreign_Statement Foreign
and Block = Block (statements: "Statement list") (is_root: bool)

text \<open>\<open>block->append(stm)\<close>.\<close>

definition append :: "Statement \<Rightarrow> Block \<Rightarrow> Block" where
  "append stm b = Block (statements b @ [stm]) (is_root b)"

section \<open>The parser state\<close>

text \<open>
  Modelled from the spec: \<open>enum Scope\<close> is declared in parser.hpp, which is not among
  the sources; its members are the ones parser.cpp names and the specification
  lists (3).
\<close>

datatype Scope = Root | Mixin | Function | Media | Control | Properties | Rules | AtRoot

text \<open>
  A \<open>Token\<close> is three pointers; a \<open>ParserState\<close> is a position with the offset of the
  token lexed last (path, source and token of the class are left out).
\<close>

record Token =
  tok_prefix :: nat
  tok_begin :: nat
  tok_end :: nat

record ParserState = Offset +
  offset :: Offset

text \<open>
  The members of \<open>class Parser\<close> that parser.cpp reads or writes.  \<open>source\<close>,
  \<open>position\<close> and \<open>endpos\<close> (the member \<open>end\<close>) are pointers into \<open>buffer\<close>.  The context \<open>ctx\<close>
  and the back-traces are outside the model.
\<close>

record Parser =
  buffer :: string
  source :: nat
  position :: nat
  endpos :: nat
  lexed :: Token
  before_token :: Offset
  after_token :: Offset
  pstate :: ParserState
  block_stack :: "Block list"
  stack :: "Scope list"
  indentation :: nat
  nestings :: nat
  allow_parent :: bool

type_synonym 'a result = "Exception + ('a \<times> Parser)"

text \<open>
  \<open>Parser::error(msg, pos)\<close> throws \<open>InvalidSass\<close> at \<open>pos\<close>, or at \<open>before_token\<close>
  when the line of \<open>pos\<close> is 0; \<open>Parser::error(msg)\<close> passes \<open>pstate\<close>.
\<close>

definition error_at :: "string \<Rightarrow> Offset \<Rightarrow> Parser \<Rightarrow> Exception" where
  "error_at msg pos st =
     InvalidSass (if line pos \<noteq> 0 then pos else before_token st) msg"

definition error :: "string \<Rightarrow> Parser \<Rightarrow> Exception" where
  "error msg st =
     error_at msg \<lparr>line = line (pstate st), column = column (pstate st)\<rparr> st"

section \<open>read_bom\<close>

text \<open>
  The \<open>switch\<close> on the first byte of \<open>source\<close> computes \<open>skip\<close>, \<open>encoding\<close> and
  \<open>utf_8\<close>; then a mark other than UTF-8's is an error and \<open>position\<close> moves by
  \<open>skip\<close>.  \<open>|\<close> on \<open>size_t\<close> is \<^const>\<open>or\<close>.
\<close>

definition bom_switch :: "Parser \<Rightarrow> nat \<times> string \<times> bool" where
  "bom_switch st =
     (let c = (of_char (byte_at (buffer st) (source st)) :: nat);
          chk = check_bom_chars (buffer st) (source st) (endpos st)
      in if c = 0xEF then (chk utf_8_bom 3, ''UTF-8'', True)
         else if c = 0xFE then (chk utf_16_bom_be 2, ''UTF-16 (big endian)'', False)
         else if c = 0xFF then
           (let skip = chk utf_16_bom_le 2;
                skip = skip + (if skip \<noteq> 0 then chk utf_32_bom_le 4 else 0)
            in (skip,
                if skip = 2 then ''UTF-16 (little endian)'' else ''UTF-32 (little endian)'',
                False))
         else if c = 0x00 then (chk utf_32_bom_be 4, ''UTF-32 (big endian)'', False)
         else if c = 0x2B then
           (or (chk utf_7_bom_1 4) (or (chk utf_7_bom_2 4) (or (chk utf_7_bom_3 4)
              (or (chk utf_7_bom_4 4) (chk utf_7_bom_5 5)))), ''UTF-7'', False)
         else if c = 0xF7 then (chk utf_1_bom 3, ''UTF-1'', False)
         else if c = 0xDD then (chk utf_ebcdic_bom 4, ''UTF-EBCDIC'', False)
         else if c = 0x0E then (chk scsu_bom 3, ''SCSU'', False)
         else if c = 0xFB then (chk bocu_1_bom 3, ''BOCU-1'', False)
         else if c = 0x84 then (chk gb_18030_bom 4, ''GB-18030'', False)
         else (0, [], False))"

definition read_bom :: "Parser \<Rightarrow> unit result" where
  "read_bom st =
     (case bom_switch st of (skip, encoding, utf_8) \<Rightarrow>
        if skip > 0 \<and> \<not> utf_8
        then Inl (error (''only UTF-8 documents are currently supported; your document appears to be '' @ encoding) st)
        else Inr ((), st\<lparr>position := position st + skip\<rparr>))"

text \<open>
  What the properties of \<open>read_bom\<close> speak of: the buffer (from \<open>source\<close> up to
  \<open>end\<close>) starts with a given mark; the message every rejection starts with; the
  marks that are rejected under one fixed name.  (The UTF-16 little-endian mark is a
  prefix of the UTF-32 one and is named by what follows it.)
\<close>

definition has_bom :: "Parser \<Rightarrow> string \<Rightarrow> bool" where
  "has_bom st bom =
     (source st + length bom \<le> endpos st \<and>
      list_all (\<lambda>i. byte_at (buffer st) (source st + i) = bom ! i) [0..<length bom])"

definition bom_msg :: string where
  "bom_msg = ''only UTF-8 documents are currently supported; your document appears to be ''"

definition rejected_boms :: "(string \<times> string) list" where
  "rejected_boms =
    [(utf_16_bom_be, ''UTF-16 (big endian)''),
     (utf_32_bom_le, ''UTF-32 (little endian)''),
     (utf_32_bom_be, ''UTF-32 (big endian)''),
     (utf_7_bom_1, ''UTF-7''), (utf_7_bom_2, ''UTF-7''), (utf_7_bom_3, ''UTF-7''),
     (utf_7_bom_4, ''UTF-7''), (utf_7_bom_5, ''UTF-7''),
     (utf_1_bom, ''UTF-1''),
     (utf_ebcdic_bom, ''UTF-EBCDIC''),
     (scsu_bom, ''SCSU''),
     (bocu_1_bom, ''BOCU-1''),
     (gb_18030_bom, ''GB-18030'')]"

section \<open>Creating a parser\<close>

text \<open>
  Modelled from the spec: the constructor \<open>Parser(ctx, pstate, traces, allow_parent)\<close> is in parser.hpp, not
  among the sources: it sets the three pointers to null (here 0), both token
  positions to \<open>pstate\<close>, the counters to 0, and pushes \<open>Scope::Root\<close>.
\<close>

definition Parser_new :: "string \<Rightarrow> ParserState \<Rightarrow> bool \<Rightarrow> Parser" where
  "Parser_new buf ps allow =
     \<lparr>buffer = buf, source = 0, position = 0, endpos = 0,
      lexed = \<lparr>tok_prefix = 0, tok_begin = 0, tok_end = 0\<rparr>,
      before_token = \<lparr>line = line ps, column = column ps\<rparr>,
      after_token = \<lparr>line = line ps, column = column ps\<rparr>,
      pstate = ps, block_stack = [], stack = [Root],
      indentation = 0, nestings = 0, allow_parent = allow\<rparr>"

definition strlen :: "string \<Rightarrow> nat \<Rightarrow> nat" where
  "strlen buf p = length (takeWhile (\<lambda>c. c \<noteq> CHR 0x00) (drop p buf))"

text \<open>
  \<open>from_c_str(beg, ...)\<close>, \<open>from_c_str(beg, end, ...)\<close> and \<open>from_token(t, ...)\<close>.
  With neither \<open>beg\<close> nor \<open>source\<close> the C++ takes \<open>strlen\<close> of a null pointer.
\<close>

definition from_c_str :: "string \<Rightarrow> nat option \<Rightarrow> ParserState \<Rightarrow> nat option \<Rightarrow> bool \<Rightarrow> Exception + Parser" where
  "from_c_str buf beg ps0 src allow =
     (let ps = ps0\<lparr>offset := \<lparr>line = 0, column = 0\<rparr>\<rparr>;
          p = Parser_new buf ps allow
      in case (case src of Some s \<Rightarrow> Some s | None \<Rightarrow> beg) of
           None \<Rightarrow> Inl (Crash ''strlen of a null pointer'')
         | Some s \<Rightarrow>
             (let pos = (case beg of Some b \<Rightarrow> b | None \<Rightarrow> s)
              in Inr (p\<lparr>source := s, position := pos, endpos := pos + strlen buf pos,
                        block_stack := block_stack p @ [Block [] True]\<rparr>)))"

definition from_c_str_end :: "string \<Rightarrow> nat option \<Rightarrow> nat option \<Rightarrow> ParserState \<Rightarrow> nat option \<Rightarrow> bool \<Rightarrow> Exception + Parser" where
  "from_c_str_end buf beg e ps0 src allow =
     (let ps = ps0\<lparr>offset := \<lparr>line = 0, column = 0\<rparr>\<rparr>;
          p = Parser_new buf ps allow
      in case (case src of Some s \<Rightarrow> Some s | None \<Rightarrow> beg) of
           None \<Rightarrow> (case e of None \<Rightarrow> Inl (Crash ''strlen of a null pointer'')
                     | Some e' \<Rightarrow> Inl (Crash ''source and position are null''))
         | Some s \<Rightarrow>
             (let pos = (case beg of Some b \<Rightarrow> b | None \<Rightarrow> s)
              in Inr (p\<lparr>source := s, position := pos,
                        endpos := (case e of Some e' \<Rightarrow> e' | None \<Rightarrow> pos + strlen buf pos),
                        block_stack := block_stack p @ [Block [] True]\<rparr>)))"

definition from_token :: "string \<Rightarrow> Token \<Rightarrow> ParserState \<Rightarrow> nat option \<Rightarrow> Parser" where
  "from_token buf t ps src =
     (let p = Parser_new buf ps True;
          s = (case src of Some s \<Rightarrow> s | None \<Rightarrow> tok_begin t)
      in p\<lparr>source := s, position := tok_begin t, endpos := tok_end t,
            block_stack := block_stack p @ [Block [] True]\<rparr>)"

text \<open>A parser on a whole buffer, at line 0 and column 0.\<close>

definition parser_of :: "string \<Rightarrow> Parser" where
  "parser_of buf =
     (let p = Parser_new buf \<lparr>line = 0, column = 0, offset = \<lparr>line = 0, column = 0\<rparr>\<rparr> True
      in p\<lparr>source := 0, position := 0, endpos := strlen buf 0,
            block_stack := [Block [] True]\<rparr>)"

section \<open>Prelexer expressions\<close>

text \<open>
  The template arguments of \<open>lex<...>\<close> and \<open>peek<...>\<close>: the combinators of lexer.hpp
  and the named functions of namespace \<open>Prelexer\<close> (prelexer.cpp).  Neither file is
  among the sources, so the parser is modelled over any reading of these
  expressions: a \<open>prelexer\<close> maps an expression, the buffer and a pointer to the
  pointer behind the match, or to null.
\<close>

datatype mx =
    exactly char
  | exactly_str string
  | word string
  | class_char string
  | insensitive string
  | sequence "mx list"
  | alternatives "mx list"
  | zero_plus mx
  | one_plus mx
  | optional mx
  | negate mx
  | lookahead mx
  | non_greedy mx mx
  | skip_over_scopes mx mx
  | Prelexer string

type_synonym prelexer = "mx \<Rightarrow> string \<Rightarrow> nat \<Rightarrow> nat option"

abbreviation spaces :: mx where "spaces \<equiv> Prelexer ''spaces''"
abbreviation no_spaces :: mx where "no_spaces \<equiv> Prelexer ''no_spaces''"
abbreviation css_comments :: mx where "css_comments \<equiv> Prelexer ''css_comments''"
abbreviation css_whitespace :: mx where "css_whitespace \<equiv> Prelexer ''css_whitespace''"
abbreviation optional_spaces :: mx where "optional_spaces \<equiv> Prelexer ''optional_spaces''"
abbreviation optional_css_comments :: mx where "optional_css_comments \<equiv> Prelexer ''optional_css_comments''"
abbreviation optional_css_whitespace :: mx where "optional_css_whitespace \<equiv> Prelexer ''optional_css_whitespace''"
abbreviation block_comment :: mx where "block_comment \<equiv> Prelexer ''block_comment''"
abbreviation identifier_tok :: mx where "identifier_tok \<equiv> Prelexer ''identifier''"
abbreviation identifier_schema :: mx where "identifier_schema \<equiv> Prelexer ''identifier_schema''"
abbreviation variable :: mx where "variable \<equiv> Prelexer ''variable''"
abbreviation number :: mx where "number \<equiv> Prelexer ''number''"
abbreviation percentage :: mx where "percentage \<equiv> Prelexer ''percentage''"
abbreviation dimension :: mx where "dimension \<equiv> Prelexer ''dimension''"
abbreviation quoted_string :: mx where "quoted_string \<equiv> Prelexer ''quoted_string''"
abbreviation hex :: mx where "hex \<equiv> Prelexer ''hex''"
abbreviation hex0 :: mx where "hex0 \<equiv> Prelexer ''hex0''"
abbreviation hexa :: mx where "hexa \<equiv> Prelexer ''hexa''"
abbreviation uri_prefix :: mx where "uri_prefix \<equiv> Prelexer ''uri_prefix''"
abbreviation real_uri_value :: mx where "real_uri_value \<equiv> Prelexer ''real_uri_value''"
abbreviation interpolant :: mx where "interpolant \<equiv> Prelexer ''interpolant''"
abbreviation value_schema :: mx where "value_schema \<equiv> Prelexer ''value_schema''"
abbreviation functional_schema :: mx where "functional_schema \<equiv> Prelexer ''functional_schema''"
abbreviation re_functional :: mx where "re_functional \<equiv> Prelexer ''re_functional''"
abbreviation ie_property :: mx where "ie_property \<equiv> Prelexer ''ie_property''"
abbreviation ie_keyword_arg :: mx where "ie_keyword_arg \<equiv> Prelexer ''ie_keyword_arg''"
abbreviation calc_fn_call :: mx where "calc_fn_call \<equiv> Prelexer ''calc_fn_call''"
abbreviation W :: mx where "W \<equiv> Prelexer ''W''"
abbreviation static_value :: mx where "static_value \<equiv> Prelexer ''static_value''"
abbreviation static_component :: mx where "static_component \<equiv> Prelexer ''static_component''"
abbreviation strict_identifier :: mx where "strict_identifier \<equiv> Prelexer ''strict_identifier''"
abbreviation ampersand :: mx where "ampersand \<equiv> Prelexer ''ampersand''"
abbreviation kwd_important :: mx where "kwd_important \<equiv> Prelexer ''kwd_important''"
abbreviation kwd_true :: mx where "kwd_true \<equiv> Prelexer ''kwd_true''"
abbreviation kwd_false :: mx where "kwd_false \<equiv> Prelexer ''kwd_false''"
abbreviation kwd_null :: mx where "kwd_null \<equiv> Prelexer ''kwd_null''"
abbreviation kwd_not :: mx where "kwd_not \<equiv> Prelexer ''kwd_not''"
abbreviation kwd_and :: mx where "kwd_and \<equiv> Prelexer ''kwd_and''"
abbreviation kwd_or :: mx where "kwd_or \<equiv> Prelexer ''kwd_or''"
abbreviation kwd_eq :: mx where "kwd_eq \<equiv> Prelexer ''kwd_eq''"
abbreviation kwd_neq :: mx where "kwd_neq \<equiv> Prelexer ''kwd_neq''"
abbreviation kwd_gte :: mx where "kwd_gte \<equiv> Prelexer ''kwd_gte''"
abbreviation kwd_gt :: mx where "kwd_gt \<equiv> Prelexer ''kwd_gt''"
abbreviation kwd_lte :: mx where "kwd_lte \<equiv> Prelexer ''kwd_lte''"
abbreviation kwd_lt :: mx where "kwd_lt \<equiv> Prelexer ''kwd_lt''"
abbreviation op :: mx where "op \<equiv> Prelexer ''op''"
abbreviation digit :: mx where "digit \<equiv> Prelexer ''digit''"
abbreviation space :: mx where "space \<equiv> Prelexer ''space''"
abbreviation parenthese_scope :: mx where "parenthese_scope \<equiv> Prelexer ''parenthese_scope''"
abbreviation list_terminator :: mx where "list_terminator \<equiv> Prelexer ''list_terminator''"
abbreviation space_list_terminator :: mx where "space_list_terminator \<equiv> Prelexer ''space_list_terminator''"
abbreviation end_of_file :: mx where "end_of_file \<equiv> Prelexer ''end_of_file''"
abbreviation default_flag :: mx where "default_flag \<equiv> Prelexer ''default_flag''"
abbreviation global_flag :: mx where "global_flag \<equiv> Prelexer ''global_flag''"
abbreviation re_selector_list :: mx where "re_selector_list \<equiv> Prelexer ''re_selector_list''"
abbreviation at_keyword :: mx where "at_keyword \<equiv> Prelexer ''at_keyword''"
abbreviation elseif_directive :: mx where "elseif_directive \<equiv> Prelexer ''elseif_directive''"
abbreviation kwd_else_directive :: mx where "kwd_else_directive \<equiv> Prelexer ''kwd_else_directive''"
abbreviation kwd_err :: mx where "kwd_err \<equiv> Prelexer ''kwd_err''"
abbreviation kwd_dbg :: mx where "kwd_dbg \<equiv> Prelexer ''kwd_dbg''"
abbreviation kwd_warn :: mx where "kwd_warn \<equiv> Prelexer ''kwd_warn''"
abbreviation kwd_if_directive :: mx where "kwd_if_directive \<equiv> Prelexer ''kwd_if_directive''"
abbreviation kwd_for_directive :: mx where "kwd_for_directive \<equiv> Prelexer ''kwd_for_directive''"
abbreviation kwd_each_directive :: mx where "kwd_each_directive \<equiv> Prelexer ''kwd_each_directive''"
abbreviation kwd_while_directive :: mx where "kwd_while_directive \<equiv> Prelexer ''kwd_while_directive''"
abbreviation kwd_return_directive :: mx where "kwd_return_directive \<equiv> Prelexer ''kwd_return_directive''"
abbreviation kwd_import :: mx where "kwd_import \<equiv> Prelexer ''kwd_import''"
abbreviation kwd_extend :: mx where "kwd_extend \<equiv> Prelexer ''kwd_extend''"
abbreviation kwd_media :: mx where "kwd_media \<equiv> Prelexer ''kwd_media''"
abbreviation kwd_at_root :: mx where "kwd_at_root \<equiv> Prelexer ''kwd_at_root''"
abbreviation kwd_include_directive :: mx where "kwd_include_directive \<equiv> Prelexer ''kwd_include_directive''"
abbreviation kwd_content_directive :: mx where "kwd_content_directive \<equiv> Prelexer ''kwd_content_directive''"
abbreviation kwd_supports_directive :: mx where "kwd_supports_directive \<equiv> Prelexer ''kwd_supports_directive''"
abbreviation kwd_mixin :: mx where "kwd_mixin \<equiv> Prelexer ''kwd_mixin''"
abbreviation kwd_function :: mx where "kwd_function \<equiv> Prelexer ''kwd_function''"
abbreviation kwd_charset_directive :: mx where "kwd_charset_directive \<equiv> Prelexer ''kwd_charset_directive''"
abbreviation kwd_from :: mx where "kwd_from \<equiv> Prelexer ''kwd_from''"
abbreviation kwd_through :: mx where "kwd_through \<equiv> Prelexer ''kwd_through''"
abbreviation kwd_to :: mx where "kwd_to \<equiv> Prelexer ''kwd_to''"
abbreviation kwd_in :: mx where "kwd_in \<equiv> Prelexer ''kwd_in''"
abbreviation kwd_using :: mx where "kwd_using \<equiv> Prelexer ''kwd_using''"

abbreviation unsigned_number :: mx where "unsigned_number \<equiv> Prelexer ''unsigned_number''"
abbreviation static_string :: mx where "static_string \<equiv> Prelexer ''static_string''"
abbreviation unit_identifier :: mx where "unit_identifier \<equiv> Prelexer ''unit_identifier''"

text \<open>String constants of constants.cpp that parser.cpp passes to \<open>exactly\<close>.\<close>

definition hash_lbrace :: string where "hash_lbrace = ''#{''"
definition rbrace :: string where "rbrace = ''}''"
definition ellipsis :: string where "ellipsis = ''...''"
definition else_kwd :: string where "else_kwd = ''@else''"
definition static_ops :: string where "static_ops = ''*/%''"

section \<open>Lexing\<close>

text \<open>
  Modelled from the spec: the member templates \<open>sneak\<close>, \<open>match\<close>, \<open>peek\<close>,
  \<open>peek_css\<close>, \<open>lex\<close> and \<open>lex_css\<close> of parser.hpp and \<open>Offset::add\<close> of
  position.cpp, which are not among the sources.  A combinator returns how far it
  matched without side effects, the parser commits a match by advancing the cursor
  (4.2); the lookahead never moves the cursor (4.3); the position tracker counts a
  line at each newline and a column for each other byte that starts a character
  (4.1).  \<open>peek\<close> skips white-space before the token unless the token is itself
  white-space, and accepts no match that reaches beyond \<open>end\<close>; \<open>lex\<close> does the same
  and then records the token, its positions and the new cursor; \<open>lex_css\<close> and
  \<open>peek_css\<close> skip comments first, and a failed \<open>lex_css\<close> leaves the state as it
  was.
\<close>

fun Offset_add :: "Offset \<Rightarrow> string \<Rightarrow> Offset" where
  "Offset_add off [] = off"
| "Offset_add off (c # cs) =
     (if c = CHR 0x00 then off
      else if c = CHR 0x0A then Offset_add \<lparr>line = line off + 1, column = 0\<rparr> cs
      else if (of_char c :: nat) div 64 = 2 then Offset_add off cs
      else Offset_add (off\<lparr>column := column off + 1\<rparr>) cs)"

definition Offset_minus :: "Offset \<Rightarrow> Offset \<Rightarrow> Offset" where
  "Offset_minus a b =
     \<lparr>line = line a - line b,
      column = (if line b = line a then column a - column b else column a)\<rparr>"

definition sneak :: "prelexer \<Rightarrow> mx \<Rightarrow> nat option \<Rightarrow> Parser \<Rightarrow> nat" where
  "sneak L m start st =
     (let it_position = (case start of Some s \<Rightarrow> s | None \<Rightarrow> position st)
      in if m = spaces \<or> m = no_spaces \<or> m = css_comments \<or> m = css_whitespace \<or>
            m = optional_spaces \<or> m = optional_css_comments \<or> m = optional_css_whitespace
         then it_position
         else (case L optional_css_whitespace (buffer st) it_position of
                 Some pos \<Rightarrow> pos
               | None \<Rightarrow> it_position))"

definition match :: "prelexer \<Rightarrow> mx \<Rightarrow> Parser \<Rightarrow> nat option" where
  "match L m st = L m (buffer st) (position st)"

definition peek :: "prelexer \<Rightarrow> mx \<Rightarrow> nat option \<Rightarrow> Parser \<Rightarrow> nat option" where
  "peek L m start st =
     (let it_before_token = sneak L m start st
      in case L m (buffer st) it_before_token of
           None \<Rightarrow> None
         | Some m' \<Rightarrow> if m' \<le> endpos st then Some m' else None)"

definition peek_css :: "prelexer \<Rightarrow> mx \<Rightarrow> nat option \<Rightarrow> Parser \<Rightarrow> nat option" where
  "peek_css L m start st = peek L m (peek L css_comments start st) st"

definition commit :: "nat \<Rightarrow> nat \<Rightarrow> Parser \<Rightarrow> Parser" where
  "commit it_before_token it_after_token st =
     (let bt = Offset_add (after_token st) (substring (buffer st) (position st) it_before_token);
          at = Offset_add bt (substring (buffer st) it_before_token it_after_token)
      in st\<lparr>lexed := \<lparr>tok_prefix = position st, tok_begin = it_before_token,
                        tok_end = it_after_token\<rparr>,
            before_token := bt,
            after_token := at,
            pstate := \<lparr>line = line bt, column = column bt, offset = Offset_minus at bt\<rparr>,
            position := it_after_token\<rparr>)"

definition lex :: "prelexer \<Rightarrow> mx \<Rightarrow> bool \<Rightarrow> Parser \<Rightarrow> Parser option" where
  "lex L m lazy st =
     (if byte_at (buffer st) (position st) = CHR 0x00 then None
      else
        (let it_before_token = (if lazy then sneak L m (Some (position st)) st else position st)
         in case L m (buffer st) it_before_token of
              None \<Rightarrow> None
            | Some it_after_token \<Rightarrow>
                if it_after_token > endpos st then None
                else if it_after_token = it_before_token then None
                else Some (commit it_before_token it_after_token st)))"

definition lex_css :: "prelexer \<Rightarrow> mx \<Rightarrow> Parser \<Rightarrow> Parser option" where
  "lex_css L m st =
     lex L m True (case lex L css_comments True st of Some st' \<Rightarrow> st' | None \<Rightarrow> st)"

text \<open>\<open>std::string(lexed)\<close>: the text of the token lexed last.\<close>

definition lexed_string :: "Parser \<Rightarrow> string" where
  "lexed_string st = substring (buffer st) (tok_begin (lexed st)) (tok_end (lexed st))"

section \<open>Numbers\<close>

text \<open>\<open>std::string::find_first_not_of(chars, pos)\<close>; \<open>npos\<close> is \<open>None\<close>.\<close>

definition find_first_not_of :: "string \<Rightarrow> string \<Rightarrow> nat \<Rightarrow> nat option" where
  "find_first_not_of s chars pos =
     (case filter (\<lambda>i. s ! i \<notin> set chars) [pos..<length s] of
        [] \<Rightarrow> None
      | i # _ \<Rightarrow> Some i)"

definition number_has_zero :: "string \<Rightarrow> bool" where
  "number_has_zero parsed =
     (let L = length parsed
      in \<not> ((L > 0 \<and> take 1 parsed = ''.'') \<or>
             (L > 1 \<and> take 2 parsed = ''0.'') \<or>
             (L > 1 \<and> take 2 parsed = ''-.'') \<or>
             (L > 2 \<and> take 3 parsed = ''-0.'')))"

text \<open>
  The three constructors of lexed numbers: \<open>is_interpolant(false)\<close>,
  \<open>is_delayed(true)\<close>.  The value is \<open>sass_strtod\<close> of the text kept in the node.
\<close>

definition lexed_number :: "string \<Rightarrow> Expression" where
  "lexed_number parsed = Expression (Number parsed [] (number_has_zero parsed)) True False"

definition lexed_percentage :: "string \<Rightarrow> Expression" where
  "lexed_percentage parsed = Expression (Number parsed ''%'' True) True False"

text \<open>
  \<open>lexed_dimension\<close>.  \<open>is_number\<close> is a predicate of lexer.cpp and a parameter here.
  The unit is \<open>Token(number(parsed.c_str()))\<close>: what follows the match of \<open>number\<close>
  on the text; a null match is a null \<open>Token\<close>, whose length is taken with
  \<open>strlen\<close>.  \<open>parsed[unit_pos]\<close> with \<open>unit_pos == npos\<close> is a read out of range.
\<close>

definition lexed_dimension :: "prelexer \<Rightarrow> (char \<Rightarrow> bool) \<Rightarrow> string \<Rightarrow> Exception + Expression" where
  "lexed_dimension L is_number parsed =
     (let len = length parsed;
          num_pos = (case find_first_not_of parsed [CHR '' '', CHR 0x0A, CHR 0x0D, CHR 0x09] 0 of
                       None \<Rightarrow> len | Some n \<Rightarrow> n)
      in case find_first_not_of parsed ''-+0123456789.'' num_pos of
           None \<Rightarrow> Inl (Crash ''parsed[npos]'')
         | Some unit_pos0 \<Rightarrow>
            (let unit_pos1 =
                   (if byte_at parsed unit_pos0 = CHR ''e'' \<and> is_number (byte_at parsed (unit_pos0 + 1))
                    then find_first_not_of parsed ''-+0123456789.'' (unit_pos0 + 1)
                    else Some unit_pos0);
                 unit_pos = (case unit_pos1 of None \<Rightarrow> len | Some u \<Rightarrow> u);
                 num = take (unit_pos - num_pos) (drop num_pos parsed)
             in case L number parsed 0 of
                  None \<Rightarrow> Inl (Crash ''Token(0)'')
                | Some n \<Rightarrow>
                    Inr (Expression (Number num (drop n parsed) (number_has_zero parsed))
                           True False)))"

section \<open>Lookahead\<close>

text \<open>
  Modelled from the spec: \<open>struct Lookahead\<close> (parser.hpp): four pointers and three flags, all null or false
  in a fresh value.
\<close>

record Lookahead =
  found :: "nat option"
  error_ptr :: "nat option"
  la_position :: "nat option"
  parsable :: bool
  has_interpolants :: bool
  is_custom_property :: bool

definition Lookahead_new :: Lookahead where
  "Lookahead_new = \<lparr>found = None, error_ptr = None, la_position = None, parsable = False,
                     has_interpolants = False, is_custom_property = False\<rparr>"

text \<open>
  The scan \<open>while (p < q)\<close> of \<open>lookahead_for_selector\<close> over the matched text, with the
  local \<open>could_be_escaped\<close> and the result as arguments; it returns the result and \<open>p\<close>.
  An interpolation sets the flag and ends the scan with \<open>p = q\<close>.
\<close>

function selector_scan ::
  "prelexer \<Rightarrow> Parser \<Rightarrow> bool \<Rightarrow> nat \<Rightarrow> nat \<Rightarrow> bool \<Rightarrow> Lookahead \<Rightarrow> Lookahead \<times> nat" where
  "selector_scan L st could_be_property q p could_be_escaped rv =
     (if p < q then
        (if byte_at (buffer st) p = CHR ''#'' \<and> byte_at (buffer st) (p + 1) = CHR ''{''
         then (rv\<lparr>has_interpolants := True\<rparr>, q)
         else
           (let rv' = (if byte_at (buffer st) p = CHR '':'' \<and> \<not> could_be_escaped
                       then rv\<lparr>is_custom_property :=
                              could_be_property \<or> p + 1 = q \<or> peek L space (Some (p + 1)) st \<noteq> None\<rparr>
                       else rv)
            in selector_scan L st could_be_property q (p + 1)
                 (byte_at (buffer st) p = CHR 0x5C) rv'))
      else (rv, p))"
  by pat_completeness auto
termination
  by (relation "measure (\<lambda>(L, st, cbp, q, p, cbe, rv). q - p)") auto

declare selector_scan.simps [simp del]

text \<open>
  \<open>lookahead_for_selector(start)\<close>.  The parser is threaded through the call as the
  C++ member function has it at hand; the result pairs the \<open>Lookahead\<close> with the
  parser after the call.
\<close>

definition lookahead_for_selector :: "prelexer \<Rightarrow> nat option \<Rightarrow> Parser \<Rightarrow> Lookahead \<times> Parser" where
  "lookahead_for_selector L start st =
     (let rv = Lookahead_new;
          p = (case start of Some s \<Rightarrow> s | None \<Rightarrow> position st);
          rv = rv\<lparr>error_ptr := Some p\<rparr>;
          rv = (case peek L re_selector_list (Some p) st of
                  None \<Rightarrow> rv
                | Some q \<Rightarrow>
                    (let could_be_property =
                           (peek L (sequence [exactly (CHR ''-''), exactly (CHR ''-'')]) (Some p) st \<noteq> None);
                         (rv, p) = selector_scan L st could_be_property q p False rv;
                         rv = rv\<lparr>error_ptr := Some q, la_position := Some q\<rparr>;
                         rv = (if peek L (exactly (CHR ''{'')) (Some q) st \<noteq> None then rv\<lparr>found := Some q\<rparr>
                               else if peek L (exactly (CHR ''('')) (Some q) st \<noteq> None then rv\<lparr>found := Some q\<rparr>
                               else rv)
                     in if found rv \<noteq> None \<or> byte_at (buffer st) p = CHR 0x00
                        then rv\<lparr>error_ptr := None\<rparr> else rv))
      in (rv\<lparr>parsable := \<not> has_interpolants rv\<rparr>, st))"

definition lookahead_for_include :: "prelexer \<Rightarrow> nat option \<Rightarrow> Parser \<Rightarrow> Lookahead \<times> Parser" where
  "lookahead_for_include L start st =
     (case lookahead_for_selector L start st of (rv, st) \<Rightarrow>
        (case la_position rv of
           None \<Rightarrow> (rv, st)
         | Some p \<Rightarrow>
             (if peek L (exactly (CHR '';'')) (Some p) st \<noteq> None then (rv\<lparr>found := Some p\<rparr>, st)
              else if peek L (exactly (CHR ''}'')) (Some p) st \<noteq> None then (rv\<lparr>found := Some p\<rparr>, st)
              else (rv, st))))"

text \<open>The scan \<open>while (p < q)\<close> of \<open>lookahead_for_value\<close>.\<close>

function value_scan :: "Parser \<Rightarrow> nat \<Rightarrow> nat \<Rightarrow> Lookahead \<Rightarrow> Lookahead" where
  "value_scan st q p rv =
     (if p < q then
        (if byte_at (buffer st) p = CHR ''#'' \<and> byte_at (buffer st) (p + 1) = CHR ''{''
         then rv\<lparr>has_interpolants := True\<rparr>
         else value_scan st q (p + 1) rv)
      else rv)"
  by pat_completeness auto
termination
  by (relation "measure (\<lambda>(st, q, p, rv). q - p)") auto

declare value_scan.simps [simp del]

definition lookahead_value_mx :: mx where
  "lookahead_value_mx =
     non_greedy
       (alternatives
          [block_comment,
           sequence [interpolant, optional quoted_string],
           identifier_tok,
           variable,
           sequence [parenthese_scope, interpolant, optional quoted_string]])
       (sequence [alternatives [exactly (CHR ''{''), exactly (CHR ''}''), exactly (CHR '';'')]])"

definition lookahead_for_value :: "prelexer \<Rightarrow> nat option \<Rightarrow> Parser \<Rightarrow> Lookahead \<times> Parser" where
  "lookahead_for_value L start st =
     (let rv = Lookahead_new;
          p = (case start of Some s \<Rightarrow> s | None \<Rightarrow> position st)
      in case peek L lookahead_value_mx (Some p) st of
           None \<Rightarrow> (rv, st)
         | Some q \<Rightarrow>
             if p = q then (rv, st)
             else
               (let rv = value_scan st q p rv;
                    rv = rv\<lparr>la_position := Some q\<rparr>;
                    rv = (if peek L (exactly (CHR ''{'')) (Some q) st \<noteq> None then rv\<lparr>found := Some q\<rparr>
                          else if peek L (exactly (CHR '';'')) (Some q) st \<noteq> None then rv\<lparr>found := Some q\<rparr>
                          else if peek L (exactly (CHR ''}'')) (Some q) st \<noteq> None then rv\<lparr>found := Some q\<rparr>
                          else rv)
                in (rv, st)))"

section \<open>What the parser calls outside parser.cpp, and what is left unmodelled\<close>

text \<open>
  \<open>Env\<close> collects the parameters of the model: the prelexer; predicates and tables of
  other files (\<open>is_number\<close> of lexer.cpp, \<open>name_to_color\<close> of color_maps.cpp,
  \<open>escape_string\<close> and \<open>unquote\<close> of the utilities, the importers of the context); the
  two quoted pieces of source text that \<open>css_error\<close> cuts out around the cursor; and
  the productions of parser.cpp that are not translated here (strings and schemas
  with interpolation, selectors, media and support queries, \<open>@include\<close>,
  \<open>@content\<close>, \<open>@at-root\<close>, generic directives, custom property values, colours
  in hexadecimal).  Every theorem holds for every \<open>Env\<close>.
\<close>

record Env =
  prelex :: prelexer
  is_number :: "char \<Rightarrow> bool"
  name_to_color :: "string \<Rightarrow> (nat \<times> nat \<times> nat \<times> nat) option"
  escape_string :: "string \<Rightarrow> string"
  unquote :: "string \<Rightarrow> string"
  call_importers :: "string \<Rightarrow> Parser \<Rightarrow> Import \<Rightarrow> bool \<times> Import"
  import_url :: "Import \<Rightarrow> string \<Rightarrow> Parser \<Rightarrow> Import"
  error_context :: "bool \<Rightarrow> Parser \<Rightarrow> string \<times> string"
  lexed_hex_color :: "string \<Rightarrow> Expression"
  parse_string :: "Parser \<Rightarrow> Expression result"
  parse_value_schema :: "nat \<Rightarrow> Parser \<Rightarrow> Expression result"
  parse_identifier_schema :: "Parser \<Rightarrow> Expression result"
  parse_ie_property :: "Parser \<Rightarrow> Expression result"
  parse_ie_keyword_arg :: "Parser \<Rightarrow> Expression result"
  parse_calc_function :: "Parser \<Rightarrow> Expression result"
  parse_url_function_string :: "Parser \<Rightarrow> Expression result"
  parse_url_function_argument :: "Parser \<Rightarrow> (Expression option) result"
  parse_interpolated_chunk :: "Token \<Rightarrow> bool \<Rightarrow> bool \<Rightarrow> Parser \<Rightarrow> Expression result"
  parse_css_variable_value :: "Parser \<Rightarrow> Expression result"
  parseSelectorList :: "bool \<Rightarrow> Parser \<Rightarrow> (Foreign \<times> bool) result"
  parse_selector_schema :: "nat \<Rightarrow> bool \<Rightarrow> Parser \<Rightarrow> Foreign result"
  parse_media_queries :: "Parser \<Rightarrow> Foreign result"
  parseMediaRule :: "Parser \<Rightarrow> Statement result"
  parse_at_root_block :: "Parser \<Rightarrow> Statement result"
  parse_include_directive :: "Parser \<Rightarrow> Statement result"
  parse_content_directive :: "Parser \<Rightarrow> Statement result"
  parse_supports_directive :: "Parser \<Rightarrow> Statement result"
  parse_directive :: "Parser \<Rightarrow> Statement result"

text \<open>Sequencing: an exception ends the parse, a result goes on with the new state.\<close>

definition bind :: "'a result \<Rightarrow> ('a \<Rightarrow> Parser \<Rightarrow> 'b result) \<Rightarrow> 'b result" where
  "bind r f = (case r of Inl e \<Rightarrow> Inl e | Inr (x, st) \<Rightarrow> f x st)"

text \<open>
  \<open>css_error(msg, prefix, middle, trim)\<close> ends in
  \<open>error(msg + prefix + quote(left) + middle + quote(right))\<close>.
\<close>

definition css_error :: "Env \<Rightarrow> string \<Rightarrow> string \<Rightarrow> string \<Rightarrow> bool \<Rightarrow> Parser \<Rightarrow> Exception" where
  "css_error E msg prefix middle trim st =
     (case error_context E trim st of
        (left, right) \<Rightarrow> error (msg @ prefix @ left @ middle @ right) st)"

text \<open>
  Modelled from the spec: \<open>NESTING_GUARD(nestings)\<close> (a macro of parser.hpp, with \<open>MAX_NESTING\<close> 512): the
  counter is one higher for the rest of the function's body, beyond the limit the
  body is not run, and the old value is back when the function returns.
\<close>

definition MAX_NESTING :: nat where "MAX_NESTING = 512"

definition NESTING_GUARD :: "(Parser \<Rightarrow> 'a result) \<Rightarrow> Parser \<Rightarrow> 'a result" where
  "NESTING_GUARD body st =
     (let old = nestings st; st1 = st\<lparr>nestings := old + 1\<rparr>
      in if nestings st1 > MAX_NESTING then Inl NestingLimitError
         else (case body st1 of
                 Inl e \<Rightarrow> Inl e
               | Inr (x, st2) \<Rightarrow> Inr (x, st2\<lparr>nestings := old\<rparr>)))"

text \<open>
  The fuel of the loops: a loop that lexes a token in every round makes at most as
  many rounds as bytes are left.
\<close>

definition loop_fuel :: "Parser \<Rightarrow> nat" where
  "loop_fuel st = Suc (endpos st - position st)"

text \<open>
  \<open>Util::normalize_underscores\<close> (4.2 of the specification: \<open>_\<close> and \<open>-\<close> are
  equivalent in names, the canonical form uses \<open>-\<close>).
\<close>

definition normalize_underscores :: "string \<Rightarrow> string" where
  "normalize_underscores str = map (\<lambda>c. if c = CHR ''_'' then CHR ''-'' else c) str"

section \<open>Delayed expressions\<close>

text \<open>
  Modelled from the spec: methods of the node classes (ast.hpp): \<open>set_delayed\<close> sets the flag of the node,
  and a \<open>Binary_Expression\<close> passes it on to both operands (a \<open>List\<close> does not set
  its children, as the comment in \<open>parse_comma_list\<close> says); a \<open>String_Schema\<close> has
  interpolants when one of its elements is marked as interpolant.
\<close>

fun set_delayed :: "bool \<Rightarrow> Expression \<Rightarrow> Expression" where
  "set_delayed d (Expression (Binary_Expression oper l r) dl ip) =
     Expression (Binary_Expression oper (set_delayed d l) (set_delayed d r)) d ip"
| "set_delayed d (Expression n dl ip) = Expression n d ip"

definition with_delayed :: "bool \<Rightarrow> Expression \<Rightarrow> Expression" where
  "with_delayed d e = Expression (node e) d (is_interpolant e)"

definition with_interpolant :: "bool \<Rightarrow> Expression \<Rightarrow> Expression" where
  "with_interpolant b e = Expression (node e) (is_delayed e) b"

definition is_schema_with_interpolants :: "Expression \<Rightarrow> bool" where
  "is_schema_with_interpolants e =
     (case node e of String_Schema els \<Rightarrow> list_ex is_interpolant els | _ \<Rightarrow> False)"

definition is_Binary :: "Expression \<Rightarrow> bool" where
  "is_Binary e = (case node e of Binary_Expression oper l r \<Rightarrow> True | _ \<Rightarrow> False)"

text \<open>\<open>SASS_MEMORY_NEW(Binary_Expression, pstate, oper, lhs, rhs)\<close>.\<close>

definition Binary :: "Operand \<Rightarrow> Expression \<Rightarrow> Expression \<Rightarrow> Expression" where
  "Binary oper l r = new (Binary_Expression oper l r)"

section \<open>fold_operands\<close>

text \<open>The overload with one operator for all operands.\<close>

fun fold_operands1 :: "Expression \<Rightarrow> Expression list \<Rightarrow> Operand \<Rightarrow> Expression" where
  "fold_operands1 base [] oper = base"
| "fold_operands1 base (x # xs) oper = fold_operands1 (Binary oper base x) xs oper"

text \<open>
  The overload with one operator per operand, \<open>fold_operands(base, operands, ops, i)\<close>.
  \<open>entry\<close> tells the head of the function (the test of \<open>base\<close>) from the rounds of its
  \<open>for\<close> loop, which go on with the same \<open>i\<close>.  An index beyond \<open>ops\<close> is a read out
  of range.
\<close>

definition schema_ops :: "Sass_OP list" where
  "schema_ops = [EQ, ADD, DIV, MUL, NEQ, LT, GT, LTE, GTE]"

definition fold_finish :: "Expression \<Rightarrow> Expression" where
  "fold_finish base =
     (case node base of
        Binary_Expression oper l r \<Rightarrow>
          (let base1 = (if is_Binary l then set_delayed False base else base)
           in if is_Binary r then set_delayed False base1 else base1)
      | _ \<Rightarrow> base)"

function fold_operands_from ::
  "bool \<Rightarrow> Expression \<Rightarrow> Expression list \<Rightarrow> Operand list \<Rightarrow> nat \<Rightarrow> Exception + Expression" where
  "fold_operands_from entry base operands ops i =
     (if entry \<and> is_schema_with_interpolants base \<and> i + 1 < length operands \<and>
         (ops = [] \<or> operand (ops ! 0) \<in> set schema_ops)
      then (if ops = [] then Inl (Crash ''ops[0]'')
            else (case fold_operands_from True (operands ! i) operands ops (i + 1) of
                    Inl e \<Rightarrow> Inl e
                  | Inr rhs \<Rightarrow> Inr (Binary (ops ! 0) base rhs)))
      else if i < length operands then
        (if \<not> i < length ops then Inl (Crash ''ops[i]'')
         else if is_schema_with_interpolants (operands ! i) then
           (if i + 1 < length operands then
              (case fold_operands_from True (operands ! (i + 1)) operands ops (i + 2) of
                 Inl e \<Rightarrow> Inl e
               | Inr rhs \<Rightarrow>
                   Inr (Binary (ops ! i) base (Binary (ops ! i) (operands ! i) rhs)))
            else Inr (Binary (ops ! i) base (operands ! i)))
         else
           (let b = Binary (ops ! i) base (operands ! i);
                b' = (if operand (ops ! i) = DIV \<and> is_delayed base \<and> is_delayed (operands ! i)
                      then with_delayed True b else b)
            in fold_operands_from False b' operands ops (i + 1)))
      else Inr (fold_finish base))"
  by pat_completeness auto
termination
  by (relation "measure (\<lambda>(entry, base, operands, ops, i). length operands - i)") auto

declare fold_operands_from.simps [simp del]

definition fold_operands :: "Expression \<Rightarrow> Expression list \<Rightarrow> Operand list \<Rightarrow> nat \<Rightarrow> Exception + Expression" where
  "fold_operands base operands ops i = fold_operands_from True base operands ops i"

section \<open>Values\<close>

text \<open>
  \<open>color_or_string(lexed)\<close>: a colour name gives a copy of the colour of the table,
  delayed and displayed as written; any other text a \<open>String_Constant\<close>.
\<close>

definition color_or_string :: "Env \<Rightarrow> string \<Rightarrow> Expression" where
  "color_or_string E txt =
     (case name_to_color E txt of
        Some (r, g, b, a) \<Rightarrow> Expression (Color_RGBA r g b a txt) True False
      | None \<Rightarrow> new (String_Constant txt))"

text \<open>
  \<open>parse_value\<close>, the chain of \<open>if (lex< ... >()) return ...;\<close> in the order of the
  source.  The warning about \<open>&&\<close> only prints.
\<close>

definition parse_value :: "Env \<Rightarrow> Parser \<Rightarrow> Expression result" where
  "parse_value E st0 =
     (let L = prelex E;
          st = (case lex L css_comments False st0 of Some s \<Rightarrow> s | None \<Rightarrow> st0)
      in case lex L ampersand True st of
           Some st1 \<Rightarrow> Inr (new Parent_Reference, st1)
         | None \<Rightarrow>
        (case lex L kwd_important True st of
           Some st1 \<Rightarrow> Inr (new (String_Constant ''!important''), st1)
         | None \<Rightarrow>
        (case lex L (sequence [percentage, lookahead number]) True st of
           Some st1 \<Rightarrow> Inr (lexed_percentage (lexed_string st1), st1)
         | None \<Rightarrow>
        (case lex L (sequence [number, lookahead (sequence [op, number])]) True st of
           Some st1 \<Rightarrow> Inr (lexed_number (lexed_string st1), st1)
         | None \<Rightarrow>
        (case lex L (sequence [quoted_string, lookahead (exactly (CHR ''-''))]) True st of
           Some st1 \<Rightarrow> parse_string E st1
         | None \<Rightarrow>
        (case peek L value_schema None st of
           Some stop \<Rightarrow> parse_value_schema E stop st
         | None \<Rightarrow>
        (case lex L quoted_string True st of
           Some st1 \<Rightarrow> parse_string E st1
         | None \<Rightarrow>
        (case lex L kwd_true True st of
           Some st1 \<Rightarrow> Inr (new (Boolean True), st1)
         | None \<Rightarrow>
        (case lex L kwd_false True st of
           Some st1 \<Rightarrow> Inr (new (Boolean False), st1)
         | None \<Rightarrow>
        (case lex L kwd_null True st of
           Some st1 \<Rightarrow> Inr (new Null, st1)
         | None \<Rightarrow>
        (case lex L identifier_tok True st of
           Some st1 \<Rightarrow> Inr (color_or_string E (lexed_string st1), st1)
         | None \<Rightarrow>
        (case lex L percentage True st of
           Some st1 \<Rightarrow> Inr (lexed_percentage (lexed_string st1), st1)
         | None \<Rightarrow>
        (case lex L (sequence [alternatives [hex, hex0], negate (exactly (CHR ''-''))]) True st of
           Some st1 \<Rightarrow> Inr (lexed_hex_color E (lexed_string st1), st1)
         | None \<Rightarrow>
        (case lex L hexa True st of
           Some st1 \<Rightarrow> Inr (lexed_hex_color E (lexed_string st1), st1)
         | None \<Rightarrow>
        (case lex L (sequence [exactly (CHR ''#''), identifier_tok]) True st of
           Some st1 \<Rightarrow> Inr (new (String_Quoted (lexed_string st1)), st1)
         | None \<Rightarrow>
        (case lex L (sequence [dimension,
                 optional (sequence [exactly (CHR ''-''), lookahead (alternatives [space])])]) True st of
           Some st1 \<Rightarrow>
             (case lexed_dimension L (is_number E) (lexed_string st1) of
                Inl e \<Rightarrow> Inl e
              | Inr nr \<Rightarrow> Inr (nr, st1))
         | None \<Rightarrow>
        (case lex L (sequence [static_component, one_plus strict_identifier]) True st of
           Some st1 \<Rightarrow> Inr (new (String_Constant (lexed_string st1)), st1)
         | None \<Rightarrow>
        (case lex L number True st of
           Some st1 \<Rightarrow> Inr (lexed_number (lexed_string st1), st1)
         | None \<Rightarrow>
        (case lex L variable True st of
           Some st1 \<Rightarrow> Inr (new (Variable (normalize_underscores (lexed_string st1))), st1)
         | None \<Rightarrow>
           Inl (css_error E ''Invalid CSS'' '' after '' '': expected expression (e.g. 1px, bold), was '' True st)
        )))))))))))))))))))"

section \<open>Expressions\<close>

text \<open>
  The expression parser is recursive through \<open>parse_factor\<close> only: every function
  of this section takes the factor parser \<open>pf\<close> as an argument, and \<open>parse_factor\<close>
  ties the knot below.  The lines that store the source range in the new node
  (\<open>state.offset = ...; ex->pstate(state)\<close>) have no counterpart.
\<close>

type_synonym factor_parser = "Parser \<Rightarrow> Expression result"

definition advanceToNextToken :: "prelexer \<Rightarrow> Parser \<Rightarrow> Parser" where
  "advanceToNextToken L st =
     (let st1 = (case lex L css_comments False st of Some s \<Rightarrow> s | None \<Rightarrow> st);
          ps = pstate st1;
          off = offset ps
      in st1\<lparr>pstate := \<lparr>line = line ps + line off,
                          column = (if line off > 0 then column off else column ps + column off),
                          offset = \<lparr>line = 0, column = 0\<rparr>\<rparr>\<rparr>)"

text \<open>\<open>parse_operators\<close>: a factor, then \<open>while (lex_css< class_char< static_ops > >())\<close>.\<close>

primrec operators_loop ::
  "nat \<Rightarrow> Env \<Rightarrow> factor_parser \<Rightarrow> bool \<Rightarrow> Expression list \<Rightarrow> Operand list \<Rightarrow> Parser
     \<Rightarrow> (Expression list \<times> Operand list) result" where
  "operators_loop 0 E pf left_ws operands operators st = Inl OutOfFuel"
| "operators_loop (Suc n) E pf left_ws operands operators st =
     (case lex_css (prelex E) (class_char static_ops) st of
        None \<Rightarrow> Inr ((operands, operators), st)
      | Some st1 \<Rightarrow>
          (let right_ws = (peek (prelex E) css_comments None st1 \<noteq> None);
               c = byte_at (buffer st1) (tok_begin (lexed st1))
           in case (if c = CHR ''*'' then Some MUL
                    else if c = CHR ''/'' then Some DIV
                    else if c = CHR ''%'' then Some MOD
                    else None) of
                None \<Rightarrow> Inl (Runtime_Error ''unknown static op parsed'')
              | Some oper \<Rightarrow>
                  bind (pf st1) (\<lambda>x st2.
                    operators_loop n E pf (peek (prelex E) css_comments None st2 \<noteq> None)
                      (operands @ [x])
                      (operators @ [\<lparr>operand = oper, ws_before = left_ws, ws_after = right_ws\<rparr>])
                      st2)))"

definition parse_operators :: "Env \<Rightarrow> factor_parser \<Rightarrow> Parser \<Rightarrow> Expression result" where
  "parse_operators E pf s_in =
     NESTING_GUARD (\<lambda>st0.
       (let st = advanceToNextToken (prelex E) st0
        in bind (pf st) (\<lambda>factor st1.
             bind (operators_loop (loop_fuel st1) E pf
                     (peek (prelex E) css_comments None st1 \<noteq> None) [] [] st1)
               (\<lambda>(operands, operators) st2.
                  case fold_operands factor operands operators 0 of
                    Inl e \<Rightarrow> Inl e
                  | Inr ex \<Rightarrow> Inr (ex, st2))))) s_in"

text \<open>
  \<open>parse_expression\<close>: the test whether an additive operator follows, then
  \<open>while (lex_css< exactly<'+'> >() || (!peek_css< ... >(position) && lex_css< ... >()))\<close>.
\<close>

definition dashes_identifier :: mx where
  "dashes_identifier = sequence [zero_plus (exactly (CHR ''-'')), identifier_tok]"

primrec expression_loop ::
  "nat \<Rightarrow> Env \<Rightarrow> factor_parser \<Rightarrow> bool \<Rightarrow> Expression list \<Rightarrow> Operand list \<Rightarrow> Parser
     \<Rightarrow> (Expression list \<times> Operand list) result" where
  "expression_loop 0 E pf left_ws operands operators st = Inl OutOfFuel"
| "expression_loop (Suc n) E pf left_ws operands operators st =
     (case (case lex_css (prelex E) (exactly (CHR ''+'')) st of
              Some st1 \<Rightarrow> Some st1
            | None \<Rightarrow>
                if peek_css (prelex E) dashes_identifier (Some (position st)) st = None
                then lex_css (prelex E) (sequence [negate digit, exactly (CHR ''-'')]) st
                else None) of
        None \<Rightarrow> Inr ((operands, operators), st)
      | Some st1 \<Rightarrow>
          (let right_ws = (peek (prelex E) css_comments None st1 \<noteq> None);
               oper = (if lexed_string st1 = ''+'' then ADD else SUB)
           in bind (parse_operators E pf st1) (\<lambda>x st2.
                expression_loop n E pf (peek (prelex E) css_comments None st2 \<noteq> None)
                  (operands @ [x])
                  (operators @ [\<lparr>operand = oper, ws_before = left_ws, ws_after = right_ws\<rparr>])
                  st2)))"

definition parse_expression :: "Env \<Rightarrow> factor_parser \<Rightarrow> Parser \<Rightarrow> Expression result" where
  "parse_expression E pf s_in =
     NESTING_GUARD (\<lambda>st0.
       (let L = prelex E; st = advanceToNextToken L st0
        in bind (parse_operators E pf st) (\<lambda>lhs st1.
             (let p = Some (position st1)
              in if \<not> (peek_css L (exactly (CHR ''+'')) p st1 \<noteq> None \<or>
                        (peek L no_spaces p st1 \<noteq> None \<and>
                         peek L (sequence [negate unsigned_number, exactly (CHR ''-''), negate space]) p st1 \<noteq> None) \<or>
                        peek L (sequence [negate unsigned_number, exactly (CHR ''-''),
                                          negate unsigned_number]) p st1 \<noteq> None) \<or>
                    peek L dashes_identifier p st1 \<noteq> None
                 then Inr (lhs, st1)
                 else
                   bind (expression_loop (loop_fuel st1) E pf
                           (peek L css_comments None st1 \<noteq> None) [] [] st1)
                     (\<lambda>(operands, operators) st2.
                        if operands = [] then Inr (lhs, st2)
                        else (case fold_operands lhs operands operators 0 of
                                Inl e \<Rightarrow> Inl e
                              | Inr ex \<Rightarrow> Inr (ex, st2))))))) s_in"

text \<open>
  \<open>parse_relation\<close>: \<open>while (peek< alternatives < kwd_eq, ... > >(position))\<close>; the
  operator is the first of the six that lexes, in the order of the conditional
  expression, and \<open>EQ\<close> when none does.
\<close>

definition lex_relation :: "prelexer \<Rightarrow> Parser \<Rightarrow> Sass_OP \<times> Parser" where
  "lex_relation L st =
     (case lex L kwd_eq True st of Some s \<Rightarrow> (EQ, s) | None \<Rightarrow>
     (case lex L kwd_neq True st of Some s \<Rightarrow> (NEQ, s) | None \<Rightarrow>
     (case lex L kwd_gte True st of Some s \<Rightarrow> (GTE, s) | None \<Rightarrow>
     (case lex L kwd_lte True st of Some s \<Rightarrow> (LTE, s) | None \<Rightarrow>
     (case lex L kwd_gt True st of Some s \<Rightarrow> (GT, s) | None \<Rightarrow>
     (case lex L kwd_lt True st of Some s \<Rightarrow> (LT, s) | None \<Rightarrow> (EQ, st)))))))"

primrec relation_loop ::
  "nat \<Rightarrow> Env \<Rightarrow> factor_parser \<Rightarrow> Expression list \<Rightarrow> Operand list \<Rightarrow> Parser
     \<Rightarrow> (Expression list \<times> Operand list) result" where
  "relation_loop 0 E pf operands operators st = Inl OutOfFuel"
| "relation_loop (Suc n) E pf operands operators st =
     (if peek (prelex E) (alternatives [kwd_eq, kwd_neq, kwd_gte, kwd_gt, kwd_lte, kwd_lt])
           (Some (position st)) st = None
      then Inr ((operands, operators), st)
      else
        (let left_ws = (peek (prelex E) css_comments None st \<noteq> None)
         in case lex_relation (prelex E) st of (oper, st1) \<Rightarrow>
              (let right_ws = (peek (prelex E) css_comments None st1 \<noteq> None)
               in bind (parse_expression E pf st1) (\<lambda>x st2.
                    relation_loop n E pf (operands @ [x])
                      (operators @ [\<lparr>operand = oper, ws_before = left_ws, ws_after = right_ws\<rparr>])
                      st2))))"

definition parse_relation :: "Env \<Rightarrow> factor_parser \<Rightarrow> Parser \<Rightarrow> Expression result" where
  "parse_relation E pf s_in =
     NESTING_GUARD (\<lambda>st0.
       (let st = advanceToNextToken (prelex E) st0
        in bind (parse_expression E pf st) (\<lambda>lhs st1.
             bind (relation_loop (loop_fuel st1) E pf [] [] st1)
               (\<lambda>(operands, operators) st2.
                  case fold_operands lhs operands operators 0 of
                    Inl e \<Rightarrow> Inl e
                  | Inr ex \<Rightarrow> Inr (ex, st2))))) s_in"

text \<open>
  \<open>parse_conjunction\<close> and \<open>parse_disjunction\<close>:
  \<open>while (lex_css< kwd >()) operands.push_back(sub());\<close>
\<close>

primrec keyword_loop ::
  "nat \<Rightarrow> prelexer \<Rightarrow> mx \<Rightarrow> (Parser \<Rightarrow> Expression result) \<Rightarrow> Expression list \<Rightarrow> Parser
     \<Rightarrow> (Expression list) result" where
  "keyword_loop 0 L kwd sub operands st = Inl OutOfFuel"
| "keyword_loop (Suc n) L kwd sub operands st =
     (case lex_css L kwd st of
        None \<Rightarrow> Inr (operands, st)
      | Some st1 \<Rightarrow> bind (sub st1) (\<lambda>x st2. keyword_loop n L kwd sub (operands @ [x]) st2))"

definition parse_conjunction :: "Env \<Rightarrow> factor_parser \<Rightarrow> Parser \<Rightarrow> Expression result" where
  "parse_conjunction E pf s_in =
     NESTING_GUARD (\<lambda>st0.
       (let st = advanceToNextToken (prelex E) st0
        in bind (parse_relation E pf st) (\<lambda>rel st1.
             bind (keyword_loop (loop_fuel st1) (prelex E) kwd_and (parse_relation E pf) [] st1)
               (\<lambda>operands st2.
                  if operands = [] then Inr (rel, st2)
                  else Inr (fold_operands1 rel operands
                              \<lparr>operand = AND, ws_before = False, ws_after = False\<rparr>, st2))))) s_in"

definition parse_disjunction :: "Env \<Rightarrow> factor_parser \<Rightarrow> Parser \<Rightarrow> Expression result" where
  "parse_disjunction E pf s_in =
     NESTING_GUARD (\<lambda>st0.
       (let st = advanceToNextToken (prelex E) st0
        in bind (parse_conjunction E pf st) (\<lambda>conj st1.
             bind (keyword_loop (loop_fuel st1) (prelex E) kwd_or (parse_conjunction E pf) [] st1)
               (\<lambda>operands st2.
                  if operands = [] then Inr (conj, st2)
                  else Inr (fold_operands1 conj operands
                              \<lparr>operand = OR, ws_before = False, ws_after = False\<rparr>, st2))))) s_in"

section \<open>Lists and maps\<close>

text \<open>
  \<open>SASS_MEMORY_NEW(List, pstate, size, separator, is_arglist, is_bracketed)\<close>; the
  defaults are \<open>SASS_SPACE\<close>, \<open>false\<close> and \<open>false\<close>.
\<close>

definition new_List :: "Expression list \<Rightarrow> Sass_Separator \<Rightarrow> bool \<Rightarrow> Expression" where
  "new_List els sep bracketed = new (List els sep False bracketed)"

text \<open>
  \<open>parse_space_list\<close>: one disjunction; when a terminator follows it is returned
  as it is, else a space list is built, which takes a further element
  \<open>while (!(peek_css< space_list_terminator >(position)) &&
  peek_css< optional_css_whitespace >() != end)\<close>.
\<close>

primrec space_list_loop ::
  "nat \<Rightarrow> Env \<Rightarrow> factor_parser \<Rightarrow> Expression list \<Rightarrow> Parser \<Rightarrow> (Expression list) result" where
  "space_list_loop 0 E pf els st = Inl OutOfFuel"
| "space_list_loop (Suc n) E pf els st =
     (if peek_css (prelex E) space_list_terminator (Some (position st)) st = None \<and>
         peek_css (prelex E) optional_css_whitespace None st \<noteq> Some (endpos st)
      then bind (parse_disjunction E pf st) (\<lambda>x st1. space_list_loop n E pf (els @ [x]) st1)
      else Inr (els, st))"

definition parse_space_list :: "Env \<Rightarrow> factor_parser \<Rightarrow> Parser \<Rightarrow> Expression result" where
  "parse_space_list E pf s_in =
     NESTING_GUARD (\<lambda>st.
       bind (parse_disjunction E pf st) (\<lambda>disj1 st1.
         if peek_css (prelex E) space_list_terminator (Some (position st1)) st1 \<noteq> None
         then Inr (disj1, st1)
         else bind (space_list_loop (loop_fuel st1) E pf [disj1] st1)
                (\<lambda>els st2. Inr (new_List els SASS_SPACE False, st2)))) s_in"

text \<open>
  The loop shared by \<open>parse_comma_list\<close> and \<open>parse_bracket_list\<close>:
  \<open>while (lex_css< exactly<','> >()) { if (peek_css< list_terminator >(position)) break;
  list->append(parse_space_list()); }\<close>
\<close>

primrec comma_list_loop ::
  "nat \<Rightarrow> Env \<Rightarrow> factor_parser \<Rightarrow> Expression list \<Rightarrow> Parser \<Rightarrow> (Expression list) result" where
  "comma_list_loop 0 E pf els st = Inl OutOfFuel"
| "comma_list_loop (Suc n) E pf els st =
     (case lex_css (prelex E) (exactly (CHR '','')) st of
        None \<Rightarrow> Inr (els, st)
      | Some st1 \<Rightarrow>
          if peek_css (prelex E) list_terminator (Some (position st1)) st1 \<noteq> None
          then Inr (els, st1)
          else bind (parse_space_list E pf st1) (\<lambda>x st2. comma_list_loop n E pf (els @ [x]) st2))"

definition parse_comma_list :: "Env \<Rightarrow> factor_parser \<Rightarrow> bool \<Rightarrow> Parser \<Rightarrow> Expression result" where
  "parse_comma_list E pf delayed s_in =
     NESTING_GUARD (\<lambda>st.
       if peek_css (prelex E) list_terminator (Some (position st)) st \<noteq> None
       then Inr (new_List [] SASS_SPACE False, st)
       else
         bind (parse_space_list E pf st) (\<lambda>list st1.
           if peek_css (prelex E) (exactly (CHR '','')) (Some (position st1)) st1 = None
           then Inr (if \<not> delayed then set_delayed False list else list, st1)
           else bind (comma_list_loop (loop_fuel st1) E pf [list] st1)
                  (\<lambda>els st2. Inr (new_List els SASS_COMMA False, st2)))) s_in"

definition parse_list :: "Env \<Rightarrow> factor_parser \<Rightarrow> bool \<Rightarrow> Parser \<Rightarrow> Expression result" where
  "parse_list E pf delayed st = NESTING_GUARD (parse_comma_list E pf delayed) st"

text \<open>
  \<open>parse_bracket_list\<close>.  Without a comma the space list is wrapped in a new
  bracketed list unless it is an unbracketed list not written in parentheses, which
  is marked as bracketed itself.
\<close>

definition parse_bracket_list :: "Env \<Rightarrow> factor_parser \<Rightarrow> Parser \<Rightarrow> Expression result" where
  "parse_bracket_list E pf s_in =
     NESTING_GUARD (\<lambda>st.
       if peek_css (prelex E) list_terminator (Some (position st)) st \<noteq> None
       then Inr (new_List [] SASS_SPACE True, st)
       else
         (let has_paren = (peek_css (prelex E) (exactly (CHR ''('')) None st \<noteq> None)
          in bind (parse_space_list E pf st) (\<lambda>list st1.
               if peek_css (prelex E) (exactly (CHR '','')) (Some (position st1)) st1 = None
               then
                 (case node list of
                    List els sep arglist bracketed \<Rightarrow>
                      if bracketed \<or> has_paren
                      then Inr (new_List [list] SASS_SPACE True, st1)
                      else Inr (Expression (List els sep arglist True) (is_delayed list)
                                  (is_interpolant list), st1)
                  | _ \<Rightarrow> Inr (new_List [list] SASS_SPACE True, st1))
               else bind (comma_list_loop (loop_fuel st1) E pf [list] st1)
                      (\<lambda>els st2. Inr (new_List els SASS_COMMA True, st2))))) s_in"

text \<open>
  \<open>parse_map\<close>.  The first key is parsed by \<open>parse_list()\<close>; without a colon behind
  it, it is the result.  The further pairs are read
  \<open>while (lex_css< exactly<','> >())\<close>, a comma before \<open>)\<close> ends the loop.
\<close>

primrec map_loop ::
  "nat \<Rightarrow> Env \<Rightarrow> factor_parser \<Rightarrow> Expression list \<Rightarrow> Parser \<Rightarrow> (Expression list) result" where
  "map_loop 0 E pf els st = Inl OutOfFuel"
| "map_loop (Suc n) E pf els st =
     (case lex_css (prelex E) (exactly (CHR '','')) st of
        None \<Rightarrow> Inr (els, st)
      | Some st1 \<Rightarrow>
          if peek_css (prelex E) (exactly (CHR '')'')) (Some (position st1)) st1 \<noteq> None
          then Inr (els, st1)
          else
            bind (parse_space_list E pf st1) (\<lambda>key st2.
              case lex (prelex E) (exactly (CHR '':'')) True st2 of
                None \<Rightarrow> Inl (css_error E ''Invalid CSS'' '' after '' '': expected \":\", was '' True st2)
              | Some st3 \<Rightarrow>
                  bind (parse_space_list E pf st3) (\<lambda>val st4.
                    map_loop n E pf (els @ [key, val]) st4)))"

definition is_comma_list :: "Expression \<Rightarrow> bool" where
  "is_comma_list e =
     (case node e of List els sep arglist bracketed \<Rightarrow> sep = SASS_COMMA | _ \<Rightarrow> False)"

definition parse_map :: "Env \<Rightarrow> factor_parser \<Rightarrow> Parser \<Rightarrow> Expression result" where
  "parse_map E pf s_in =
     NESTING_GUARD (\<lambda>st.
       bind (parse_list E pf False st) (\<lambda>key st1.
         case lex_css (prelex E) (exactly (CHR '':'')) st1 of
           None \<Rightarrow> Inr (key, st1)
         | Some st2 \<Rightarrow>
             if is_comma_list key
             then Inl (css_error E ''Invalid CSS'' '' after '' '': expected \")\", was '' True st2)
             else
               bind (parse_space_list E pf st2) (\<lambda>val st3.
                 bind (map_loop (loop_fuel st3) E pf [key, val] st3)
                   (\<lambda>els st4. Inr (new_List els SASS_HASH False, st4))))) s_in"

section \<open>Function calls and factors\<close>

text \<open>
  \<open>parse_argument\<close>.  The parser builds no \<open>Map\<close> node, so
  \<open>val->concrete_type() == Expression::MAP\<close> is false and a keyword argument is a
  list with the separator \<open>SASS_HASH\<close>.
\<close>

definition is_hash_list :: "Expression \<Rightarrow> bool" where
  "is_hash_list e =
     (case node e of List els sep arglist bracketed \<Rightarrow> sep = SASS_HASH | _ \<Rightarrow> False)"

definition parse_argument :: "Env \<Rightarrow> factor_parser \<Rightarrow> Parser \<Rightarrow> Argument result" where
  "parse_argument E pf st =
     (let L = prelex E
      in if peek L (alternatives [exactly (CHR '',''), exactly (CHR ''{''), exactly (CHR '';'')]) None st \<noteq> None
         then Inl (css_error E ''Invalid CSS'' '' after '' '': expected \")\", was '' True st)
         else if peek_css L (sequence [exactly_str hash_lbrace, exactly_str rbrace]) None st \<noteq> None
         then Inl (css_error E ''Invalid CSS'' '' after '' '': expected expression (e.g. 1px, bold), was ''
                     True (st\<lparr>position := position st + 2\<rparr>))
         else if peek_css L (sequence [variable, optional_css_comments, exactly (CHR '':'')]) None st \<noteq> None
         then
           (let st1 = (case lex_css L variable st of Some s \<Rightarrow> s | None \<Rightarrow> st);
                name = normalize_underscores (lexed_string st1);
                st2 = (case lex_css L (exactly (CHR '':'')) st1 of Some s \<Rightarrow> s | None \<Rightarrow> st1)
            in bind (parse_space_list E pf st2) (\<lambda>val st3.
                 Inr (Argument val name False False, st3)))
         else
           bind (parse_space_list E pf st) (\<lambda>val st1.
             case lex_css L (exactly_str ellipsis) st1 of
               Some st2 \<Rightarrow>
                 if is_hash_list val then Inr (Argument val [] False True, st2)
                 else Inr (Argument val [] True False, st2)
             | None \<Rightarrow> Inr (Argument val [] False False, st1)))"

text \<open>
  \<open>parse_arguments\<close>:
  \<open>do { if (peek< exactly<')'> >()) break; args->append(parse_argument()); }
  while (lex_css< exactly<','> >());\<close>
\<close>

primrec arguments_loop ::
  "nat \<Rightarrow> Env \<Rightarrow> factor_parser \<Rightarrow> Argument list \<Rightarrow> Parser \<Rightarrow> (Argument list) result" where
  "arguments_loop 0 E pf args st = Inl OutOfFuel"
| "arguments_loop (Suc n) E pf args st =
     (if peek (prelex E) (exactly (CHR '')'')) None st \<noteq> None then Inr (args, st)
      else bind (parse_argument E pf st) (\<lambda>a st1.
             case lex_css (prelex E) (exactly (CHR '','')) st1 of
               Some st2 \<Rightarrow> arguments_loop n E pf (args @ [a]) st2
             | None \<Rightarrow> Inr (args @ [a], st1)))"

definition parse_arguments :: "Env \<Rightarrow> factor_parser \<Rightarrow> Parser \<Rightarrow> (Argument list) result" where
  "parse_arguments E pf st =
     (case lex_css (prelex E) (exactly (CHR ''('')) st of
        None \<Rightarrow> Inr ([], st)
      | Some st1 \<Rightarrow>
          bind (if peek_css (prelex E) (exactly (CHR '')'')) None st1 = None
                then arguments_loop (loop_fuel st1) E pf [] st1
                else Inr ([], st1))
            (\<lambda>args st2.
               case lex_css (prelex E) (exactly (CHR '')'')) st2 of
                 None \<Rightarrow> Inl (css_error E ''Invalid CSS'' '' after ''
                                 '': expected expression (e.g. 1px, bold), was '' True st2)
               | Some st3 \<Rightarrow> Inr (args, st3)))"

text \<open>
  \<open>parse_function_call\<close>.  \<open>stack.back()\<close> is read only when the normalised name is
  \<open>content-exists\<close>; on an empty stack it is undefined.
\<close>

definition parse_function_call :: "Env \<Rightarrow> factor_parser \<Rightarrow> Parser \<Rightarrow> Expression result" where
  "parse_function_call E pf st =
     (let st1 = (case lex (prelex E) identifier_tok True st of Some s \<Rightarrow> s | None \<Rightarrow> st);
          name = lexed_string st1
      in if normalize_underscores name = ''content-exists'' \<and> stack st1 = []
         then Inl (Crash ''stack.back()'')
         else if normalize_underscores name = ''content-exists'' \<and> last (stack st1) \<noteq> Mixin
         then Inl (error ''Cannot call content-exists() except within a mixin.'' st1)
         else bind (parse_arguments E pf st1) (\<lambda>args st2.
                Inr (new (Function_Call name args), st2)))"

definition parse_function_call_schema :: "Env \<Rightarrow> factor_parser \<Rightarrow> Parser \<Rightarrow> Expression result" where
  "parse_function_call_schema E pf st =
     bind (parse_identifier_schema E st) (\<lambda>name st1.
       bind (parse_arguments E pf st1) (\<lambda>args st2.
         Inr (new (Function_Call_Schema name args), st2)))"

text \<open>
  \<open>SASS_MEMORY_NEW(Unary_Expression, pstate, type, parse_factor())\<close> followed by
  \<open>ex->is_delayed(ex->operand()->is_delayed())\<close>.
\<close>

definition Unary :: "Unary_Type \<Rightarrow> Expression \<Rightarrow> Expression" where
  "Unary t x = Expression (Unary_Expression t x) (is_delayed x) False"

text \<open>The body of \<open>parse_factor\<close>; \<open>pf\<close> stands for its recursive calls.\<close>

definition parse_factor_step :: "Env \<Rightarrow> factor_parser \<Rightarrow> Parser \<Rightarrow> Expression result" where
  "parse_factor_step E pf s_in =
     NESTING_GUARD (\<lambda>st0.
       (let L = prelex E;
            st = (case lex L css_comments False st0 of Some s \<Rightarrow> s | None \<Rightarrow> st0)
        in case lex_css L (exactly (CHR ''('')) st of
             Some st1 \<Rightarrow>
               bind (parse_map E pf st1) (\<lambda>val st2.
                 case lex_css L (exactly (CHR '')'')) st2 of
                   None \<Rightarrow> Inl (error ''unclosed parenthesis'' st2)
                 | Some st3 \<Rightarrow> Inr (val, st3))
           | None \<Rightarrow>
          (case lex_css L (exactly (CHR ''['')) st of
             Some st1 \<Rightarrow>
               bind (parse_bracket_list E pf st1) (\<lambda>val st2.
                 case lex_css L (exactly (CHR '']'')) st2 of
                   None \<Rightarrow> Inl (error ''unclosed squared bracket'' st2)
                 | Some st3 \<Rightarrow> Inr (val, st3))
           | None \<Rightarrow>
          if peek L ie_property None st \<noteq> None then parse_ie_property E st
          else if peek L ie_keyword_arg None st \<noteq> None then parse_ie_keyword_arg E st
          else if peek L (sequence [calc_fn_call, exactly (CHR ''('')]) None st \<noteq> None
          then parse_calc_function E st
          else
          (case lex L functional_schema True st of
             Some st1 \<Rightarrow> parse_function_call_schema E pf st1
           | None \<Rightarrow>
          (case lex L identifier_schema True st of
             Some st1 \<Rightarrow>
               bind (parse_identifier_schema E st1) (\<lambda>str st2.
                 case node str of
                   String_Schema els \<Rightarrow>
                     (case lex L (exactly (CHR ''('')) True st2 of
                        Some st3 \<Rightarrow>
                          bind (parse_list E pf False st3) (\<lambda>l st4.
                            Inr (Expression (String_Schema (els @ [l])) (is_delayed str)
                                   (is_interpolant str),
                                 case lex L (exactly (CHR '')'')) True st4 of
                                   Some st5 \<Rightarrow> st5 | None \<Rightarrow> st4))
                      | None \<Rightarrow> Inr (str, st2))
                 | _ \<Rightarrow> Inr (str, st2))
           | None \<Rightarrow>
          if peek L (sequence [uri_prefix, W, real_uri_value]) None st \<noteq> None
          then parse_url_function_string E st
          else if peek L re_functional None st \<noteq> None then parse_function_call E pf st
          else
          (case lex L (exactly (CHR ''+'')) True st of
             Some st1 \<Rightarrow> bind (pf st1) (\<lambda>x st2. Inr (Unary PLUS x, st2))
           | None \<Rightarrow>
          (case lex L (exactly (CHR ''-'')) True st of
             Some st1 \<Rightarrow> bind (pf st1) (\<lambda>x st2. Inr (Unary MINUS x, st2))
           | None \<Rightarrow>
          (case lex L (exactly (CHR ''/'')) True st of
             Some st1 \<Rightarrow> bind (pf st1) (\<lambda>x st2. Inr (Unary SLASH x, st2))
           | None \<Rightarrow>
          (case lex L (sequence [kwd_not]) True st of
             Some st1 \<Rightarrow> bind (pf st1) (\<lambda>x st2. Inr (Unary NOT x, st2))
           | None \<Rightarrow> parse_value E st))))))))) s_in"

text \<open>
  The recursion of \<open>parse_factor\<close>, by depth.  Every call raises \<open>nestings\<close> by one
  at least and fails beyond \<open>MAX_NESTING\<close>, so a depth of \<open>MAX_NESTING + 1\<close> is never
  used up by a parser that starts with \<open>nestings = 0\<close>.
\<close>

primrec parse_factor_depth :: "nat \<Rightarrow> Env \<Rightarrow> Parser \<Rightarrow> Expression result" where
  "parse_factor_depth 0 E st = Inl OutOfFuel"
| "parse_factor_depth (Suc n) E st = parse_factor_step E (parse_factor_depth n E) st"

definition parse_factor :: "Env \<Rightarrow> Parser \<Rightarrow> Expression result" where
  "parse_factor E st = parse_factor_depth (Suc MAX_NESTING) E st"

chapter \<open>Statements\<close>

section \<open>Blocks and comments\<close>

text \<open>
  \<open>block->append(stm)\<close> where \<open>block\<close> is \<open>block_stack.back()\<close>: every function that
  pushes a block pops it again before it returns, so the block a statement is
  appended to is the last of the stack at that moment.
\<close>

definition append_stm :: "Statement \<Rightarrow> Parser \<Rightarrow> Parser" where
  "append_stm stm st =
     st\<lparr>block_stack := butlast (block_stack st) @ [append stm (last (block_stack st))]\<rparr>"

text \<open>\<open>while (lex< mx >());\<close>\<close>

primrec lex_all :: "nat \<Rightarrow> prelexer \<Rightarrow> mx \<Rightarrow> Parser \<Rightarrow> unit result" where
  "lex_all 0 L m st = Inl OutOfFuel"
| "lex_all (Suc n) L m st =
     (case lex L m True st of
        None \<Rightarrow> Inr ((), st)
      | Some st1 \<Rightarrow> lex_all n L m st1)"

text \<open>
  \<open>parse_block_comments(store)\<close>: every block comment becomes a \<open>Comment\<close> of the
  current block; \<open>lexed.begin[2]\<close> is the byte behind \<open>/*\<close>.
\<close>

primrec block_comments_loop :: "nat \<Rightarrow> Env \<Rightarrow> bool \<Rightarrow> Parser \<Rightarrow> unit result" where
  "block_comments_loop 0 E store st = Inl OutOfFuel"
| "block_comments_loop (Suc n) E store st =
     (case lex (prelex E) block_comment True st of
        None \<Rightarrow> Inr ((), st)
      | Some st1 \<Rightarrow>
          (let is_important = (byte_at (buffer st1) (tok_begin (lexed st1) + 2) = CHR ''!'')
           in bind (parse_interpolated_chunk E (lexed st1) True False st1) (\<lambda>contents st2.
                block_comments_loop n E store
                  (if store then append_stm (Comment contents is_important) st2 else st2))))"

definition parse_block_comments :: "Env \<Rightarrow> bool \<Rightarrow> Parser \<Rightarrow> unit result" where
  "parse_block_comments E store st =
     (if block_stack st = [] then Inl (Crash ''block_stack.back()'')
      else block_comments_loop (loop_fuel st) E store st)"

section \<open>Assignments, parameters and the directives without a block\<close>

text \<open>
  \<open>parse_assignment\<close>, called with the variable lexed.  The flags are read
  \<open>while (peek< alternatives < default_flag, global_flag > >())\<close>.
\<close>

primrec flags_loop :: "nat \<Rightarrow> prelexer \<Rightarrow> bool \<Rightarrow> bool \<Rightarrow> Parser \<Rightarrow> (bool \<times> bool) result" where
  "flags_loop 0 L is_default is_global st = Inl OutOfFuel"
| "flags_loop (Suc n) L is_default is_global st =
     (if peek L (alternatives [default_flag, global_flag]) None st = None
      then Inr ((is_default, is_global), st)
      else (case lex L default_flag True st of
              Some st1 \<Rightarrow> flags_loop n L True is_global st1
            | None \<Rightarrow>
                (case lex L global_flag True st of
                   Some st1 \<Rightarrow> flags_loop n L is_default True st1
                 | None \<Rightarrow> flags_loop n L is_default is_global st)))"

definition parse_assignment :: "Env \<Rightarrow> factor_parser \<Rightarrow> Parser \<Rightarrow> Statement result" where
  "parse_assignment E pf st =
     (let L = prelex E; name = normalize_underscores (lexed_string st)
      in case lex L (exactly (CHR '':'')) True st of
           None \<Rightarrow> Inl (error (''expected ':' after '' @ name @ '' in assignment statement'') st)
         | Some st1 \<Rightarrow>
             if peek_css L (alternatives [exactly (CHR '';''), end_of_file]) None st1 \<noteq> None
             then Inl (css_error E ''Invalid CSS'' '' after ''
                         '': expected expression (e.g. 1px, bold), was '' True st1)
             else
               (case lookahead_for_value L (Some (position st1)) st1 of (la, st2) \<Rightarrow>
                  bind (case found la of
                          Some stop \<Rightarrow>
                            if has_interpolants la then parse_value_schema E stop st2
                            else parse_list E pf False st2
                        | None \<Rightarrow> parse_list E pf False st2)
                    (\<lambda>val st3.
                       bind (flags_loop (loop_fuel st3) L False False st3)
                         (\<lambda>(is_default, is_global) st4.
                            Inr (Assignment name val is_default is_global, st4)))))"

text \<open>
  \<open>parse_warning\<close>, \<open>parse_error\<close> and \<open>parse_debug\<close> share the test of the scope;
  \<open>parse_return_directive\<close>.
\<close>

definition parse_message ::
  "Env \<Rightarrow> factor_parser \<Rightarrow> (Expression \<Rightarrow> Statement) \<Rightarrow> Parser \<Rightarrow> Statement result" where
  "parse_message E pf mk st =
     (if stack st = [] then Inl (Crash ''stack.back()'')
      else if last (stack st) \<notin> {Root, Function, Mixin, Control, Rules}
      then Inl (error ''Illegal nesting: Only properties may be nested beneath properties.'' st)
      else bind (parse_list E pf True st) (\<lambda>x st1. Inr (mk x, st1)))"

definition parse_warning :: "Env \<Rightarrow> factor_parser \<Rightarrow> Parser \<Rightarrow> Statement result" where
  "parse_warning E pf st = parse_message E pf Warning st"

definition parse_error :: "Env \<Rightarrow> factor_parser \<Rightarrow> Parser \<Rightarrow> Statement result" where
  "parse_error E pf st = parse_message E pf Error st"

definition parse_debug :: "Env \<Rightarrow> factor_parser \<Rightarrow> Parser \<Rightarrow> Statement result" where
  "parse_debug E pf st = parse_message E pf Debug st"

definition parse_return_directive :: "Env \<Rightarrow> factor_parser \<Rightarrow> Parser \<Rightarrow> Statement result" where
  "parse_return_directive E pf st =
     (if peek_css (prelex E)
           (alternatives [exactly (CHR '';''), exactly (CHR ''}''), end_of_file]) None st \<noteq> None
      then Inl (css_error E ''Invalid CSS'' '' after ''
                  '': expected expression (e.g. 1px, bold), was '' True st)
      else bind (parse_list E pf False st) (\<lambda>x st1. Inr (Return x, st1)))"

text \<open>
  \<open>parse_charset_directive\<close>: one \<open>lex\<close>, whose result is not looked at; nothing is
  returned and nothing appended.
\<close>

definition parse_charset_directive :: "Env \<Rightarrow> Parser \<Rightarrow> unit result" where
  "parse_charset_directive E st =
     (case lex (prelex E) (sequence [quoted_string, optional_spaces, exactly (CHR '';'')]) True st of
        Some st1 \<Rightarrow> Inr ((), st1)
      | None \<Rightarrow> Inr ((), st))"

text \<open>\<open>parse_parameter\<close> and \<open>parse_parameters\<close>.\<close>

definition parse_parameter :: "Env \<Rightarrow> factor_parser \<Rightarrow> Parser \<Rightarrow> Parameter result" where
  "parse_parameter E pf st =
     (let L = prelex E
      in if peek L (alternatives [exactly (CHR '',''), exactly (CHR ''{''), exactly (CHR '';'')])
              None st \<noteq> None
         then Inl (css_error E ''Invalid CSS'' '' after ''
                     '': expected variable (e.g. $foo), was '' True st)
         else
           bind (lex_all (loop_fuel st) L (alternatives [spaces, block_comment]) st) (\<lambda>u st1.
             (let st2 = (case lex L variable True st1 of Some s \<Rightarrow> s | None \<Rightarrow> st1);
                  name = normalize_underscores (lexed_string st2)
              in bind (lex_all (loop_fuel st2) L (alternatives [spaces, block_comment]) st2)
                   (\<lambda>u st3.
                      case lex L (exactly (CHR '':'')) True st3 of
                        Some st4 \<Rightarrow>
                          bind (lex_all (loop_fuel st4) L block_comment st4) (\<lambda>u st5.
                            bind (parse_space_list E pf st5) (\<lambda>val st6.
                              Inr (Parameter name (Some val) False, st6)))
                      | None \<Rightarrow>
                          (case lex L (exactly_str ellipsis) True st3 of
                             Some st4 \<Rightarrow> Inr (Parameter name None True, st4)
                           | None \<Rightarrow> Inr (Parameter name None False, st3))))))"

primrec parameters_loop ::
  "nat \<Rightarrow> Env \<Rightarrow> factor_parser \<Rightarrow> Parameter list \<Rightarrow> Parser \<Rightarrow> (Parameter list) result" where
  "parameters_loop 0 E pf params st = Inl OutOfFuel"
| "parameters_loop (Suc n) E pf params st =
     (if peek (prelex E) (exactly (CHR '')'')) None st \<noteq> None then Inr (params, st)
      else bind (parse_parameter E pf st) (\<lambda>p st1.
             case lex_css (prelex E) (exactly (CHR '','')) st1 of
               Some st2 \<Rightarrow> parameters_loop n E pf (params @ [p]) st2
             | None \<Rightarrow> Inr (params @ [p], st1)))"

definition parse_parameters :: "Env \<Rightarrow> factor_parser \<Rightarrow> Parser \<Rightarrow> (Parameter list) result" where
  "parse_parameters E pf st =
     (case lex_css (prelex E) (exactly (CHR ''('')) st of
        None \<Rightarrow> Inr ([], st)
      | Some st1 \<Rightarrow>
          bind (if peek_css (prelex E) (exactly (CHR '')'')) None st1 = None
                then parameters_loop (loop_fuel st1) E pf [] st1
                else Inr ([], st1))
            (\<lambda>params st2.
               case lex_css (prelex E) (exactly (CHR '')'')) st2 of
                 None \<Rightarrow> Inl (css_error E ''Invalid CSS'' '' after ''
                                 '': expected \")\", was '' True st2)
               | Some st3 \<Rightarrow> Inr (params, st3)))"

section \<open>Imports\<close>

text \<open>
  \<open>parse_import\<close>.  \<open>to_import\<close> pairs a quoted path with no call, or an empty path
  with the call of \<open>url\<close>.  The \<open>do ... while (lex_css< exactly<','> >())\<close> loop:
\<close>

definition quote_char :: string where "quote_char = [CHR 0x27]"

primrec import_loop ::
  "nat \<Rightarrow> Env \<Rightarrow> factor_parser \<Rightarrow> bool \<Rightarrow> (string \<times> Expression option) list \<Rightarrow> Parser
     \<Rightarrow> ((string \<times> Expression option) list) result" where
  "import_loop 0 E pf first to_import st = Inl OutOfFuel"
| "import_loop (Suc n) E pf first to_import st =
     bind (lex_all (loop_fuel st) (prelex E) block_comment st) (\<lambda>u st1.
       bind
         (case lex (prelex E) quoted_string True st1 of
            Some st2 \<Rightarrow> Inr (to_import @ [(lexed_string st2, None)], st2)
          | None \<Rightarrow>
              (case lex (prelex E) uri_prefix True st1 of
                 Some st2 \<Rightarrow>
                   bind
                     (case lex (prelex E) quoted_string True st2 of
                        Some st3 \<Rightarrow>
                          bind (parse_string E st3) (\<lambda>quoted_url st4.
                            Inr ([Argument quoted_url [] False False], st4))
                      | None \<Rightarrow>
                          bind (parse_url_function_argument E st2) (\<lambda>string_url st3.
                            case string_url of
                              Some url \<Rightarrow> Inr ([Argument url [] False False], st3)
                            | None \<Rightarrow>
                                if peek (prelex E)
                                     (skip_over_scopes (exactly (CHR ''('')) (exactly (CHR '')'')))
                                     (Some (position st3)) st3 \<noteq> None
                                then bind (parse_list E pf False st3) (\<lambda>braced_url st4.
                                       Inr ([Argument braced_url [] False False], st4))
                                else Inl (error ''malformed URL'' st3)))
                     (\<lambda>args st5.
                        case lex (prelex E) (exactly (CHR '')'')) True st5 of
                          None \<Rightarrow> Inl (error (''URI is missing '' @ quote_char @ '')'' @ quote_char) st5)
                        | Some st6 \<Rightarrow>
                            Inr (to_import @ [([], Some (new (Function_Call ''url'' args)))], st6))
               | None \<Rightarrow>
                   Inl (error (if first then ''@import directive requires a url or quoted path''
                               else ''expecting another url or quoted path in @import list'') st1)))
         (\<lambda>to_import1 st7.
            case lex_css (prelex E) (exactly (CHR '','')) st7 of
              Some st8 \<Rightarrow> import_loop n E pf False to_import1 st8
            | None \<Rightarrow> Inr (to_import1, st7)))"

text \<open>
  The loop over \<open>to_import\<close>: a call of \<open>url\<close> is kept in \<open>urls\<close>; a path goes to the
  custom importers and, when none takes it, to \<open>import_url\<close>.
\<close>

fun resolve_imports :: "Env \<Rightarrow> Parser \<Rightarrow> (string \<times> Expression option) list \<Rightarrow> Import \<Rightarrow> Import" where
  "resolve_imports E st [] imp = imp"
| "resolve_imports E st ((path, Some call) # rest) imp =
     resolve_imports E st rest (imp\<lparr>urls := urls imp @ [call]\<rparr>)"
| "resolve_imports E st ((path, None) # rest) imp =
     (case call_importers E (unquote E path) st imp of
        (taken, imp1) \<Rightarrow>
          resolve_imports E st rest (if taken then imp1 else import_url E imp1 path st))"

definition parse_import :: "Env \<Rightarrow> factor_parser \<Rightarrow> Parser \<Rightarrow> Import result" where
  "parse_import E pf st =
     bind (import_loop (loop_fuel st) E pf True [] st) (\<lambda>to_import st1.
       bind (if peek_css (prelex E)
                  (alternatives [exactly (CHR '';''), exactly (CHR ''}''), end_of_file]) None st1 = None
             then bind (parse_media_queries E st1) (\<lambda>q st2. Inr (Some q, st2))
             else Inr (None, st1))
         (\<lambda>queries st2.
            Inr (resolve_imports E st2 to_import
                   \<lparr>urls = [], incs = [], import_queries = queries\<rparr>, st2)))"

section \<open>Declarations\<close>

text \<open>
  Modelled from the spec: \<open>Token::time_wspace\<close> (position.hpp): the text without the white-space at its end.
\<close>

definition time_wspace :: "string \<Rightarrow> string" where
  "time_wspace s =
     rev (dropWhile (\<lambda>c. c \<in> set [CHR '' '', CHR 0x09, CHR 0x0C, CHR 0x0B, CHR 0x0A, CHR 0x0D]) (rev s))"

text \<open>\<open>--x\<close> on a \<open>size_t\<close>.\<close>

definition dec_size_t :: "nat \<Rightarrow> nat" where
  "dec_size_t n = (if n = 0 then 2 ^ 64 - 1 else n - 1)"

text \<open>
  \<open>parse_static_value\<close>: the token of \<open>static_value\<close> ends with the delimiter \<open>;\<close> or
  \<open>}\<close>, which is given back: the cursor, the end of the token and the columns go
  back by one.
\<close>

definition parse_static_value :: "Env \<Rightarrow> Parser \<Rightarrow> Expression result" where
  "parse_static_value E st =
     (let st1 = (case lex (prelex E) static_value True st of Some s \<Rightarrow> s | None \<Rightarrow> st);
          str = substring (buffer st1) (tok_begin (lexed st1)) (tok_end (lexed st1) - 1);
          ps = pstate st1;
          st2 = st1\<lparr>pstate := ps\<lparr>offset := (offset ps)\<lparr>column := dec_size_t (column (offset ps))\<rparr>\<rparr>,
                    after_token := (after_token st1)\<lparr>column := dec_size_t (column (after_token st1))\<rparr>,
                    position := position st1 - 1\<rparr>
      in Inr (color_or_string E (time_wspace str), st2))"

text \<open>
  \<open>parse_declaration\<close>.  The constructor of \<open>Declaration\<close> has the defaults
  \<open>is_custom_property = false\<close>, \<open>is_indented = false\<close> and \<open>tabs = 0\<close>; only the last
  branch stores \<open>is_indented\<close>.  A value that \<open>static_value\<close> matches is not parsed
  as an expression.
\<close>

definition parse_declaration :: "Env \<Rightarrow> factor_parser \<Rightarrow> Parser \<Rightarrow> Statement result" where
  "parse_declaration E pf st =
     (let L = prelex E
      in bind
           (case lex L (sequence [optional (exactly (CHR ''*'')), identifier_schema]) True st of
              Some st1 \<Rightarrow>
                bind (parse_identifier_schema E st1) (\<lambda>prop st2.
                  Inr ((prop, take 2 (lexed_string st1) = ''--''), st2))
            | None \<Rightarrow>
                (case lex L (sequence [optional (exactly (CHR ''*'')), identifier_tok,
                                       zero_plus block_comment]) True st of
                   Some st1 \<Rightarrow>
                     Inr ((new (String_Constant (lexed_string st1)),
                           take 2 (lexed_string st1) = ''--''), st1)
                 | None \<Rightarrow>
                     Inl (css_error E ''Invalid CSS'' '' after '' '': expected \"}\", was '' True st)))
           (\<lambda>(prop, is_custom_property) st2.
              (let property = lexed_string st2
               in case lex_css L (one_plus (exactly (CHR '':''))) st2 of
                    None \<Rightarrow>
                      Inl (error (''property \"'' @ escape_string E property @
                                  ''\" must be followed by a '' @ quote_char @ '':'' @ quote_char) st2)
                  | Some st3 \<Rightarrow>
                      if \<not> is_custom_property \<and>
                         match L (sequence [optional_css_comments, exactly (CHR '';'')]) st3 \<noteq> None
                      then Inl (error ''style declaration must contain a value'' st3)
                      else
                        (let is_indented =
                               (match L (sequence [optional_css_comments, exactly (CHR ''{'')]) st3 = None)
                         in if is_custom_property
                            then bind (parse_css_variable_value E st3) (\<lambda>val st4.
                                   Inr (Declaration prop val True False 0 None, st4))
                            else
                              (let st4 = (case lex L css_comments False st3 of
                                            Some s \<Rightarrow> s | None \<Rightarrow> st3)
                               in if peek_css L static_value None st4 \<noteq> None
                                  then bind (parse_static_value E st4) (\<lambda>val st5.
                                         Inr (Declaration prop val False False 0 None, st5))
                                  else
                                    (case lookahead_for_value L (Some (position st4)) st4 of
                                       (la, st5) \<Rightarrow>
                                         bind
                                           (case found la of
                                              Some stop \<Rightarrow>
                                                if has_interpolants la
                                                then parse_value_schema E stop st5
                                                else parse_list E pf True st5
                                            | None \<Rightarrow>
                                                bind (parse_list E pf True st5) (\<lambda>val st6.
                                                  case node val of
                                                    List els sep arglist bracketed \<Rightarrow>
                                                      if \<not> bracketed \<and> els = [] \<and>
                                                         peek L (exactly (CHR ''{'')) None st6 = None
                                                      then Inl (css_error E ''Invalid CSS'' '' after ''
                                                                  '': expected expression (e.g. 1px, bold), was ''
                                                                  True st6)
                                                      else Inr (val, st6)
                                                  | _ \<Rightarrow> Inr (val, st6)))
                                           (\<lambda>val st7.
                                              (let st8 = (case lex L css_comments False st7 of
                                                            Some s \<Rightarrow> s | None \<Rightarrow> st7)
                                               in Inr (Declaration prop val False is_indented 0 None,
                                                       st8)))))))))"

section \<open>Directives with a block\<close>

text \<open>
  The statements are recursive through \<open>parse_block\<close> only: the functions of this
  section and \<open>parse_block_node\<close> take the block parser \<open>pb\<close> as an argument, and
  \<open>parse_block\<close> ties the knot below.
\<close>

type_synonym block_parser = "bool \<Rightarrow> Parser \<Rightarrow> Block result"

definition push_scope :: "Scope \<Rightarrow> Parser \<Rightarrow> Parser" where
  "push_scope s st = st\<lparr>stack := stack st @ [s]\<rparr>"

definition pop_scope :: "Parser \<Rightarrow> Parser" where
  "pop_scope st = st\<lparr>stack := butlast (stack st)\<rparr>"

text \<open>
  \<open>parse_if_directive\<close>.  After the block, \<open>@else if\<close> gives a new block holding the
  directive parsed by the recursive call, \<open>@else\<close> a block of its own, and anything
  else no alternative.  The recursion takes an \<open>@else if\<close> of the input each time.
\<close>

primrec if_directive_loop ::
  "nat \<Rightarrow> Env \<Rightarrow> factor_parser \<Rightarrow> block_parser \<Rightarrow> bool \<Rightarrow> Parser \<Rightarrow> Statement result" where
  "if_directive_loop 0 E pf pb else_if st = Inl OutOfFuel"
| "if_directive_loop (Suc n) E pf pb else_if st =
     (let st1 = push_scope Control st
      in if block_stack st1 = [] then Inl (Crash ''block_stack.back()'')
         else
           (let root = is_root (last (block_stack st1))
            in bind (parse_list E pf False st1) (\<lambda>predicate st2.
                 bind (pb root st2) (\<lambda>block st3.
                   bind
                     (case lex_css (prelex E) elseif_directive st3 of
                        Some st4 \<Rightarrow>
                          bind (if_directive_loop n E pf pb True st4) (\<lambda>stm st5.
                            Inr (Some (append stm (Block [] False)), st5))
                      | None \<Rightarrow>
                          (case lex_css (prelex E) kwd_else_directive st3 of
                             Some st4 \<Rightarrow> bind (pb root st4) (\<lambda>b st5. Inr (Some b, st5))
                           | None \<Rightarrow> Inr (None, st3)))
                     (\<lambda>alternative st6.
                        Inr (If_Node predicate block alternative, pop_scope st6))))))"

definition parse_if_directive ::
  "Env \<Rightarrow> factor_parser \<Rightarrow> block_parser \<Rightarrow> bool \<Rightarrow> Parser \<Rightarrow> Statement result" where
  "parse_if_directive E pf pb else_if st = if_directive_loop (loop_fuel st) E pf pb else_if st"

text \<open>\<open>lex_variable\<close>, the helper of \<open>@for\<close> and \<open>@each\<close>.\<close>

definition lex_variable :: "Env \<Rightarrow> Parser \<Rightarrow> unit result" where
  "lex_variable E st =
     (if peek (prelex E) (exactly (CHR ''$'')) None st = None
      then Inl (css_error E ''Invalid CSS'' '' after '' '': expected \"$\", was '' True st)
      else (case lex (prelex E) (sequence [exactly (CHR ''$''), identifier_tok]) True st of
              Some st1 \<Rightarrow> Inr ((), st1)
            | None \<Rightarrow>
                (let st1 = (case lex (prelex E) (exactly (CHR ''$'')) True st of
                              Some s \<Rightarrow> s | None \<Rightarrow> st)
                 in Inl (css_error E ''Invalid CSS'' '' after '' '': expected identifier, was ''
                           True st1))))"

definition parse_for_directive ::
  "Env \<Rightarrow> factor_parser \<Rightarrow> block_parser \<Rightarrow> Parser \<Rightarrow> Statement result" where
  "parse_for_directive E pf pb st =
     (let L = prelex E; st1 = push_scope Control st
      in if block_stack st1 = [] then Inl (Crash ''block_stack.back()'')
         else
           (let root = is_root (last (block_stack st1))
            in bind (lex_variable E st1) (\<lambda>u st2.
                 (let var = normalize_underscores (lexed_string st2)
                  in case lex L kwd_from True st2 of
                       None \<Rightarrow> Inl (error ''expected 'from' keyword in @for directive'' st2)
                     | Some st3 \<Rightarrow>
                         bind (parse_expression E pf st3) (\<lambda>lower_bound st4.
                           bind
                             (case lex L kwd_through True st4 of
                                Some st5 \<Rightarrow> Inr (True, st5)
                              | None \<Rightarrow>
                                  (case lex L kwd_to True st4 of
                                     Some st5 \<Rightarrow> Inr (False, st5)
                                   | None \<Rightarrow>
                                       Inl (error ''expected 'through' or 'to' keyword in @for directive''
                                              st4)))
                             (\<lambda>inclusive st5.
                                bind (parse_expression E pf st5) (\<lambda>upper_bound st6.
                                  bind (pb root st6) (\<lambda>body st7.
                                    Inr (For var lower_bound upper_bound body inclusive,
                                         pop_scope st7)))))))))"

text \<open>\<open>parse_each_directive\<close>; the further variables are read \<open>while (lex< exactly<','> >())\<close>.\<close>

primrec each_vars_loop :: "nat \<Rightarrow> prelexer \<Rightarrow> string list \<Rightarrow> Parser \<Rightarrow> (string list) result" where
  "each_vars_loop 0 L vars st = Inl OutOfFuel"
| "each_vars_loop (Suc n) L vars st =
     (case lex L (exactly (CHR '','')) True st of
        None \<Rightarrow> Inr (vars, st)
      | Some st1 \<Rightarrow>
          (case lex L variable True st1 of
             None \<Rightarrow> Inl (error ''@each directive requires an iteration variable'' st1)
           | Some st2 \<Rightarrow>
               each_vars_loop n L (vars @ [normalize_underscores (lexed_string st2)]) st2))"

definition parse_each_directive ::
  "Env \<Rightarrow> factor_parser \<Rightarrow> block_parser \<Rightarrow> Parser \<Rightarrow> Statement result" where
  "parse_each_directive E pf pb st =
     (let L = prelex E; st1 = push_scope Control st
      in if block_stack st1 = [] then Inl (Crash ''block_stack.back()'')
         else
           (let root = is_root (last (block_stack st1))
            in bind (lex_variable E st1) (\<lambda>u st2.
                 bind (each_vars_loop (loop_fuel st2) L [normalize_underscores (lexed_string st2)] st2)
                   (\<lambda>vars st3.
                      case lex L kwd_in True st3 of
                        None \<Rightarrow> Inl (error ''expected 'in' keyword in @each directive'' st3)
                      | Some st4 \<Rightarrow>
                          bind (parse_list E pf False st4) (\<lambda>list st5.
                            bind (pb root st5) (\<lambda>body st6.
                              Inr (Each vars list body, pop_scope st6)))))))"

definition is_empty_list :: "Expression \<Rightarrow> bool" where
  "is_empty_list e =
     (case node e of List els sep arglist bracketed \<Rightarrow> els = [] | _ \<Rightarrow> False)"

definition parse_while_directive ::
  "Env \<Rightarrow> factor_parser \<Rightarrow> block_parser \<Rightarrow> Parser \<Rightarrow> Statement result" where
  "parse_while_directive E pf pb st =
     (let st1 = push_scope Control st
      in if block_stack st1 = [] then Inl (Crash ''block_stack.back()'')
         else
           (let root = is_root (last (block_stack st1))
            in bind (parse_list E pf False st1) (\<lambda>predicate st2.
                 if is_empty_list predicate
                 then Inl (css_error E ''Invalid CSS'' '' after ''
                             '': expected expression (e.g. 1px, bold), was '' False st2)
                 else bind (pb root st2) (\<lambda>body st3.
                        Inr (While predicate body, pop_scope st3)))))"

text \<open>\<open>parse_definition(which_type)\<close>, called with \<open>@mixin\<close> or \<open>@function\<close> lexed.\<close>

definition parse_definition ::
  "Env \<Rightarrow> factor_parser \<Rightarrow> block_parser \<Rightarrow> Definition_Type \<Rightarrow> Parser \<Rightarrow> Statement result" where
  "parse_definition E pf pb which_type st =
     (let which_str = lexed_string st
      in case lex (prelex E) identifier_tok True st of
           None \<Rightarrow> Inl (error (''invalid name in '' @ which_str @ '' definition'') st)
         | Some st1 \<Rightarrow>
             (let name = normalize_underscores (lexed_string st1)
              in if which_type = FUNCTION \<and> (name = ''and'' \<or> name = ''or'' \<or> name = ''not'')
                 then Inl (error (''Invalid function name \"'' @ name @ ''\".'') st1)
                 else
                   bind (parse_parameters E pf st1) (\<lambda>params st2.
                     bind (pb False (push_scope (if which_type = MIXIN then Mixin else Function) st2))
                       (\<lambda>body st3.
                          Inr (Definition name params body which_type, pop_scope st3)))))"

text \<open>
  \<open>lex< optional_css_whitespace >(false, true)\<close>: with \<open>force\<close> an empty match is
  committed too.  The token matches every input, so a null match does not occur.
\<close>

definition lex_force :: "prelexer \<Rightarrow> mx \<Rightarrow> Parser \<Rightarrow> Parser" where
  "lex_force L m st =
     (if byte_at (buffer st) (position st) = CHR 0x00 then st
      else (case L m (buffer st) (position st) of
              None \<Rightarrow> st
            | Some it_after_token \<Rightarrow>
                if it_after_token > endpos st then st
                else commit (position st) it_after_token st))"

text \<open>
  \<open>parse_ruleset(lookahead)\<close>.  A lookahead that is not parsable has found an
  interpolation and with it a position.
\<close>

definition parse_ruleset ::
  "Env \<Rightarrow> block_parser \<Rightarrow> Lookahead \<Rightarrow> Parser \<Rightarrow> Statement result" where
  "parse_ruleset E pb la s_in =
     NESTING_GUARD (\<lambda>st.
       if block_stack st = [] then Inl (Crash ''block_stack.back()'')
       else
         (let root = is_root (last (block_stack st));
              st1 = lex_force (prelex E) optional_css_whitespace st
          in bind
               (if parsable la
                then bind (parseSelectorList E False st1) (\<lambda>(sel, optional_flag) st2.
                       Inr ((Some sel, None), st2))
                else (case la_position la of
                        None \<Rightarrow> Inl (Crash ''lookahead.position'')
                      | Some p \<Rightarrow>
                          bind (parse_selector_schema E p False st1) (\<lambda>sc st2.
                            Inr ((Some (Foreign []), Some sc), st2))))
               (\<lambda>(sel, schema) st2.
                  bind (pb False (push_scope Rules st2)) (\<lambda>body st3.
                    Inr (Ruleset sel schema body root, pop_scope st3))))) s_in"

section \<open>The statements of a block\<close>

text \<open>
  \<open>parse_block_node(is_root)\<close>: the chain of \<open>if (lex< ... >(true)) ... else if ...\<close>
  in the order of the source.  It returns \<open>true\<close> on every path that returns.
\<close>

definition import_scope_ok :: "Scope \<Rightarrow> bool" where
  "import_scope_ok parent = (parent = Function \<or> parent = Root \<or> parent = Rules \<or> parent = Media)"

definition parse_block_node ::
  "Env \<Rightarrow> factor_parser \<Rightarrow> block_parser \<Rightarrow> bool \<Rightarrow> Parser \<Rightarrow> bool result" where
  "parse_block_node E pf pb root st00 =
     bind (parse_block_comments E True st00) (\<lambda>u st0.
     (let L = prelex E;
          st = (case lex L css_whitespace True st0 of Some s \<Rightarrow> s | None \<Rightarrow> st0);
          add = (\<lambda>r. bind r (\<lambda>stm s. Inr (True, append_stm stm s)))
      in case lex L variable True st of
           Some st1 \<Rightarrow> add (parse_assignment E pf st1)
         | None \<Rightarrow>
        (case lex L kwd_err True st of
           Some st1 \<Rightarrow> add (parse_error E pf st1)
         | None \<Rightarrow>
        (case lex L kwd_dbg True st of
           Some st1 \<Rightarrow> add (parse_debug E pf st1)
         | None \<Rightarrow>
        (case lex L kwd_warn True st of
           Some st1 \<Rightarrow> add (parse_warning E pf st1)
         | None \<Rightarrow>
        (case lex L kwd_if_directive True st of
           Some st1 \<Rightarrow> add (parse_if_directive E pf pb False st1)
         | None \<Rightarrow>
        (case lex L kwd_for_directive True st of
           Some st1 \<Rightarrow> add (parse_for_directive E pf pb st1)
         | None \<Rightarrow>
        (case lex L kwd_each_directive True st of
           Some st1 \<Rightarrow> add (parse_each_directive E pf pb st1)
         | None \<Rightarrow>
        (case lex L kwd_while_directive True st of
           Some st1 \<Rightarrow> add (parse_while_directive E pf pb st1)
         | None \<Rightarrow>
        (case lex L kwd_return_directive True st of
           Some st1 \<Rightarrow> add (parse_return_directive E pf st1)
         | None \<Rightarrow>
        (case lex L kwd_import True st of
           Some st1 \<Rightarrow>
             (let parent = (if stack st1 = [] then Rules else last (stack st1))
              in if \<not> import_scope_ok parent \<and> peek_css L uri_prefix (Some (position st1)) st1 = None
                 then Inl (error ''Import directives may not be used within control directives or mixins.'' st1)
                 else
                   bind (parse_import E pf st1) (\<lambda>imp st2.
                     (let st3 = (if urls imp \<noteq> [] then append_stm (Import_Node imp) st2 else st2)
                      in Inr (True, fold (\<lambda>inc s. append_stm (Import_Stub inc) s) (incs imp) st3))))
         | None \<Rightarrow>
        (case lex L kwd_extend True st of
           Some st1 \<Rightarrow>
             (case lookahead_for_include L (Some (position st1)) st1 of (la, st2) \<Rightarrow>
                (case found la of
                   None \<Rightarrow> Inl (css_error E ''Invalid CSS'' '' after '' '': expected selector, was '' True st2)
                 | Some stop \<Rightarrow>
                     (let allow = allow_parent st2
                      in if \<not> has_interpolants la
                         then bind (parseSelectorList E True (st2\<lparr>allow_parent := False\<rparr>))
                                (\<lambda>(sel, is_optional) st3.
                                   Inr (True, append_stm (ExtendRule sel is_optional)
                                                (st3\<lparr>allow_parent := allow\<rparr>)))
                         else bind (parse_selector_schema E stop True (st2\<lparr>allow_parent := False\<rparr>))
                                (\<lambda>sel st3.
                                   Inr (True, append_stm (ExtendRule sel False)
                                                (st3\<lparr>allow_parent := allow\<rparr>))))))
         | None \<Rightarrow>
        (case lookahead_for_selector L (Some (position st)) st of (la, st') \<Rightarrow>
         if error_ptr la = None \<and> \<not> is_custom_property la
         then add (parse_ruleset E pb la st')
         else
        (case lex L kwd_media True st' of
           Some st1 \<Rightarrow> add (parseMediaRule E st1)
         | None \<Rightarrow>
        (case lex L kwd_at_root True st' of
           Some st1 \<Rightarrow> add (parse_at_root_block E st1)
         | None \<Rightarrow>
        (case lex L kwd_include_directive True st' of
           Some st1 \<Rightarrow> add (parse_include_directive E st1)
         | None \<Rightarrow>
        (case lex L kwd_content_directive True st' of
           Some st1 \<Rightarrow> add (parse_content_directive E st1)
         | None \<Rightarrow>
        (case lex L kwd_supports_directive True st' of
           Some st1 \<Rightarrow> add (parse_supports_directive E st1)
         | None \<Rightarrow>
        (case lex L kwd_mixin True st' of
           Some st1 \<Rightarrow> add (parse_definition E pf pb MIXIN st1)
         | None \<Rightarrow>
        (case lex L kwd_function True st' of
           Some st1 \<Rightarrow> add (parse_definition E pf pb FUNCTION st1)
         | None \<Rightarrow>
        (case lex L kwd_charset_directive True st' of
           Some st1 \<Rightarrow> bind (parse_charset_directive E st1) (\<lambda>u st2. Inr (True, st2))
         | None \<Rightarrow>
        (case lex L (exactly_str else_kwd) True st' of
           Some st1 \<Rightarrow> Inl (error ''Invalid CSS: @else must come after @if'' st1)
         | None \<Rightarrow>
        (case lex L at_keyword True st' of
           Some st1 \<Rightarrow> add (parse_directive E st1)
         | None \<Rightarrow>
        if root \<and> stack st' = [] then Inl (Crash ''stack.back()'')
        else if root \<and> last (stack st') \<noteq> AtRoot
        then
          (let st1 = (case lex L css_whitespace True st' of Some s \<Rightarrow> s | None \<Rightarrow> st')
           in if position st1 \<ge> endpos st1 then Inr (True, st1)
              else Inl (css_error E ''Invalid CSS'' '' after ''
                          '': expected 1 selector or at-rule, was '' True st1))
        else
          bind (parse_declaration E pf st') (\<lambda>decl st1.
            case decl of
              Declaration prop val custom indented tabs blk \<Rightarrow>
                if peek L (exactly (CHR ''{'')) None st1 \<noteq> None
                then
                  (let st2 = push_scope Properties
                               (st1\<lparr>indentation := indentation st1 + (if indented then 1 else 0)\<rparr>)
                   in bind (pb False st2) (\<lambda>b st3.
                        Inr (True,
                             append_stm (Declaration prop val custom indented (indentation st1) (Some b))
                               (pop_scope (st3\<lparr>indentation := indentation st3 - (if indented then 1 else 0)\<rparr>)))))
                else Inr (True, append_stm (Declaration prop val custom indented (indentation st1) None) st1)
            | _ \<Rightarrow> Inl (Crash ''parse_declaration''))
        )))))))))))))))))))))))"

text \<open>
  \<open>parse_block_nodes(is_root)\<close>: \<open>while (position < end)\<close>; every round that goes
  on has taken a byte of the input.
\<close>

primrec block_nodes_loop ::
  "nat \<Rightarrow> Env \<Rightarrow> factor_parser \<Rightarrow> block_parser \<Rightarrow> bool \<Rightarrow> Parser \<Rightarrow> bool result" where
  "block_nodes_loop 0 E pf pb root st = Inl OutOfFuel"
| "block_nodes_loop (Suc n) E pf pb root st =
     (if \<not> position st < endpos st then Inr (True, st)
      else
        bind (parse_block_comments E True st) (\<lambda>u st1.
          (let L = prelex E;
               st2 = (case lex L css_whitespace True st1 of Some s \<Rightarrow> s | None \<Rightarrow> st1)
           in case lex L (exactly (CHR '';'')) True st2 of
                Some st3 \<Rightarrow> block_nodes_loop n E pf pb root st3
              | None \<Rightarrow>
                  if peek L end_of_file None st2 \<noteq> None then Inr (True, st2)
                  else if peek L (exactly (CHR ''}'')) None st2 \<noteq> None then Inr (True, st2)
                  else
                    bind (parse_block_node E pf pb root st2) (\<lambda>ok st3.
                      if ok then block_nodes_loop n E pf pb root st3
                      else
                        bind (parse_block_comments E True st3) (\<lambda>u st4.
                          case lex_css L (exactly (CHR '';'')) st4 of
                            Some st5 \<Rightarrow> block_nodes_loop n E pf pb root st5
                          | None \<Rightarrow>
                              if peek_css L end_of_file None st4 \<noteq> None then Inr (True, st4)
                              else if peek_css L (exactly (CHR ''}'')) None st4 \<noteq> None
                              then Inr (True, st4)
                              else Inr (False, st4))))))"

definition parse_block_nodes ::
  "Env \<Rightarrow> factor_parser \<Rightarrow> block_parser \<Rightarrow> bool \<Rightarrow> Parser \<Rightarrow> bool result" where
  "parse_block_nodes E pf pb root st = block_nodes_loop (loop_fuel st) E pf pb root st"

text \<open>
  \<open>parse_css_block(is_root)\<close>, which \<open>parse_block\<close> calls: the new block is pushed,
  filled by \<open>parse_block_nodes\<close>, popped and returned.
\<close>

definition parse_css_block ::
  "Env \<Rightarrow> factor_parser \<Rightarrow> block_parser \<Rightarrow> bool \<Rightarrow> Parser \<Rightarrow> Block result" where
  "parse_css_block E pf pb root st =
     (case lex_css (prelex E) (exactly (CHR ''{'')) st of
        None \<Rightarrow> Inl (css_error E ''Invalid CSS'' '' after '' '': expected \"{\", was '' True st)
      | Some st1 \<Rightarrow>
          bind (parse_block_nodes E pf pb root
                  (st1\<lparr>block_stack := block_stack st1 @ [Block [] root]\<rparr>))
            (\<lambda>ok st2.
               if \<not> ok
               then Inl (css_error E ''Invalid CSS'' '' after '' '': expected \"}\", was '' True st2)
               else (case lex_css (prelex E) (exactly (CHR ''}'')) st2 of
                       None \<Rightarrow> Inl (css_error E ''Invalid CSS'' '' after ''
                                       '': expected \"}\", was '' True st2)
                     | Some st3 \<Rightarrow>
                         Inr (last (block_stack st3),
                              st3\<lparr>block_stack := butlast (block_stack st3)\<rparr>))))"

text \<open>
  The recursion of \<open>parse_block\<close>, by depth: every block inside a block takes a
  \<open>{\<close> of the input, so the depth is below the number of bytes left.
\<close>

primrec parse_block_depth :: "nat \<Rightarrow> Env \<Rightarrow> block_parser" where
  "parse_block_depth 0 E root st = Inl OutOfFuel"
| "parse_block_depth (Suc n) E root st =
     parse_css_block E (parse_factor E) (parse_block_depth n E) root st"

definition parse_block :: "Env \<Rightarrow> block_parser" where
  "parse_block E root st = parse_block_depth (loop_fuel st) E root st"

text \<open>The statements of the root block, as \<open>parse\<close> reads them.\<close>

definition parse_root_nodes :: "Env \<Rightarrow> Parser \<Rightarrow> bool result" where
  "parse_root_nodes E st = parse_block_nodes E (parse_factor E) (parse_block E) True st"

chapter \<open>A concrete environment\<close>

text \<open>
  Modelled from the spec: the lexer combinators and the token alphabets of lexer.hpp
  and prelexer.cpp, which are not among the sources.  The specification (4.2) lists
  the combinators (\<open>exactly\<close>, keywords with a word boundary, \<open>sequence\<close>,
  \<open>alternatives\<close>, \<open>zero_plus\<close>, \<open>one_plus\<close>, \<open>optional\<close>, \<open>negate\<close>) and the tokens
  (identifier, variable, number, dimension, percentage, hex colour, quoted string,
  comments, \<open>url(\<close>, \<open>#{\<close>) and calls their alphabets standard CSS.  This instance
  reads sources over ASCII without interpolation and without escapes: a token that
  needs \<open>#{\<close> never matches.  It gives the theorems above their concrete inputs;
  the theorems themselves hold for every prelexer.
\<close>

section \<open>Combinators\<close>

text \<open>
  A matcher reads the bytes from the pointer on and returns how many it matched and
  what is left.  The terminator of the buffer is matched by \<open>exactly<'\0'>\<close>, which
  passes it, and by \<open>end_of_file\<close>, which stays before it.
\<close>

type_synonym matcher = "string \<Rightarrow> (nat \<times> string) option"

fun m_exactly :: "char \<Rightarrow> matcher" where
  "m_exactly c [] = (if c = CHR 0x00 then Some (1, []) else None)"
| "m_exactly c (x # xs) = (if x = c then Some (1, xs) else None)"

fun m_exactly_str :: "string \<Rightarrow> matcher" where
  "m_exactly_str [] s = Some (0, s)"
| "m_exactly_str (c # cs) [] = None"
| "m_exactly_str (c # cs) (x # xs) =
     (if x = c then (case m_exactly_str cs xs of None \<Rightarrow> None | Some (n, r) \<Rightarrow> Some (Suc n, r))
      else None)"

fun m_end_of_file :: matcher where
  "m_end_of_file [] = Some (0, [])"
| "m_end_of_file (x # xs) = (if x = CHR 0x00 then Some (0, x # xs) else None)"

fun m_class :: "(char \<Rightarrow> bool) \<Rightarrow> matcher" where
  "m_class P [] = None"
| "m_class P (x # xs) = (if P x then Some (1, xs) else None)"

fun m_sequence :: "matcher list \<Rightarrow> matcher" where
  "m_sequence [] s = Some (0, s)"
| "m_sequence (m # ms) s =
     (case m s of
        None \<Rightarrow> None
      | Some (n, r) \<Rightarrow>
          (case m_sequence ms r of None \<Rightarrow> None | Some (n', r') \<Rightarrow> Some (n + n', r')))"

fun m_alternatives :: "matcher list \<Rightarrow> matcher" where
  "m_alternatives [] s = None"
| "m_alternatives (m # ms) s =
     (case m s of Some res \<Rightarrow> Some res | None \<Rightarrow> m_alternatives ms s)"

definition m_optional :: "matcher \<Rightarrow> matcher" where
  "m_optional m s = (case m s of Some res \<Rightarrow> Some res | None \<Rightarrow> Some (0, s))"

definition m_negate :: "matcher \<Rightarrow> matcher" where
  "m_negate m s = (case m s of Some res \<Rightarrow> None | None \<Rightarrow> Some (0, s))"

definition m_lookahead :: "matcher \<Rightarrow> matcher" where
  "m_lookahead m s = (case m s of Some res \<Rightarrow> Some (0, s) | None \<Rightarrow> None)"

text \<open>
  Repetition, one round per byte left at most: the first argument runs down the
  rest of the buffer.  A round that matches nothing ends it (the C++ loop would not
  end).
\<close>

fun m_repeat :: "string \<Rightarrow> matcher \<Rightarrow> matcher" where
  "m_repeat [] m s = (case m s of Some (Suc n, r) \<Rightarrow> Some (Suc n, r) | _ \<Rightarrow> Some (0, s))"
| "m_repeat (f # fuel) m s =
     (case m s of
        None \<Rightarrow> Some (0, s)
      | Some (n, r) \<Rightarrow>
          if n = 0 then Some (0, s)
          else (case m_repeat fuel m r of None \<Rightarrow> None | Some (n', r') \<Rightarrow> Some (n + n', r')))"

definition m_zero_plus :: "matcher \<Rightarrow> matcher" where
  "m_zero_plus m s = m_repeat s m s"

definition m_one_plus :: "matcher \<Rightarrow> matcher" where
  "m_one_plus m s =
     (case m s of
        None \<Rightarrow> None
      | Some (n, r) \<Rightarrow>
          (case m_zero_plus m r of None \<Rightarrow> None | Some (n', r') \<Rightarrow> Some (n + n', r')))"

text \<open>\<open>non_greedy<mx, delim>\<close>: \<open>mx\<close> is repeated until \<open>delim\<close> matches.\<close>

fun m_until :: "string \<Rightarrow> matcher \<Rightarrow> matcher \<Rightarrow> matcher" where
  "m_until [] m delim s = (if delim s \<noteq> None then Some (0, s) else None)"
| "m_until (f # fuel) m delim s =
     (if delim s \<noteq> None then Some (0, s)
      else if s = [] then None
      else (case m s of
              None \<Rightarrow> None
            | Some (n, r) \<Rightarrow>
                if n = 0 then None
                else (case m_until fuel m delim r of
                        None \<Rightarrow> None
                      | Some (n', r') \<Rightarrow> Some (n + n', r'))))"

definition m_non_greedy :: "matcher \<Rightarrow> matcher \<Rightarrow> matcher" where
  "m_non_greedy m delim s = m_until s m delim s"

section \<open>Character classes and tokens\<close>

definition is_alpha :: "char \<Rightarrow> bool" where
  "is_alpha c = (let n = (of_char c :: nat) in (97 \<le> n \<and> n \<le> 122) \<or> (65 \<le> n \<and> n \<le> 90))"

definition is_digit :: "char \<Rightarrow> bool" where
  "is_digit c = (let n = (of_char c :: nat) in 48 \<le> n \<and> n \<le> 57)"

definition is_alnum :: "char \<Rightarrow> bool" where
  "is_alnum c = (is_alpha c \<or> is_digit c)"

definition is_xdigit :: "char \<Rightarrow> bool" where
  "is_xdigit c =
     (let n = (of_char c :: nat) in is_digit c \<or> (97 \<le> n \<and> n \<le> 102) \<or> (65 \<le> n \<and> n \<le> 70))"

definition is_unicode :: "char \<Rightarrow> bool" where
  "is_unicode c = ((of_char c :: nat) > 127)"

definition is_space :: "char \<Rightarrow> bool" where
  "is_space c = (c \<in> set [CHR '' '', CHR 0x09, CHR 0x0A, CHR 0x0B, CHR 0x0C, CHR 0x0D])"

definition is_character :: "char \<Rightarrow> bool" where
  "is_character c = (is_alnum c \<or> is_unicode c \<or> c = CHR ''-'')"

definition css_is_number :: "char \<Rightarrow> bool" where
  "css_is_number c = (is_digit c \<or> c = CHR ''-'' \<or> c = CHR ''+'')"

fun m_word_boundary :: matcher where
  "m_word_boundary [] = Some (0, [])"
| "m_word_boundary (x # xs) =
     (if is_character x \<or> x = CHR ''#'' then None else Some (0, x # xs))"

fun m_no_spaces :: matcher where
  "m_no_spaces [] = Some (0, [])"
| "m_no_spaces (x # xs) = (if is_space x then None else Some (0, x # xs))"

fun m_end_of_line :: matcher where
  "m_end_of_line [] = Some (0, [])"
| "m_end_of_line (x # xs) =
     (if x \<in> set [CHR 0x0A, CHR 0x0D, CHR 0x0C] then Some (0, x # xs) else None)"

fun m_any_char :: matcher where
  "m_any_char [] = Some (0, [])"
| "m_any_char (x # xs) = Some (1, xs)"

definition m_word :: "string \<Rightarrow> matcher" where
  "m_word w s = m_sequence [m_exactly_str w, m_word_boundary] s"

definition m_space :: matcher where "m_space s = m_class is_space s"

definition m_spaces :: matcher where "m_spaces s = m_one_plus m_space s"

definition m_optional_spaces :: matcher where "m_optional_spaces s = m_zero_plus m_space s"

definition m_line_comment :: matcher where
  "m_line_comment s = m_sequence [m_exactly_str ''//'', m_non_greedy m_any_char m_end_of_line] s"

definition m_block_comment :: matcher where
  "m_block_comment s =
     m_sequence [m_exactly_str ''/*'', m_non_greedy m_any_char (m_exactly_str ''*/''),
                 m_exactly_str ''*/''] s"

definition m_optional_css_whitespace :: matcher where
  "m_optional_css_whitespace s = m_zero_plus (m_alternatives [m_spaces, m_line_comment]) s"

definition m_css_whitespace :: matcher where
  "m_css_whitespace s = m_one_plus (m_alternatives [m_spaces, m_line_comment]) s"

definition m_optional_css_comments :: matcher where
  "m_optional_css_comments s =
     m_zero_plus (m_alternatives [m_spaces, m_line_comment, m_block_comment]) s"

definition m_css_comments :: matcher where
  "m_css_comments s = m_one_plus (m_alternatives [m_spaces, m_line_comment, m_block_comment]) s"

definition m_identifier_alpha :: matcher where
  "m_identifier_alpha s = m_class (\<lambda>c. is_alpha c \<or> is_unicode c \<or> c = CHR ''-'' \<or> c = CHR ''_'') s"

definition m_identifier_alnum :: matcher where
  "m_identifier_alnum s = m_class (\<lambda>c. is_alnum c \<or> is_unicode c \<or> c = CHR ''-'' \<or> c = CHR ''_'') s"

definition m_identifier :: matcher where
  "m_identifier s =
     m_sequence [m_zero_plus (m_exactly (CHR ''-'')), m_one_plus m_identifier_alpha,
                 m_zero_plus m_identifier_alnum] s"

definition m_strict_identifier_alpha :: matcher where
  "m_strict_identifier_alpha s = m_class (\<lambda>c. is_alpha c \<or> is_unicode c \<or> c = CHR ''_'') s"

definition m_strict_identifier_alnum :: matcher where
  "m_strict_identifier_alnum s = m_class (\<lambda>c. is_alnum c \<or> is_unicode c \<or> c = CHR ''_'') s"

definition m_strict_identifier :: matcher where
  "m_strict_identifier s =
     m_sequence [m_one_plus m_strict_identifier_alpha, m_zero_plus m_strict_identifier_alnum] s"

definition m_variable :: matcher where
  "m_variable s = m_sequence [m_exactly (CHR ''$''), m_identifier] s"

definition m_digits :: matcher where "m_digits s = m_one_plus (m_class is_digit) s"

definition m_sign :: matcher where "m_sign s = m_class (\<lambda>c. c = CHR ''-'' \<or> c = CHR ''+'') s"

definition m_unsigned_number :: matcher where
  "m_unsigned_number s =
     m_alternatives
       [m_sequence [m_zero_plus m_digits, m_exactly (CHR ''.''), m_one_plus m_digits],
        m_digits] s"

definition m_number :: matcher where
  "m_number s =
     m_sequence [m_optional m_sign, m_unsigned_number,
                 m_optional (m_sequence [m_exactly (CHR ''e''), m_optional m_sign, m_unsigned_number])] s"

definition m_percentage :: matcher where
  "m_percentage s = m_sequence [m_number, m_exactly (CHR ''%'')] s"

definition m_one_unit :: matcher where
  "m_one_unit s =
     m_sequence [m_optional (m_exactly (CHR ''-'')), m_strict_identifier_alpha,
                 m_zero_plus (m_alternatives
                    [m_strict_identifier_alnum,
                     m_sequence [m_one_plus (m_exactly (CHR ''-'')), m_strict_identifier_alpha]])] s"

definition m_multiple_units :: matcher where
  "m_multiple_units s =
     m_sequence [m_one_unit, m_zero_plus (m_sequence [m_exactly (CHR ''*''), m_one_unit])] s"

definition m_unit_identifier :: matcher where
  "m_unit_identifier s =
     m_sequence [m_multiple_units,
                 m_optional (m_sequence
                    [m_exactly (CHR ''/''),
                     m_negate (m_sequence [m_exactly_str ''calc'', m_exactly (CHR ''('')]),
                     m_multiple_units])] s"

definition m_dimension :: matcher where
  "m_dimension s = m_sequence [m_number, m_unit_identifier] s"

text \<open>A quoted string: the quote, bytes other than the quote, the quote.\<close>

definition m_quoted :: "char \<Rightarrow> matcher" where
  "m_quoted q s =
     m_sequence [m_exactly q, m_zero_plus (m_class (\<lambda>c. c \<noteq> q)), m_exactly q] s"

definition m_quoted_string :: matcher where
  "m_quoted_string s = m_alternatives [m_quoted (CHR 0x27), m_quoted (CHR 0x22)] s"

text \<open>\<open>hex\<close>, \<open>hexa\<close> and \<open>hex0\<close> accept a match of a given length only.\<close>

definition m_of_length :: "nat list \<Rightarrow> matcher \<Rightarrow> matcher" where
  "m_of_length lens m s =
     (case m s of
        None \<Rightarrow> None
      | Some (n, r) \<Rightarrow> if n \<in> set lens then Some (n, r) else None)"

definition m_hex :: matcher where
  "m_hex s = m_of_length [4, 7] (m_sequence [m_exactly (CHR ''#''), m_one_plus (m_class is_xdigit)]) s"

definition m_hexa :: matcher where
  "m_hexa s = m_of_length [5, 9] (m_sequence [m_exactly (CHR ''#''), m_one_plus (m_class is_xdigit)]) s"

definition m_hex0 :: matcher where
  "m_hex0 s = m_of_length [5, 8]
     (m_sequence [m_exactly (CHR ''0''), m_exactly (CHR ''x''), m_one_plus (m_class is_xdigit)]) s"

definition m_flag :: "string \<Rightarrow> matcher" where
  "m_flag w s = m_sequence [m_exactly (CHR ''!''), m_optional_css_whitespace, m_word w] s"

definition m_list_terminator :: matcher where
  "m_list_terminator s =
     m_alternatives
       [m_exactly (CHR '';''), m_exactly (CHR ''}''), m_exactly (CHR ''{''),
        m_exactly (CHR '')''), m_exactly (CHR '']''), m_exactly (CHR '':''),
        m_end_of_file, m_exactly_str ''...'', m_flag ''default'', m_flag ''global''] s"

definition m_space_list_terminator :: matcher where
  "m_space_list_terminator s = m_alternatives [m_exactly (CHR '',''), m_list_terminator] s"

definition m_static_component :: matcher where
  "m_static_component s =
     m_alternatives
       [m_identifier, m_quoted_string, m_percentage, m_hex, m_hexa, m_exactly (CHR ''|''),
        m_sequence [m_number, m_unit_identifier], m_number,
        m_sequence [m_exactly (CHR ''!''), m_word ''important'']] s"

definition m_static_value :: matcher where
  "m_static_value s =
     m_sequence
       [m_sequence [m_static_component, m_zero_plus m_identifier],
        m_zero_plus (m_sequence
          [m_alternatives
             [m_sequence [m_optional_spaces,
                          m_alternatives [m_exactly (CHR ''/''), m_exactly (CHR '',''),
                                          m_exactly (CHR '' '')],
                          m_optional_spaces],
              m_spaces],
           m_static_component]),
        m_zero_plus m_spaces,
        m_alternatives [m_exactly (CHR '';''), m_exactly (CHR ''}'')]] s"

definition m_re_functional :: matcher where
  "m_re_functional s =
     m_sequence [m_identifier, m_optional m_block_comment, m_exactly (CHR ''('')] s"

definition m_W :: matcher where
  "m_W s = m_zero_plus (m_class (\<lambda>c. c \<in> set [CHR '' '', CHR 0x09, CHR 0x0D, CHR 0x0A, CHR 0x0C])) s"

definition m_ie_keyword_arg :: matcher where
  "m_ie_keyword_arg s =
     m_sequence
       [m_alternatives [m_variable, m_identifier],
        m_optional_css_whitespace, m_exactly (CHR ''=''), m_optional_css_whitespace,
        m_alternatives [m_variable, m_identifier, m_quoted_string, m_number, m_hex, m_hexa]] s"

definition m_calc_fn_call :: matcher where
  "m_calc_fn_call s =
     m_sequence
       [m_optional (m_sequence [m_exactly (CHR ''-''),
                      m_one_plus (m_sequence [m_strict_identifier, m_exactly (CHR ''-'')])]),
        m_exactly_str ''calc'', m_word_boundary] s"

definition m_pseudo_prefix :: matcher where
  "m_pseudo_prefix s = m_sequence [m_exactly (CHR '':''), m_optional (m_exactly (CHR '':''))] s"

definition m_uri_prefix :: matcher where
  "m_uri_prefix s = m_sequence [m_exactly_str ''url'', m_exactly (CHR ''('')] s"

text \<open>
  \<open>re_selector_list\<close>, the text \<open>lookahead_for_selector\<close> takes for a selector:
  white-space and comments, the operators \<open>*&%,()[]\<close> and \<open>+~>\<close>, the attribute
  operators, and names with their prefixes \<open>#\<close>, \<open>.\<close> and \<open>:\<close>.
\<close>

definition m_selector_part :: matcher where
  "m_selector_part s =
     m_sequence
       [m_alternatives
          [m_sequence [m_exactly (CHR ''#''), m_negate (m_exactly (CHR ''{''))],
           m_exactly (CHR ''.''),
           m_sequence [m_optional m_pseudo_prefix, m_negate m_uri_prefix]],
        m_one_plus (m_sequence
          [m_zero_plus (m_sequence [m_exactly (CHR ''-''), m_optional_spaces]),
           m_alternatives
             [m_flag ''optional'', m_exactly (CHR ''*''), m_quoted_string, m_identifier,
              m_variable, m_percentage, m_dimension, m_class is_alnum]]),
        m_zero_plus (m_exactly (CHR ''-''))] s"

definition m_re_selector_list :: matcher where
  "m_re_selector_list s =
     m_alternatives
       [m_sequence [m_exactly (CHR ''&''), m_one_plus (m_exactly (CHR ''-'')), m_word_boundary,
                    m_optional_spaces],
        m_one_plus (m_alternatives
          [m_spaces, m_block_comment, m_line_comment,
           m_class (\<lambda>c. c \<in> set ''*&%,()[]''),
           m_class (\<lambda>c. c \<in> set ''+~>''),
           m_alternatives [m_exactly (CHR ''=''), m_exactly_str ''~='', m_exactly_str ''|='',
                           m_exactly_str ''^='', m_exactly_str ''$='', m_exactly_str ''*=''],
           m_selector_part])] s"

section \<open>The prelexer\<close>

definition named_tokens :: "(string \<times> matcher) list" where
  "named_tokens =
    [(''spaces'', m_spaces),
     (''no_spaces'', m_no_spaces),
     (''css_comments'', m_css_comments),
     (''css_whitespace'', m_css_whitespace),
     (''optional_spaces'', m_optional_spaces),
     (''optional_css_comments'', m_optional_css_comments),
     (''optional_css_whitespace'', m_optional_css_whitespace),
     (''block_comment'', m_block_comment),
     (''identifier'', m_identifier),
     (''variable'', m_variable),
     (''number'', m_number),
     (''unsigned_number'', m_unsigned_number),
     (''percentage'', m_percentage),
     (''dimension'', m_dimension),
     (''quoted_string'', m_quoted_string),
     (''hex'', m_hex),
     (''hex0'', m_hex0),
     (''hexa'', m_hexa),
     (''uri_prefix'', m_uri_prefix),
     (''re_functional'', m_re_functional),
     (''ie_keyword_arg'', m_ie_keyword_arg),
     (''calc_fn_call'', m_calc_fn_call),
     (''W'', m_W),
     (''static_value'', m_static_value),
     (''static_component'', m_static_component),
     (''strict_identifier'', m_strict_identifier),
     (''unit_identifier'', m_unit_identifier),
     (''space'', m_space),
     (''list_terminator'', m_list_terminator),
     (''space_list_terminator'', m_space_list_terminator),
     (''re_selector_list'', m_re_selector_list),
     (''static_string'', m_quoted_string),
     (''digit'', m_class is_digit),
     (''op'', m_class (\<lambda>c. c \<in> set ''+-*/%=!<>'')),
     (''ampersand'', m_exactly (CHR ''&'')),
     (''end_of_file'', m_end_of_file),
     (''kwd_eq'', m_exactly_str ''==''),
     (''kwd_neq'', m_exactly_str ''!=''),
     (''kwd_gte'', m_exactly_str ''>=''),
     (''kwd_gt'', m_exactly (CHR ''>'')),
     (''kwd_lte'', m_exactly_str ''<=''),
     (''kwd_lt'', m_exactly (CHR ''<'')),
     (''kwd_important'', m_flag ''important''),
     (''default_flag'', m_flag ''default''),
     (''global_flag'', m_flag ''global''),
     (''at_keyword'', m_sequence [m_exactly (CHR ''@''), m_identifier]),
     (''elseif_directive'',
        m_sequence [m_exactly_str ''@else'', m_optional_css_comments, m_word ''if'']),
     (''kwd_err'', m_word ''@error''),
     (''kwd_dbg'', m_word ''@debug''),
     (''kwd_warn'', m_word ''@warn''),
     (''kwd_if_directive'', m_word ''@if''),
     (''kwd_for_directive'', m_word ''@for''),
     (''kwd_each_directive'', m_word ''@each''),
     (''kwd_while_directive'', m_word ''@while''),
     (''kwd_return_directive'', m_word ''@return''),
     (''kwd_import'', m_word ''@import''),
     (''kwd_extend'', m_word ''@extend''),
     (''kwd_media'', m_word ''@media''),
     (''kwd_at_root'', m_word ''@at-root''),
     (''kwd_include_directive'', m_word ''@include''),
     (''kwd_content_directive'', m_word ''@content''),
     (''kwd_supports_directive'', m_word ''@supports''),
     (''kwd_mixin'', m_word ''@mixin''),
     (''kwd_function'', m_word ''@function''),
     (''kwd_charset_directive'', m_word ''@charset''),
     (''kwd_else_directive'', m_word ''@else''),
     (''kwd_from'', m_word ''from''),
     (''kwd_through'', m_word ''through''),
     (''kwd_to'', m_word ''to''),
     (''kwd_in'', m_word ''in''),
     (''kwd_using'', m_word ''using''),
     (''kwd_and'', m_word ''and''),
     (''kwd_or'', m_word ''or''),
     (''kwd_not'', m_word ''not''),
     (''kwd_true'', m_word ''true''),
     (''kwd_false'', m_word ''false''),
     (''kwd_null'', m_word ''null'')]"

text \<open>
  The reading of a prelexer expression.  A name that is not in the table (the
  tokens with interpolation among them) matches nothing.
\<close>

definition named :: "string \<Rightarrow> matcher" where
  "named name = (case map_of named_tokens name of Some m \<Rightarrow> m | None \<Rightarrow> (\<lambda>s. None))"

fun css_matcher :: "mx \<Rightarrow> matcher" where
  "css_matcher (exactly c) = m_exactly c"
| "css_matcher (exactly_str w) = m_exactly_str w"
| "css_matcher (word w) = m_word w"
| "css_matcher (class_char cs) = m_class (\<lambda>c. c \<in> set cs)"
| "css_matcher (insensitive w) = (\<lambda>s. None)"
| "css_matcher (sequence ms) = m_sequence (map css_matcher ms)"
| "css_matcher (alternatives ms) = m_alternatives (map css_matcher ms)"
| "css_matcher (zero_plus m) = m_zero_plus (css_matcher m)"
| "css_matcher (one_plus m) = m_one_plus (css_matcher m)"
| "css_matcher (optional m) = m_optional (css_matcher m)"
| "css_matcher (negate m) = m_negate (css_matcher m)"
| "css_matcher (lookahead m) = m_lookahead (css_matcher m)"
| "css_matcher (non_greedy m d) = m_non_greedy (css_matcher m) (css_matcher d)"
| "css_matcher (skip_over_scopes a b) = (\<lambda>s. None)"
| "css_matcher (Prelexer name) = named name"

definition css_prelexer :: prelexer where
  "css_prelexer m buf p =
     (case css_matcher m (drop p buf) of None \<Rightarrow> None | Some (n, r) \<Rightarrow> Some (p + n))"

section \<open>The environment\<close>

text \<open>
  The productions outside the model fail with this message when they are reached;
  no concrete input below reaches one.  The colour table is an excerpt; every
  import resolves to its own path; the source text quoted in a message of
  \<open>css_error\<close> is left empty.
\<close>

definition unmodelled :: "string \<Rightarrow> Parser \<Rightarrow> 'a result" where
  "unmodelled name st = Inl (Runtime_Error (''outside the model: '' @ name))"

definition css_colors :: "(string \<times> nat \<times> nat \<times> nat \<times> nat) list" where
  "css_colors =
    [(''black'', 0, 0, 0, 1), (''white'', 255, 255, 255, 1), (''red'', 255, 0, 0, 1),
     (''green'', 0, 128, 0, 1), (''blue'', 0, 0, 255, 1), (''transparent'', 0, 0, 0, 0)]"

definition css_unquote :: "string \<Rightarrow> string" where
  "css_unquote str =
     (if length str \<ge> 2 \<and> hd str = last str \<and> (hd str = CHR 0x22 \<or> hd str = CHR 0x27)
      then butlast (tl str) else str)"

definition css_env :: Env where
  "css_env =
     \<lparr>prelex = css_prelexer,
      is_number = css_is_number,
      name_to_color = map_of css_colors,
      escape_string = (\<lambda>str. str),
      unquote = css_unquote,
      call_importers = (\<lambda>url st imp. (False, imp)),
      import_url = (\<lambda>imp load_path st. imp\<lparr>incs := incs imp @ [load_path]\<rparr>),
      error_context = (\<lambda>trim st. ([], [])),
      lexed_hex_color = (\<lambda>parsed. new (Foreign_Expression parsed)),
      parse_string = unmodelled ''parse_string'',
      parse_value_schema = (\<lambda>stop. unmodelled ''parse_value_schema''),
      parse_identifier_schema = unmodelled ''parse_identifier_schema'',
      parse_ie_property = unmodelled ''parse_ie_property'',
      parse_ie_keyword_arg = unmodelled ''parse_ie_keyword_arg'',
      parse_calc_function = unmodelled ''parse_calc_function'',
      parse_url_function_string = unmodelled ''parse_url_function_string'',
      parse_url_function_argument = unmodelled ''parse_url_function_argument'',
      parse_interpolated_chunk = (\<lambda>t c css. unmodelled ''parse_interpolated_chunk''),
      parse_css_variable_value = unmodelled ''parse_css_variable_value'',
      parseSelectorList = (\<lambda>b. unmodelled ''parseSelectorList''),
      parse_selector_schema = (\<lambda>e b. unmodelled ''parse_selector_schema''),
      parse_media_queries = unmodelled ''parse_media_queries'',
      parseMediaRule = unmodelled ''parseMediaRule'',
      parse_at_root_block = unmodelled ''parse_at_root_block'',
      parse_include_directive = unmodelled ''parse_include_directive'',
      parse_content_directive = unmodelled ''parse_content_directive'',
      parse_supports_directive = unmodelled ''parse_supports_directive'',
      parse_directive = unmodelled ''parse_directive''\<rparr>"

chapter \<open>Notions of the properties\<close>

text \<open>What a parse returns, without the parser it leaves behind.\<close>

definition outcome :: "'a result \<Rightarrow> Exception + 'a" where
  "outcome r = (case r of Inl e \<Rightarrow> Inl e | Inr (x, st) \<Rightarrow> Inr x)"

text \<open>
  The statements that parsing a whole buffer as the body of the root block leaves
  in that block.
\<close>

definition root_statements :: "Env \<Rightarrow> string \<Rightarrow> Exception + Statement list" where
  "root_statements E buf =
     (case parse_root_nodes E (parser_of buf) of
        Inl e \<Rightarrow> Inl e
      | Inr (ok, st) \<Rightarrow> Inr (statements (last (block_stack st))))"





text \<open>
  Where the dispatch of \<open>parse_block_node\<close> stands: \<open>skip_space\<close> is the parser after
  the white-space before the statement; then none of the statements allowed in
  functions begins here, no \<open>@import\<close>, \<open>@extend\<close> or ruleset either, and none of the
  directives tried before \<open>@charset\<close>.
\<close>

definition skip_space :: "prelexer \<Rightarrow> Parser \<Rightarrow> Parser" where
  "skip_space L st = (case lex L css_whitespace True st of Some s \<Rightarrow> s | None \<Rightarrow> st)"

definition no_function_statement :: "prelexer \<Rightarrow> Parser \<Rightarrow> bool" where
  "no_function_statement L st =
     (lex L variable True st = None \<and> lex L kwd_err True st = None \<and>
      lex L kwd_dbg True st = None \<and> lex L kwd_warn True st = None \<and>
      lex L kwd_if_directive True st = None \<and> lex L kwd_for_directive True st = None \<and>
      lex L kwd_each_directive True st = None \<and> lex L kwd_while_directive True st = None \<and>
      lex L kwd_return_directive True st = None)"

definition no_ruleset :: "prelexer \<Rightarrow> Parser \<Rightarrow> bool" where
  "no_ruleset L st =
     (no_function_statement L st \<and> lex L kwd_import True st = None \<and>
      lex L kwd_extend True st = None \<and>
      (case lookahead_for_selector L (Some (position st)) st of
         (la, st') \<Rightarrow> error_ptr la \<noteq> None \<or> is_custom_property la))"

definition no_block_directive :: "prelexer \<Rightarrow> Parser \<Rightarrow> bool" where
  "no_block_directive L st =
     (no_ruleset L st \<and> lex L kwd_media True st = None \<and> lex L kwd_at_root True st = None \<and>
      lex L kwd_include_directive True st = None \<and> lex L kwd_content_directive True st = None \<and>
      lex L kwd_supports_directive True st = None \<and> lex L kwd_mixin True st = None \<and>
      lex L kwd_function True st = None)"

chapter \<open>Properties\<close>

section \<open>Evaluating the parser on a concrete input\<close>

text \<open>
  The concrete parses below are evaluated by rewriting: the equations of the
  definitions, the tokens of the table, and congruence rules that look at the
  scrutinee of a conditional or a case only, so that no branch is unfolded before
  it is chosen.
\<close>

lemma bind_simps: "bind (Inl e) f = Inl e" "bind (Inr (x, st)) f = f x st"
  by (simp_all add: bind_def)

lemma bind_cong_weak: "r = r' \<Longrightarrow> bind r f = bind r' f"
  by simp

lemma NESTING_GUARD_cong: "st = st' \<Longrightarrow> NESTING_GUARD body st = NESTING_GUARD body st'"
  by simp

lemma css_env_sel:
  "prelex css_env = css_prelexer"
  "is_number css_env = css_is_number"
  "name_to_color css_env = map_of css_colors"
  "escape_string css_env = (\<lambda>str. str)"
  "unquote css_env = css_unquote"
  "call_importers css_env = (\<lambda>url st imp. (False, imp))"
  "import_url css_env = (\<lambda>imp load_path st. imp\<lparr>incs := incs imp @ [load_path]\<rparr>)"
  "error_context css_env = (\<lambda>trim st. ([], []))"
  "lexed_hex_color css_env = (\<lambda>parsed. new (Foreign_Expression parsed))"
  "parse_string css_env = unmodelled ''parse_string''"
  "parse_value_schema css_env = (\<lambda>stop. unmodelled ''parse_value_schema'')"
  "parse_identifier_schema css_env = unmodelled ''parse_identifier_schema''"
  "parse_ie_property css_env = unmodelled ''parse_ie_property''"
  "parse_ie_keyword_arg css_env = unmodelled ''parse_ie_keyword_arg''"
  "parse_calc_function css_env = unmodelled ''parse_calc_function''"
  "parse_url_function_string css_env = unmodelled ''parse_url_function_string''"
  "parse_url_function_argument css_env = unmodelled ''parse_url_function_argument''"
  "parse_interpolated_chunk css_env = (\<lambda>t c css. unmodelled ''parse_interpolated_chunk'')"
  "parse_css_variable_value css_env = unmodelled ''parse_css_variable_value''"
  "parseSelectorList css_env = (\<lambda>b. unmodelled ''parseSelectorList'')"
  "parse_selector_schema css_env = (\<lambda>e b. unmodelled ''parse_selector_schema'')"
  "parse_media_queries css_env = unmodelled ''parse_media_queries''"
  "parseMediaRule css_env = unmodelled ''parseMediaRule''"
  "parse_at_root_block css_env = unmodelled ''parse_at_root_block''"
  "parse_include_directive css_env = unmodelled ''parse_include_directive''"
  "parse_content_directive css_env = unmodelled ''parse_content_directive''"
  "parse_supports_directive css_env = unmodelled ''parse_supports_directive''"
  "parse_directive css_env = unmodelled ''parse_directive''"
  by (simp_all add: css_env_def)

lemma pfd_num:
  "parse_factor_depth (numeral k) E st =
     parse_factor_step E (parse_factor_depth (pred_numeral k) E) st"
  by (simp add: numeral_eq_Suc)

lemma css_tokens:
  "named ''spaces'' = m_spaces"
  "named ''no_spaces'' = m_no_spaces"
  "named ''css_comments'' = m_css_comments"
  "named ''css_whitespace'' = m_css_whitespace"
  "named ''optional_spaces'' = m_optional_spaces"
  "named ''optional_css_comments'' = m_optional_css_comments"
  "named ''optional_css_whitespace'' = m_optional_css_whitespace"
  "named ''block_comment'' = m_block_comment"
  "named ''identifier'' = m_identifier"
  "named ''identifier_schema'' = (\<lambda>s. None)"
  "named ''variable'' = m_variable"
  "named ''number'' = m_number"
  "named ''percentage'' = m_percentage"
  "named ''dimension'' = m_dimension"
  "named ''quoted_string'' = m_quoted_string"
  "named ''hex'' = m_hex"
  "named ''hex0'' = m_hex0"
  "named ''hexa'' = m_hexa"
  "named ''uri_prefix'' = m_uri_prefix"
  "named ''real_uri_value'' = (\<lambda>s. None)"
  "named ''interpolant'' = (\<lambda>s. None)"
  "named ''value_schema'' = (\<lambda>s. None)"
  "named ''functional_schema'' = (\<lambda>s. None)"
  "named ''re_functional'' = m_re_functional"
  "named ''ie_property'' = (\<lambda>s. None)"
  "named ''ie_keyword_arg'' = m_ie_keyword_arg"
  "named ''calc_fn_call'' = m_calc_fn_call"
  "named ''W'' = m_W"
  "named ''static_value'' = m_static_value"
  "named ''static_component'' = m_static_component"
  "named ''strict_identifier'' = m_strict_identifier"
  "named ''ampersand'' = m_exactly (CHR ''&'')"
  "named ''kwd_important'' = m_flag ''important''"
  "named ''kwd_true'' = m_word ''true''"
  "named ''kwd_false'' = m_word ''false''"
  "named ''kwd_null'' = m_word ''null''"
  "named ''kwd_not'' = m_word ''not''"
  "named ''kwd_and'' = m_word ''and''"
  "named ''kwd_or'' = m_word ''or''"
  "named ''kwd_eq'' = m_exactly_str ''==''"
  "named ''kwd_neq'' = m_exactly_str ''!=''"
  "named ''kwd_gte'' = m_exactly_str ''>=''"
  "named ''kwd_gt'' = m_exactly (CHR ''>'')"
  "named ''kwd_lte'' = m_exactly_str ''<=''"
  "named ''kwd_lt'' = m_exactly (CHR ''<'')"
  "named ''op'' = m_class (\<lambda>c. c \<in> set ''+-*/%=!<>'')"
  "named ''digit'' = m_class is_digit"
  "named ''space'' = m_space"
  "named ''parenthese_scope'' = (\<lambda>s. None)"
  "named ''list_terminator'' = m_list_terminator"
  "named ''space_list_terminator'' = m_space_list_terminator"
  "named ''end_of_file'' = m_end_of_file"
  "named ''default_flag'' = m_flag ''default''"
  "named ''global_flag'' = m_flag ''global''"
  "named ''re_selector_list'' = m_re_selector_list"
  "named ''at_keyword'' = m_sequence [m_exactly (CHR ''@''), m_identifier]"
  "named ''elseif_directive'' = m_sequence [m_exactly_str ''@else'', m_optional_css_comments, m_word ''if'']"
  "named ''kwd_else_directive'' = m_word ''@else''"
  "named ''kwd_err'' = m_word ''@error''"
  "named ''kwd_dbg'' = m_word ''@debug''"
  "named ''kwd_warn'' = m_word ''@warn''"
  "named ''kwd_if_directive'' = m_word ''@if''"
  "named ''kwd_for_directive'' = m_word ''@for''"
  "named ''kwd_each_directive'' = m_word ''@each''"
  "named ''kwd_while_directive'' = m_word ''@while''"
  "named ''kwd_return_directive'' = m_word ''@return''"
  "named ''kwd_import'' = m_word ''@import''"
  "named ''kwd_extend'' = m_word ''@extend''"
  "named ''kwd_media'' = m_word ''@media''"
  "named ''kwd_at_root'' = m_word ''@at-root''"
  "named ''kwd_include_directive'' = m_word ''@include''"
  "named ''kwd_content_directive'' = m_word ''@content''"
  "named ''kwd_supports_directive'' = m_word ''@supports''"
  "named ''kwd_mixin'' = m_word ''@mixin''"
  "named ''kwd_function'' = m_word ''@function''"
  "named ''kwd_charset_directive'' = m_word ''@charset''"
  "named ''kwd_from'' = m_word ''from''"
  "named ''kwd_through'' = m_word ''through''"
  "named ''kwd_to'' = m_word ''to''"
  "named ''kwd_in'' = m_word ''in''"
  "named ''kwd_using'' = m_word ''using''"
  "named ''unsigned_number'' = m_unsigned_number"
  "named ''static_string'' = m_quoted_string"
  "named ''unit_identifier'' = m_unit_identifier"
  by (simp_all add: named_def named_tokens_def)

lemmas m_defs = m_optional_def m_negate_def m_lookahead_def
  m_zero_plus_def m_one_plus_def m_non_greedy_def is_alpha_def is_digit_def is_alnum_def
  is_xdigit_def is_unicode_def is_space_def is_character_def css_is_number_def
  m_word_def m_space_def m_spaces_def m_optional_spaces_def
  m_line_comment_def m_block_comment_def
  m_optional_css_whitespace_def m_css_whitespace_def m_optional_css_comments_def
  m_css_comments_def m_identifier_alpha_def m_identifier_alnum_def m_identifier_def
  m_strict_identifier_alpha_def m_strict_identifier_alnum_def m_strict_identifier_def
  m_variable_def m_digits_def m_sign_def m_unsigned_number_def m_number_def m_percentage_def
  m_one_unit_def m_multiple_units_def m_unit_identifier_def m_dimension_def m_quoted_def
  m_quoted_string_def m_of_length_def m_hex_def m_hexa_def m_hex0_def m_flag_def
  m_list_terminator_def m_space_list_terminator_def m_static_component_def m_static_value_def
  m_re_functional_def m_W_def m_ie_keyword_arg_def m_calc_fn_call_def m_pseudo_prefix_def
  m_uri_prefix_def m_selector_part_def m_re_selector_list_def

lemmas eval_congs = if_weak_cong option.case_cong_weak sum.case_cong_weak prod.case_cong_weak
  list.case_cong_weak Node.case_cong_weak Statement.case_cong_weak bind_cong_weak
  NESTING_GUARD_cong let_weak_cong

lemmas mev = css_tokens css_prelexer_def m_defs byte_at_def Let_def

lemmas lex_defs = sneak_def match_def peek_def peek_css_def commit_def lex_def lex_css_def
  lex_force_def lexed_string_def substring_def byte_at_def Offset_minus_def
  advanceToNextToken_def skip_space_def

lemmas expr_defs = parse_value_def color_or_string_def lexed_number_def lexed_percentage_def
  lexed_dimension_def number_has_zero_def find_first_not_of_def
  parse_operators_def parse_expression_def parse_relation_def lex_relation_def
  parse_conjunction_def parse_disjunction_def parse_space_list_def parse_comma_list_def
  parse_list_def parse_bracket_list_def parse_map_def parse_argument_def parse_arguments_def
  parse_function_call_def parse_function_call_schema_def parse_factor_step_def parse_factor_def
  fold_operands_def fold_finish_def is_schema_with_interpolants_def is_Binary_def Binary_def
  Unary_def new_def new_List_def with_delayed_def is_comma_list_def is_hash_list_def
  is_empty_list_def dashes_identifier_def loop_fuel_def NESTING_GUARD_def MAX_NESTING_def
  normalize_underscores_def css_error_def error_def error_at_def unmodelled_def static_ops_def
  hash_lbrace_def rbrace_def ellipsis_def else_kwd_def css_colors_def css_unquote_def

lemmas la_defs = lookahead_for_selector_def lookahead_for_include_def lookahead_for_value_def
  lookahead_value_mx_def Lookahead_new_def selector_scan.simps value_scan.simps

lemmas stm_defs = append_stm_def append_def parse_block_comments_def parse_assignment_def
  parse_message_def parse_warning_def parse_error_def parse_debug_def
  parse_return_directive_def parse_charset_directive_def parse_parameter_def
  parse_parameters_def quote_char_def parse_import_def time_wspace_def dec_size_t_def
  parse_static_value_def parse_declaration_def push_scope_def pop_scope_def
  parse_if_directive_def lex_variable_def parse_for_directive_def parse_each_directive_def
  parse_while_directive_def parse_definition_def parse_ruleset_def import_scope_ok_def
  parse_block_node_def parse_block_nodes_def parse_css_block_def parse_block_def
  parse_root_nodes_def root_statements_def no_function_statement_def no_ruleset_def
  no_block_directive_def

lemmas ev = outcome_def parser_of_def Parser_new_def strlen_def mev lex_defs expr_defs
  la_defs stm_defs bind_simps css_env_sel pfd_num fold_operands_from.simps

section \<open>Byte-order marks\<close>

lemma check_bom_loop_eq:
  "len \<le> length bom \<Longrightarrow> check_bom_loop buf src bom len i skip =
     (if (\<forall>j. i \<le> j \<and> j < len \<longrightarrow> byte_at buf (src + j) = bom ! j) then skip + (len - i) else 0)"
proof (induction buf src bom len i skip rule: check_bom_loop.induct)
  case (1 buf src bom len i skip)
  show ?case
  proof (cases "i < len")
    case False
    then show ?thesis by (subst check_bom_loop.simps) auto
  next
    case True
    note lt = this
    show ?thesis
    proof (cases "byte_at buf (src + i) = byte_at bom i")
      case False
      with lt 1(2) have "byte_at buf (src + i) \<noteq> bom ! i" by (simp add: byte_at_def)
      with lt False show ?thesis
        by (subst check_bom_loop.simps) (auto)
    next
      case eq: True
      have IH: "check_bom_loop buf src bom len (i + 1) (skip + 1) =
        (if (\<forall>j. i + 1 \<le> j \<and> j < len \<longrightarrow> byte_at buf (src + j) = bom ! j)
         then skip + 1 + (len - (i + 1)) else 0)"
        using 1(1)[OF lt _ 1(2)] eq by simp
      have a: "(\<forall>j. i \<le> j \<and> j < len \<longrightarrow> byte_at buf (src + j) = bom ! j) \<longleftrightarrow>
            (\<forall>j. i + 1 \<le> j \<and> j < len \<longrightarrow> byte_at buf (src + j) = bom ! j)"
      proof -
        have "byte_at buf (src + i) = bom ! i" using eq lt 1(2) by (simp add: byte_at_def)
        then have "\<And>j. i \<le> j \<Longrightarrow> i + 1 \<le> j \<or> byte_at buf (src + j) = bom ! j"
          by (metis Suc_eq_plus1 Suc_leI le_neq_implies_less)
        then show ?thesis by auto
      qed
      show ?thesis
        by (subst check_bom_loop.simps) (use lt eq IH a in auto)
    qed
  qed
qed

lemma check_bom_chars_eq:
  "check_bom_chars (buffer st) (source st) (endpos st) bom (length bom) =
     (if has_bom st bom then length bom else 0)"
  unfolding check_bom_chars_def has_bom_def list_all_iff
  by (simp add: check_bom_loop_eq)

lemmas bom_defs = utf_8_bom_def utf_16_bom_be_def utf_16_bom_le_def utf_32_bom_be_def
  utf_32_bom_le_def utf_7_bom_1_def utf_7_bom_2_def utf_7_bom_3_def utf_7_bom_4_def
  utf_7_bom_5_def utf_1_bom_def utf_ebcdic_bom_def scsu_bom_def bocu_1_bom_def
  gb_18030_bom_def

lemma has_bom_first:
  assumes "has_bom st bom" "bom \<noteq> []"
  shows "byte_at (buffer st) (source st) = hd bom"
proof -
  from assms(2) have "0 \<in> set [0..<length bom]" by simp
  with assms(1) have "byte_at (buffer st) (source st + 0) = bom ! 0"
    unfolding has_bom_def list_all_iff by blast
  with assms(2) show ?thesis by (simp add: hd_conv_nth)
qed

lemma bom_lengths:
  "length utf_8_bom = 3" "length utf_16_bom_be = 2" "length utf_16_bom_le = 2"
  "length utf_32_bom_be = 4" "length utf_32_bom_le = 4" "length utf_7_bom_1 = 4"
  "length utf_7_bom_2 = 4" "length utf_7_bom_3 = 4" "length utf_7_bom_4 = 4"
  "length utf_7_bom_5 = 5" "length utf_1_bom = 3" "length utf_ebcdic_bom = 4"
  "length scsu_bom = 3" "length bocu_1_bom = 3" "length gb_18030_bom = 4"
  by (simp_all add: bom_defs)

lemmas chk_lens =
  check_bom_chars_eq[of _ utf_8_bom, unfolded bom_lengths]
  check_bom_chars_eq[of _ utf_16_bom_be, unfolded bom_lengths]
  check_bom_chars_eq[of _ utf_16_bom_le, unfolded bom_lengths]
  check_bom_chars_eq[of _ utf_32_bom_be, unfolded bom_lengths]
  check_bom_chars_eq[of _ utf_32_bom_le, unfolded bom_lengths]
  check_bom_chars_eq[of _ utf_7_bom_1, unfolded bom_lengths]
  check_bom_chars_eq[of _ utf_7_bom_2, unfolded bom_lengths]
  check_bom_chars_eq[of _ utf_7_bom_3, unfolded bom_lengths]
  check_bom_chars_eq[of _ utf_7_bom_4, unfolded bom_lengths]
  check_bom_chars_eq[of _ utf_7_bom_5, unfolded bom_lengths]
  check_bom_chars_eq[of _ utf_1_bom, unfolded bom_lengths]
  check_bom_chars_eq[of _ utf_ebcdic_bom, unfolded bom_lengths]
  check_bom_chars_eq[of _ scsu_bom, unfolded bom_lengths]
  check_bom_chars_eq[of _ bocu_1_bom, unfolded bom_lengths]
  check_bom_chars_eq[of _ gb_18030_bom, unfolded bom_lengths]

lemma bom_firsts:
  "has_bom st utf_8_bom \<Longrightarrow> byte_at (buffer st) (source st) = CHR 0xEF"
  "has_bom st utf_16_bom_be \<Longrightarrow> byte_at (buffer st) (source st) = CHR 0xFE"
  "has_bom st utf_16_bom_le \<Longrightarrow> byte_at (buffer st) (source st) = CHR 0xFF"
  "has_bom st utf_32_bom_be \<Longrightarrow> byte_at (buffer st) (source st) = CHR 0x00"
  "has_bom st utf_32_bom_le \<Longrightarrow> byte_at (buffer st) (source st) = CHR 0xFF"
  "has_bom st utf_7_bom_1 \<Longrightarrow> byte_at (buffer st) (source st) = CHR 0x2B"
  "has_bom st utf_7_bom_2 \<Longrightarrow> byte_at (buffer st) (source st) = CHR 0x2B"
  "has_bom st utf_7_bom_3 \<Longrightarrow> byte_at (buffer st) (source st) = CHR 0x2B"
  "has_bom st utf_7_bom_4 \<Longrightarrow> byte_at (buffer st) (source st) = CHR 0x2B"
  "has_bom st utf_7_bom_5 \<Longrightarrow> byte_at (buffer st) (source st) = CHR 0x2B"
  "has_bom st utf_1_bom \<Longrightarrow> byte_at (buffer st) (source st) = CHR 0xF7"
  "has_bom st utf_ebcdic_bom \<Longrightarrow> byte_at (buffer st) (source st) = CHR 0xDD"
  "has_bom st scsu_bom \<Longrightarrow> byte_at (buffer st) (source st) = CHR 0x0E"
  "has_bom st bocu_1_bom \<Longrightarrow> byte_at (buffer st) (source st) = CHR 0xFB"
  "has_bom st gb_18030_bom \<Longrightarrow> byte_at (buffer st) (source st) = CHR 0x84"
  by (auto dest!: has_bom_first simp: bom_defs)

lemma utf32_le_16: "has_bom st utf_32_bom_le \<Longrightarrow> has_bom st utf_16_bom_le"
  by (simp add: has_bom_def bom_defs upt_rec nth_Cons')

lemma read_bom_utf8:
  "has_bom st utf_8_bom \<Longrightarrow> read_bom st = Inr ((), st\<lparr>position := position st + 3\<rparr>)"
  by (simp add: read_bom_def bom_switch_def Let_def bom_firsts chk_lens)

lemma read_bom_utf16_le:
  "has_bom st utf_16_bom_le \<Longrightarrow> read_bom st =
     Inl (error (bom_msg @ (if has_bom st utf_32_bom_le then ''UTF-32 (little endian)''
                            else ''UTF-16 (little endian)'')) st)"
  by (simp add: read_bom_def bom_switch_def Let_def bom_firsts chk_lens bom_msg_def)

lemma read_bom_rejected:
  "(bom, enc) \<in> set rejected_boms \<Longrightarrow> has_bom st bom \<Longrightarrow>
     read_bom st = Inl (error (bom_msg @ enc) st)"
  unfolding rejected_boms_def
  apply (simp only: set_simps insert_iff empty_iff Pair_inject)
  apply (elim disjE conjE)
  apply (simp_all add: read_bom_def bom_switch_def Let_def bom_firsts chk_lens bom_msg_def
      utf32_le_16 or_eq_0_iff)
  done

lemma read_bom_none:
  assumes "\<not> has_bom st utf_8_bom" "\<not> has_bom st utf_16_bom_le"
    and "\<forall>(bom, enc) \<in> set rejected_boms. \<not> has_bom st bom"
  shows "read_bom st = Inr ((), st)"
  using assms
  by (simp add: rejected_boms_def read_bom_def bom_switch_def Let_def chk_lens)

text \<open>
  What \<open>read_bom\<close> does with a mark that lies wholly before \<open>end\<close>: the mark of UTF-8
  is skipped, every other mark is an error that names the encoding, and a buffer
  with none of the marks is left as it is.
\<close>

lemma read_bom_marks:
  "(has_bom st utf_8_bom \<longrightarrow> read_bom st = Inr ((), st\<lparr>position := position st + 3\<rparr>)) \<and>
   (\<forall>(bom, enc) \<in> set rejected_boms.
      has_bom st bom \<longrightarrow> read_bom st = Inl (error (bom_msg @ enc) st)) \<and>
   (has_bom st utf_16_bom_le \<longrightarrow>
      read_bom st = Inl (error (bom_msg @ (if has_bom st utf_32_bom_le
                                           then ''UTF-32 (little endian)''
                                           else ''UTF-16 (little endian)'')) st)) \<and>
   (\<not> has_bom st utf_8_bom \<and> \<not> has_bom st utf_16_bom_le \<and>
    (\<forall>(bom, enc) \<in> set rejected_boms. \<not> has_bom st bom) \<longrightarrow> read_bom st = Inr ((), st))"
proof (intro conjI impI)
  show "\<forall>(bom, enc) \<in> set rejected_boms.
      has_bom st bom \<longrightarrow> read_bom st = Inl (error (bom_msg @ enc) st)"
    using read_bom_rejected by blast
qed (simp_all add: read_bom_utf8 read_bom_utf16_le read_bom_none)

lemma has_bom_evals:
  "has_bom (parser_of [CHR 0xEF, CHR 0xBB, CHR 0xBF, CHR ''a'']) utf_8_bom"
  "has_bom (parser_of [CHR 0xFE, CHR 0xFF, CHR ''a'']) utf_16_bom_be"
  "\<not> has_bom (parser_of ''a'') utf_8_bom"
  "\<not> has_bom (parser_of ''a'') utf_16_bom_le"
  "\<forall>(bom, enc) \<in> set rejected_boms. \<not> has_bom (parser_of ''a'') bom"
  by (simp_all add: has_bom_def parser_of_def Parser_new_def strlen_def bom_defs byte_at_def
      rejected_boms_def Let_def)

lemma read_bom_marks_examples:
  "read_bom (parser_of [CHR 0xEF, CHR 0xBB, CHR 0xBF, CHR ''a'']) =
     Inr ((), (parser_of [CHR 0xEF, CHR 0xBB, CHR 0xBF, CHR ''a''])\<lparr>position := 3\<rparr>) \<and>
   read_bom (parser_of [CHR 0xFE, CHR 0xFF, CHR ''a'']) =
     Inl (InvalidSass \<lparr>line = 0, column = 0\<rparr> (bom_msg @ ''UTF-16 (big endian)'')) \<and>
   read_bom (parser_of ''a'') = Inr ((), parser_of ''a'')"
proof -
  have 1: "read_bom (parser_of [CHR 0xEF, CHR 0xBB, CHR 0xBF, CHR ''a'']) =
     Inr ((), (parser_of [CHR 0xEF, CHR 0xBB, CHR 0xBF, CHR ''a''])\<lparr>position := 3\<rparr>)"
    using read_bom_marks[of "parser_of [CHR 0xEF, CHR 0xBB, CHR 0xBF, CHR ''a'']"] has_bom_evals(1)
    by (simp add: parser_of_def Parser_new_def Let_def)
  have "(utf_16_bom_be, ''UTF-16 (big endian)'') \<in> set rejected_boms"
    by (simp add: rejected_boms_def)
  then have 2: "read_bom (parser_of [CHR 0xFE, CHR 0xFF, CHR ''a'']) =
     Inl (InvalidSass \<lparr>line = 0, column = 0\<rparr> (bom_msg @ ''UTF-16 (big endian)''))"
    using read_bom_marks[of "parser_of [CHR 0xFE, CHR 0xFF, CHR ''a'']"] has_bom_evals(2)
    by (auto simp: error_def error_at_def parser_of_def Parser_new_def Let_def)
  have 3: "read_bom (parser_of ''a'') = Inr ((), parser_of ''a'')"
    using read_bom_marks[of "parser_of ''a''"] has_bom_evals(3,4,5) by blast
  from 1 2 3 show ?thesis by simp
qed

text \<open>
  C8.  At the start of a parse \<open>end\<close> is where \<open>strlen\<close> finds the first NUL byte.  A
  buffer that begins with the mark of UTF-32 (big endian), 00 00 FE FF, ends before
  its first byte: the mark does not lie before \<open>end\<close>, \<open>check_bom_chars\<close> returns 0
  in the case \<open>0x00\<close> of the \<open>switch\<close>, and \<open>read_bom\<close> raises no error and leaves the
  parser as it is.  A buffer that begins with the mark of UTF-32 (little endian),
  FF FE 00 00, ends behind FF FE and is rejected under the name of UTF-16 (little
  endian).
\<close>

theorem read_bom_utf_32_at_start:
  "read_bom (parser_of ([CHR 0x00, CHR 0x00, CHR 0xFE, CHR 0xFF] @ rest)) =
     Inr ((), parser_of ([CHR 0x00, CHR 0x00, CHR 0xFE, CHR 0xFF] @ rest)) \<and>
   (case from_c_str ([CHR 0x00, CHR 0x00, CHR 0xFE, CHR 0xFF] @ rest) (Some 0) ps None allow of
      Inl e \<Rightarrow> False
    | Inr p \<Rightarrow> endpos p = 0 \<and> read_bom p = Inr ((), p)) \<and>
   \<not> has_bom (parser_of buf) utf_32_bom_be \<and>
   read_bom (parser_of ([CHR 0xFF, CHR 0xFE, CHR 0x00, CHR 0x00] @ rest)) =
     Inl (InvalidSass \<lparr>line = 0, column = 0\<rparr> (bom_msg @ ''UTF-16 (little endian)''))"
proof -
  have 1: "read_bom (parser_of ([CHR 0x00, CHR 0x00, CHR 0xFE, CHR 0xFF] @ rest)) =
     Inr ((), parser_of ([CHR 0x00, CHR 0x00, CHR 0xFE, CHR 0xFF] @ rest))"
    by (simp add: read_bom_def bom_switch_def parser_of_def Parser_new_def strlen_def Let_def
          byte_at_def check_bom_chars_def)
  have 2: "(case from_c_str ([CHR 0x00, CHR 0x00, CHR 0xFE, CHR 0xFF] @ rest) (Some 0) ps None allow of
      Inl e \<Rightarrow> False
    | Inr p \<Rightarrow> endpos p = 0 \<and> read_bom p = Inr ((), p))"
    by (simp add: from_c_str_def read_bom_def bom_switch_def Parser_new_def strlen_def Let_def
          byte_at_def check_bom_chars_def)
  have 3: "\<not> has_bom (parser_of buf) utf_32_bom_be"
  proof
    assume h: "has_bom (parser_of buf) utf_32_bom_be"
    then have len: "4 \<le> strlen buf 0"
      by (simp add: has_bom_def parser_of_def Parser_new_def Let_def utf_32_bom_be_def)
    from bom_firsts(4) [OF h] have "byte_at buf 0 = CHR 0x00"
      by (simp add: parser_of_def Parser_new_def Let_def)
    then have "strlen buf 0 = 0"
      by (cases buf) (simp_all add: strlen_def byte_at_def)
    with len show False by simp
  qed
  have 4: "read_bom (parser_of ([CHR 0xFF, CHR 0xFE, CHR 0x00, CHR 0x00] @ rest)) =
     Inl (InvalidSass \<lparr>line = 0, column = 0\<rparr> (bom_msg @ ''UTF-16 (little endian)''))"
    by (simp add: read_bom_def bom_switch_def parser_of_def Parser_new_def strlen_def Let_def
          byte_at_def check_bom_chars_def check_bom_loop.simps utf_16_bom_le_def
          utf_32_bom_le_def error_def error_at_def bom_msg_def)
  from 1 2 3 4 show ?thesis by blast
qed

section \<open>What lexing leaves as it is, and how a concrete parse is taken apart\<close>

lemma lex_frame:
  assumes "lex L m lazy st = Some st'"
  shows "block_stack st' = block_stack st" and "stack st' = stack st"
    and "buffer st' = buffer st" and "endpos st' = endpos st"
    and "nestings st' = nestings st" and "indentation st' = indentation st"
    and "line (pstate st') = line (before_token st')"
    and "column (pstate st') = column (before_token st')"
  using assms
  by (auto simp: lex_def commit_def Let_def split: if_splits option.splits)

lemma lex_error_at:
  assumes "lex L m lazy st = Some st'"
  shows "error msg st' = InvalidSass (before_token st') msg"
  using lex_frame(7,8) [OF assms] by (simp add: error_def error_at_def)

lemma NESTING_GUARD_run:
  assumes "nestings st < MAX_NESTING"
  shows "NESTING_GUARD body st =
           (case body (st\<lparr>nestings := nestings st + 1\<rparr>) of
              Inl e \<Rightarrow> Inl e
            | Inr (x, st2) \<Rightarrow> Inr (x, st2\<lparr>nestings := nestings st\<rparr>))"
  using assms by (simp add: NESTING_GUARD_def Let_def)


lemma sum_caseE:
  "(case r of Inl e \<Rightarrow> False | Inr (x, s) \<Rightarrow> P x s) \<Longrightarrow> \<exists>x s. r = Inr (x, s) \<and> P x s"
  by (cases r) auto

lemma option_caseE:
  "(case r of None \<Rightarrow> False | Some s \<Rightarrow> P s) \<Longrightarrow> \<exists>s. r = Some s \<and> P s"
  by (cases r) auto

lemma start_nestings: "nestings (parser_of buf) < MAX_NESTING" "nestings (parser_of buf) = 0"
  by (simp_all add: parser_of_def Parser_new_def MAX_NESTING_def Let_def)

section \<open>Lookahead\<close>

text \<open>
  C9.  The lookahead scans for a selector and for a value (and the scan for an
  include, which runs the first) return the parser they were called with: the
  cursor \<open>position\<close>, the tracker \<open>pstate\<close> and every other field are as before, for
  every starting position and every reading of the tokens.
\<close>

theorem lookahead_leaves_parser:
  "snd (lookahead_for_selector L start st) = st \<and>
   snd (lookahead_for_include L start st) = st \<and>
   snd (lookahead_for_value L start st) = st"
  by (simp add: lookahead_for_selector_def lookahead_for_include_def lookahead_for_value_def
        Let_def split: option.splits prod.splits)

lemma lookahead_selector_eval:
  "fst (lookahead_for_selector css_prelexer None (parser_of ''a { }'')) =
     \<lparr>found = Some 2, error_ptr = None, la_position = Some 2, parsable = True,
      has_interpolants = False, is_custom_property = False\<rparr>"
  by (simp add: ev cong: eval_congs)

lemma lookahead_value_eval:
  "fst (lookahead_for_value css_prelexer None (parser_of ''$a;'')) =
     \<lparr>found = Some 2, error_ptr = None, la_position = Some 2, parsable = False,
      has_interpolants = False, is_custom_property = False\<rparr>"
  by (simp add: ev cong: eval_congs)

theorem lookahead_leaves_parser_witness:
  "lookahead_for_selector css_prelexer None (parser_of ''a { }'') =
     (\<lparr>found = Some 2, error_ptr = None, la_position = Some 2, parsable = True,
       has_interpolants = False, is_custom_property = False\<rparr>, parser_of ''a { }'') \<and>
   lookahead_for_value css_prelexer None (parser_of ''$a;'') =
     (\<lparr>found = Some 2, error_ptr = None, la_position = Some 2, parsable = False,
       has_interpolants = False, is_custom_property = False\<rparr>, parser_of ''$a;'')"
  using lookahead_leaves_parser [of css_prelexer None "parser_of ''a { }''"]
        lookahead_leaves_parser [of css_prelexer None "parser_of ''$a;''"]
        lookahead_selector_eval lookahead_value_eval
  by (simp add: prod_eq_iff)

section \<open>content-exists\<close>

text \<open>
  C6.  A function call whose name, with \<open>_\<close> read as \<open>-\<close>, is \<open>content-exists\<close>: when
  the innermost scope is not \<open>Mixin\<close> the parse fails with the error "Cannot call
  content-exists() except within a mixin."; when it is \<open>Mixin\<close> the call is parsed
  as any other call, and with the arguments parsed the result is the
  \<open>Function_Call\<close> of the name as written and these arguments.
\<close>

theorem content_exists_scope:
  assumes "st1 = (case lex (prelex E) identifier_tok True st of Some s \<Rightarrow> s | None \<Rightarrow> st)"
    and "normalize_underscores (lexed_string st1) = ''content-exists''"
    and "stack st1 \<noteq> []"
  shows "(last (stack st1) \<noteq> Mixin \<longrightarrow>
            parse_function_call E pf st =
              Inl (error ''Cannot call content-exists() except within a mixin.'' st1)) \<and>
         (last (stack st1) = Mixin \<longrightarrow>
            parse_function_call E pf st =
              bind (parse_arguments E pf st1) (\<lambda>args st2.
                Inr (Expression (Function_Call (lexed_string st1) args) False False, st2)) \<and>
            (\<forall>args st2. parse_arguments E pf st1 = Inr (args, st2) \<longrightarrow>
               parse_function_call E pf st =
                 Inr (Expression (Function_Call (lexed_string st1) args) False False, st2)))"
  using assms
  by (simp add: parse_function_call_def Let_def bind_def new_def)

lemma content_exists_trace:
  "(case lex css_prelexer identifier_tok True
           ((parser_of ''content-exists()'')\<lparr>stack := sc\<rparr>) of
      None \<Rightarrow> False
    | Some st1 \<Rightarrow>
        lexed_string st1 = ''content-exists'' \<and> stack st1 = sc \<and>
        error ''Cannot call content-exists() except within a mixin.'' st1 =
          InvalidSass \<lparr>line = 0, column = 0\<rparr>
            ''Cannot call content-exists() except within a mixin.'' \<and>
        outcome (parse_arguments css_env (parse_factor css_env) st1) = Inr [])"
  by (simp add: ev cong: eval_congs)

theorem content_exists_scope_witness:
  "outcome (parse_function_call css_env (parse_factor css_env)
             ((parser_of ''content-exists()'')\<lparr>stack := [Root, Rules]\<rparr>)) =
     Inl (InvalidSass \<lparr>line = 0, column = 0\<rparr>
            ''Cannot call content-exists() except within a mixin.'') \<and>
   outcome (parse_function_call css_env (parse_factor css_env)
             ((parser_of ''content-exists()'')\<lparr>stack := [Root, Mixin]\<rparr>)) =
     Inr (Expression (Function_Call ''content-exists'' []) False False)"
proof -
  let ?pf = "parse_factor css_env"
  have W: "\<exists>s1. lex (prelex css_env) identifier_tok True
              ((parser_of ''content-exists()'')\<lparr>stack := sc\<rparr>) = Some s1 \<and>
            lexed_string s1 = ''content-exists'' \<and> stack s1 = sc \<and>
            error ''Cannot call content-exists() except within a mixin.'' s1 =
              InvalidSass \<lparr>line = 0, column = 0\<rparr>
                ''Cannot call content-exists() except within a mixin.'' \<and>
            outcome (parse_arguments css_env ?pf s1) = Inr []" for sc
    using option_caseE [OF content_exists_trace [of sc]] by (simp add: css_env_sel)
  from W [of "[Root, Rules]"] obtain s1 where a:
      "lex (prelex css_env) identifier_tok True
         ((parser_of ''content-exists()'')\<lparr>stack := [Root, Rules]\<rparr>) = Some s1"
      "lexed_string s1 = ''content-exists''" "stack s1 = [Root, Rules]"
      "error ''Cannot call content-exists() except within a mixin.'' s1 =
         InvalidSass \<lparr>line = 0, column = 0\<rparr>
           ''Cannot call content-exists() except within a mixin.''"
    by blast
  from W [of "[Root, Mixin]"] obtain s2 where b:
      "lex (prelex css_env) identifier_tok True
         ((parser_of ''content-exists()'')\<lparr>stack := [Root, Mixin]\<rparr>) = Some s2"
      "lexed_string s2 = ''content-exists''" "stack s2 = [Root, Mixin]"
      "outcome (parse_arguments css_env ?pf s2) = Inr []"
    by blast
  from b(4) obtain s3 where c: "parse_arguments css_env ?pf s2 = Inr ([], s3)"
    by (auto simp: outcome_def split: sum.splits)
  have A: "parse_function_call css_env ?pf ((parser_of ''content-exists()'')\<lparr>stack := [Root, Rules]\<rparr>) =
             Inl (error ''Cannot call content-exists() except within a mixin.'' s1)"
    using content_exists_scope [where E = css_env and ?st1.0 = s1 and pf = ?pf
            and st = "(parser_of ''content-exists()'')\<lparr>stack := [Root, Rules]\<rparr>"] a
    by (simp add: normalize_underscores_def)
  have B: "parse_function_call css_env ?pf ((parser_of ''content-exists()'')\<lparr>stack := [Root, Mixin]\<rparr>) =
             Inr (Expression (Function_Call (lexed_string s2) []) False False, s3)"
    using content_exists_scope [where E = css_env and ?st1.0 = s2 and pf = ?pf
            and st = "(parser_of ''content-exists()'')\<lparr>stack := [Root, Mixin]\<rparr>"] b c
    by (simp add: normalize_underscores_def bind_simps)
  from A B a(4) b(2) show ?thesis by (simp add: outcome_def)
qed

section \<open>Numbers and their leading zero\<close>











section \<open>Lists\<close>

lemma sneak_nestings: "sneak L m start (st\<lparr>nestings := n\<rparr>) = sneak L m start st"
  by (simp add: sneak_def Let_def cong: option.case_cong if_cong)

lemma peek_nestings: "peek L m start (st\<lparr>nestings := n\<rparr>) = peek L m start st"
  by (simp add: peek_def sneak_nestings Let_def cong: option.case_cong if_cong)

lemma peek_css_nestings:
  "peek_css L m start (st\<lparr>nestings := n\<rparr>) = peek_css L m start st"
  by (simp add: peek_css_def peek_nestings)

lemma parse_space_list_single:
  assumes "nestings st < MAX_NESTING"
    and "parse_disjunction E pf (st\<lparr>nestings := nestings st + 1\<rparr>) = Inr (d, st1)"
    and "peek_css (prelex E) space_list_terminator (Some (position st1)) st1 \<noteq> None"
  shows "parse_space_list E pf st = Inr (d, st1\<lparr>nestings := nestings st\<rparr>)"
  using assms by (simp add: parse_space_list_def NESTING_GUARD_run bind_def)

lemma parse_comma_list_single:
  assumes "nestings st < MAX_NESTING"
    and "peek_css (prelex E) list_terminator (Some (position st)) st = None"
    and "parse_space_list E pf (st\<lparr>nestings := nestings st + 1\<rparr>) = Inr (l, st1)"
    and "peek_css (prelex E) (exactly (CHR '','')) (Some (position st1)) st1 = None"
  shows "parse_comma_list E pf delayed st =
           Inr (if delayed then l else set_delayed False l, st1\<lparr>nestings := nestings st\<rparr>)"
  using assms by (simp add: parse_comma_list_def NESTING_GUARD_run bind_def peek_css_nestings)

lemma parse_comma_list_trailing:
  assumes "nestings st < MAX_NESTING"
    and "peek_css (prelex E) list_terminator (Some (position st)) st = None"
    and "parse_space_list E pf (st\<lparr>nestings := nestings st + 1\<rparr>) = Inr (l, st1)"
    and "peek_css (prelex E) (exactly (CHR '','')) (Some (position st1)) st1 \<noteq> None"
    and "lex_css (prelex E) (exactly (CHR '','')) st1 = Some st2"
    and "peek_css (prelex E) list_terminator (Some (position st2)) st2 \<noteq> None"
  shows "parse_comma_list E pf delayed st =
           Inr (Expression (List [l] SASS_COMMA False False) False False,
                st2\<lparr>nestings := nestings st\<rparr>)"
  using assms
  by (auto simp: parse_comma_list_def NESTING_GUARD_run bind_def loop_fuel_def new_List_def new_def
        peek_css_nestings)

lemma parse_bracket_list_bracketed:
  assumes "parse_bracket_list E pf st = Inr (x, st')"
  shows "\<exists>els sep arglist. node x = List els sep arglist True"
  using assms
  by (auto simp: parse_bracket_list_def NESTING_GUARD_def Let_def bind_def new_List_def new_def
           split: if_splits sum.splits prod.splits Node.splits)

text \<open>
  C3.  A space list returns its single element as it is when a terminator of space
  lists follows it.  A comma list returns its single space list as it is (undelayed
  unless the caller asked for a delayed value) when no comma follows it; when a
  comma follows and a list terminator comes right behind the comma, the result is a
  comma list of that one element.  Whatever a bracketed list returns is a \<open>List\<close>
  node with the bracketed flag set.
\<close>

theorem singleton_lists:
  "(nestings st < MAX_NESTING \<and>
    parse_disjunction E pf (st\<lparr>nestings := nestings st + 1\<rparr>) = Inr (d, st1) \<and>
    peek_css (prelex E) space_list_terminator (Some (position st1)) st1 \<noteq> None \<longrightarrow>
      parse_space_list E pf st = Inr (d, st1\<lparr>nestings := nestings st\<rparr>)) \<and>
   (nestings st < MAX_NESTING \<and>
    peek_css (prelex E) list_terminator (Some (position st)) st = None \<and>
    parse_space_list E pf (st\<lparr>nestings := nestings st + 1\<rparr>) = Inr (l, st1) \<longrightarrow>
      (peek_css (prelex E) (exactly (CHR '','')) (Some (position st1)) st1 = None \<longrightarrow>
         parse_comma_list E pf delayed st =
           Inr (if delayed then l else set_delayed False l, st1\<lparr>nestings := nestings st\<rparr>)) \<and>
      (peek_css (prelex E) (exactly (CHR '','')) (Some (position st1)) st1 \<noteq> None \<and>
       lex_css (prelex E) (exactly (CHR '','')) st1 = Some st2 \<and>
       peek_css (prelex E) list_terminator (Some (position st2)) st2 \<noteq> None \<longrightarrow>
         parse_comma_list E pf delayed st =
           Inr (Expression (List [l] SASS_COMMA False False) False False,
                st2\<lparr>nestings := nestings st\<rparr>))) \<and>
   (\<forall>x st'. parse_bracket_list E pf st = Inr (x, st') \<longrightarrow>
        (\<exists>els sep arglist. node x = List els sep arglist True))"
  using parse_space_list_single [of st E pf d st1]
        parse_comma_list_single [of st E pf l st1 delayed]
        parse_comma_list_trailing [of st E pf l st1 st2 delayed]
        parse_bracket_list_bracketed [of E pf st]
  by blast

lemma space_single_trace:
  "(case parse_disjunction css_env (parse_factor css_env)
           ((parser_of ''a;'')\<lparr>nestings := nestings (parser_of ''a;'') + 1\<rparr>) of
      Inl e \<Rightarrow> False
    | Inr (d, st1) \<Rightarrow>
        d = Expression (String_Constant ''a'') False False \<and>
        peek_css css_prelexer space_list_terminator (Some (position st1)) st1 \<noteq> None)"
  by (simp add: ev cong: eval_congs)

lemma comma_single_trace:
  "peek_css css_prelexer list_terminator (Some (position (parser_of ''a;''))) (parser_of ''a;'') = None \<and>
   (case parse_space_list css_env (parse_factor css_env)
           ((parser_of ''a;'')\<lparr>nestings := nestings (parser_of ''a;'') + 1\<rparr>) of
      Inl e \<Rightarrow> False
    | Inr (l, st1) \<Rightarrow>
        l = Expression (String_Constant ''a'') False False \<and>
        peek_css css_prelexer (exactly (CHR '','')) (Some (position st1)) st1 = None)"
  by (simp add: ev cong: eval_congs)

lemma comma_trailing_trace:
  "peek_css css_prelexer list_terminator (Some (position (parser_of ''a,)''))) (parser_of ''a,)'') = None \<and>
   (case parse_space_list css_env (parse_factor css_env)
           ((parser_of ''a,)'')\<lparr>nestings := nestings (parser_of ''a,)'') + 1\<rparr>) of
      Inl e \<Rightarrow> False
    | Inr (l, st1) \<Rightarrow>
        l = Expression (String_Constant ''a'') False False \<and>
        peek_css css_prelexer (exactly (CHR '','')) (Some (position st1)) st1 \<noteq> None \<and>
        (case lex_css css_prelexer (exactly (CHR '','')) st1 of
           None \<Rightarrow> False
         | Some st2 \<Rightarrow>
             peek_css css_prelexer list_terminator (Some (position st2)) st2 \<noteq> None))"
  by (simp add: ev cong: eval_congs)

lemma bracket_single_eval:
  "outcome (parse_bracket_list css_env (parse_factor css_env) (parser_of ''a]'')) =
     Inr (Expression (List [Expression (String_Constant ''a'') False False] SASS_SPACE False True)
            False False)"
  by (simp add: ev cong: eval_congs)

theorem singleton_lists_witness:
  "outcome (parse_space_list css_env (parse_factor css_env) (parser_of ''a;'')) =
     Inr (Expression (String_Constant ''a'') False False) \<and>
   outcome (parse_comma_list css_env (parse_factor css_env) True (parser_of ''a;'')) =
     Inr (Expression (String_Constant ''a'') False False) \<and>
   outcome (parse_comma_list css_env (parse_factor css_env) True (parser_of ''a,)'')) =
     Inr (Expression (List [Expression (String_Constant ''a'') False False] SASS_COMMA False False)
            False False) \<and>
   (\<exists>els sep arglist.
      map_sum id node (outcome (parse_bracket_list css_env (parse_factor css_env) (parser_of ''a]''))) =
        Inr (List els sep arglist True))"
proof -
  let ?pf = "parse_factor css_env"
  obtain d s1 where 1:
      "parse_disjunction css_env ?pf
         ((parser_of ''a;'')\<lparr>nestings := nestings (parser_of ''a;'') + 1\<rparr>) = Inr (d, s1)"
      "d = Expression (String_Constant ''a'') False False"
      "peek_css (prelex css_env) space_list_terminator (Some (position s1)) s1 \<noteq> None"
    using space_single_trace by (auto simp: css_env_sel split: sum.splits prod.splits)
  obtain l s2 where 2:
      "peek_css (prelex css_env) list_terminator (Some (position (parser_of ''a;'')))
         (parser_of ''a;'') = None"
      "parse_space_list css_env ?pf
         ((parser_of ''a;'')\<lparr>nestings := nestings (parser_of ''a;'') + 1\<rparr>) = Inr (l, s2)"
      "l = Expression (String_Constant ''a'') False False"
      "peek_css (prelex css_env) (exactly (CHR '','')) (Some (position s2)) s2 = None"
    using comma_single_trace by (auto simp: css_env_sel split: sum.splits prod.splits)
  obtain k s3 s4 where 3:
      "peek_css (prelex css_env) list_terminator (Some (position (parser_of ''a,)'')))
         (parser_of ''a,)'') = None"
      "parse_space_list css_env ?pf
         ((parser_of ''a,)'')\<lparr>nestings := nestings (parser_of ''a,)'') + 1\<rparr>) = Inr (k, s3)"
      "k = Expression (String_Constant ''a'') False False"
      "peek_css (prelex css_env) (exactly (CHR '','')) (Some (position s3)) s3 \<noteq> None"
      "lex_css (prelex css_env) (exactly (CHR '','')) s3 = Some s4"
      "peek_css (prelex css_env) list_terminator (Some (position s4)) s4 \<noteq> None"
    using comma_trailing_trace
    by (auto simp: css_env_sel split: sum.splits prod.splits option.splits)
  obtain x s5 where 4: "parse_bracket_list css_env ?pf (parser_of ''a]'') = Inr (x, s5)"
    using bracket_single_eval by (auto simp: outcome_def split: sum.splits prod.splits)
  have a: "parse_space_list css_env ?pf (parser_of ''a;'') =
             Inr (d, s1\<lparr>nestings := nestings (parser_of ''a;'')\<rparr>)"
    using singleton_lists [where st = "parser_of ''a;''" and E = css_env and pf = ?pf
                             and d = d and ?st1.0 = s1] 1 start_nestings(1)
    by blast
  have b: "parse_comma_list css_env ?pf True (parser_of ''a;'') =
             Inr (l, s2\<lparr>nestings := nestings (parser_of ''a;'')\<rparr>)"
    using singleton_lists [where st = "parser_of ''a;''" and E = css_env and pf = ?pf
                             and l = l and ?st1.0 = s2 and delayed = True] 2 start_nestings(1)
    by simp
  have c: "parse_comma_list css_env ?pf True (parser_of ''a,)'') =
             Inr (Expression (List [k] SASS_COMMA False False) False False,
                  s4\<lparr>nestings := nestings (parser_of ''a,)'')\<rparr>)"
    using singleton_lists [where st = "parser_of ''a,)''" and E = css_env and pf = ?pf
                             and l = k and ?st1.0 = s3 and ?st2.0 = s4 and delayed = True]
          3 start_nestings(1)
    by blast
  have e: "\<exists>els sep arglist. node x = List els sep arglist True"
    using singleton_lists [where st = "parser_of ''a]''" and E = css_env and pf = ?pf] 4
    by blast
  from a b c e 1(2) 2(3) 3(3) 4 show ?thesis
    by (auto simp: outcome_def)
qed

theorem trailing_comma_counterexample:
  "outcome (parse_comma_list css_env (parse_factor css_env) False (parser_of ''a,)'')) =
     Inr (Expression (List [Expression (String_Constant ''a'') False False] SASS_COMMA False False)
            False False) \<and>
   outcome (parse_comma_list css_env (parse_factor css_env) False (parser_of ''a,)'')) \<noteq>
     Inr (Expression (String_Constant ''a'') False False)"
proof -
  let ?pf = "parse_factor css_env"
  obtain k s3 s4 where 3:
      "peek_css (prelex css_env) list_terminator (Some (position (parser_of ''a,)'')))
         (parser_of ''a,)'') = None"
      "parse_space_list css_env ?pf
         ((parser_of ''a,)'')\<lparr>nestings := nestings (parser_of ''a,)'') + 1\<rparr>) = Inr (k, s3)"
      "k = Expression (String_Constant ''a'') False False"
      "peek_css (prelex css_env) (exactly (CHR '','')) (Some (position s3)) s3 \<noteq> None"
      "lex_css (prelex css_env) (exactly (CHR '','')) s3 = Some s4"
      "peek_css (prelex css_env) list_terminator (Some (position s4)) s4 \<noteq> None"
    using comma_trailing_trace
    by (auto simp: css_env_sel split: sum.splits prod.splits option.splits)
  from parse_comma_list_trailing [OF start_nestings(1) 3(1,2,4,5,6), of False] 3(3)
  show ?thesis by (simp add: outcome_def)
qed

section \<open>Maps\<close>












section \<open>The slash between two numbers\<close>












section \<open>The dispatch of statements\<close>

lemma lookahead_for_selector_snd: "snd (lookahead_for_selector L start st) = st"
  by (simp add: lookahead_for_selector_def Let_def split: option.splits prod.splits)

lemma skip_space_frame:
  "block_stack (skip_space L st) = block_stack st" "stack (skip_space L st) = stack st"
  by (auto simp: skip_space_def lex_frame split: option.splits)

lemma parse_block_comments_none:
  assumes "block_stack st \<noteq> []" and "lex (prelex E) block_comment True st = None"
  shows "parse_block_comments E store st = Inr ((), st)"
  using assms by (simp add: parse_block_comments_def loop_fuel_def)

lemma no_ruleset_lookahead:
  assumes "no_ruleset L st"
  obtains la where "lookahead_for_selector L (Some (position st)) st = (la, st)"
    and "error_ptr la \<noteq> None \<or> is_custom_property la"
proof -
  obtain la st' where l: "lookahead_for_selector L (Some (position st)) st = (la, st')"
    by (cases "lookahead_for_selector L (Some (position st)) st")
  with lookahead_for_selector_snd [of L "Some (position st)" st] have "st' = st" by simp
  with l assms that show ?thesis by (auto simp: no_ruleset_def)
qed

lemma dispatch_import:
  assumes "parse_block_comments E True st = Inr (u, st0)"
    and "no_function_statement (prelex E) (skip_space (prelex E) st0)"
    and "lex (prelex E) kwd_import True (skip_space (prelex E) st0) = Some st1"
  shows "parse_block_node E pf pb root st =
           (if \<not> import_scope_ok (if stack st1 = [] then Rules else last (stack st1)) \<and>
               peek_css (prelex E) uri_prefix (Some (position st1)) st1 = None
            then Inl (error ''Import directives may not be used within control directives or mixins.'' st1)
            else bind (parse_import E pf st1) (\<lambda>imp st2.
                   Inr (True, fold (\<lambda>inc s. append_stm (Import_Stub inc) s) (incs imp)
                                (if urls imp \<noteq> [] then append_stm (Import_Node imp) st2 else st2))))"
  using assms(2,3)
  by (simp add: parse_block_node_def assms(1) bind_simps
        skip_space_def [symmetric] no_function_statement_def Let_def)

lemma dispatch_charset:
  assumes "parse_block_comments E True st = Inr (u, st0)"
    and "no_block_directive (prelex E) (skip_space (prelex E) st0)"
    and "lex (prelex E) kwd_charset_directive True (skip_space (prelex E) st0) = Some st1"
  shows "parse_block_node E pf pb root st =
           Inr (True, case lex (prelex E) (sequence [quoted_string, optional_spaces,
                                                     exactly (CHR '';'')]) True st1 of
                        Some st2 \<Rightarrow> st2 | None \<Rightarrow> st1)"
proof -
  from assms(2) have nr: "no_ruleset (prelex E) (skip_space (prelex E) st0)"
    by (simp add: no_block_directive_def)
  from no_ruleset_lookahead [OF nr] obtain la where
    la: "lookahead_for_selector (prelex E) (Some (position (skip_space (prelex E) st0)))
           (skip_space (prelex E) st0) = (la, skip_space (prelex E) st0)"
      "error_ptr la \<noteq> None \<or> is_custom_property la"
    by blast
  show ?thesis
    using assms(2,3) la
    by (auto simp: parse_block_node_def assms(1) bind_simps
          skip_space_def [symmetric] no_block_directive_def no_ruleset_def
          no_function_statement_def parse_charset_directive_def Let_def
          split: option.splits)
qed

lemma dispatch_else:
  assumes "parse_block_comments E True st = Inr (u, st0)"
    and "no_block_directive (prelex E) (skip_space (prelex E) st0)"
    and "lex (prelex E) kwd_charset_directive True (skip_space (prelex E) st0) = None"
    and "lex (prelex E) (exactly_str else_kwd) True (skip_space (prelex E) st0) = Some st1"
  shows "parse_block_node E pf pb root st =
           Inl (error ''Invalid CSS: @else must come after @if'' st1)"
proof -
  from assms(2) have nr: "no_ruleset (prelex E) (skip_space (prelex E) st0)"
    by (simp add: no_block_directive_def)
  from no_ruleset_lookahead [OF nr] obtain la where
    la: "lookahead_for_selector (prelex E) (Some (position (skip_space (prelex E) st0)))
           (skip_space (prelex E) st0) = (la, skip_space (prelex E) st0)"
      "error_ptr la \<noteq> None \<or> is_custom_property la"
    by blast
  show ?thesis
    using assms(2,3,4) la
    by (auto simp: parse_block_node_def assms(1) bind_simps
          skip_space_def [symmetric] no_block_directive_def no_ruleset_def
          no_function_statement_def Let_def)
qed

section \<open>@charset\<close>

text \<open>
  C10.  Where the dispatch of \<open>parse_block_node\<close>, behind the comments before the
  statement, reaches \<open>@charset\<close> (none of the statements tried earlier begins
  here), the call returns \<open>true\<close> and the parser behind the quoted string, the
  optional spaces and the \<open>;\<close> that \<open>parse_charset_directive\<close> lexes (behind the
  keyword when they do not follow); the block stack, and with it the list of
  statements of the block, is the one the directive was met with, which is the one
  before the call when no comment stands before the statement.
\<close>

theorem charset_adds_no_statement:
  assumes "parse_block_comments E True st = Inr (u, st0)"
    and "no_block_directive (prelex E) (skip_space (prelex E) st0)"
    and "lex (prelex E) kwd_charset_directive True (skip_space (prelex E) st0) = Some st1"
  shows "\<exists>st2. parse_block_node E pf pb root st = Inr (True, st2) \<and>
               st2 = (case lex (prelex E) (sequence [quoted_string, optional_spaces,
                                                      exactly (CHR '';'')]) True st1 of
                        Some s \<Rightarrow> s | None \<Rightarrow> st1) \<and>
               block_stack st2 = block_stack st0 \<and>
               (lex (prelex E) block_comment True st = None \<longrightarrow>
                  block_stack st2 = block_stack st)"
proof -
  have "st0 = st" if "lex (prelex E) block_comment True st = None"
    using assms(1) that
    by (simp add: parse_block_comments_def loop_fuel_def split: if_splits)
  then show ?thesis
    using dispatch_charset [OF assms, of pf pb root] lex_frame(1) [OF assms(3)]
          skip_space_frame(1) [of "prelex E" st0]
    by (auto simp: lex_frame(1) split: option.splits)
qed

lemma charset_trace:
  "lex css_prelexer block_comment True
     ((parser_of ''@charset \"utf-8\";'')\<lparr>block_stack := [Block [Import_Stub ''x''] True]\<rparr>) = None \<and>
   no_block_directive css_prelexer
     (skip_space css_prelexer
        ((parser_of ''@charset \"utf-8\";'')\<lparr>block_stack := [Block [Import_Stub ''x''] True]\<rparr>)) \<and>
   (case lex css_prelexer kwd_charset_directive True
           (skip_space css_prelexer
              ((parser_of ''@charset \"utf-8\";'')\<lparr>block_stack := [Block [Import_Stub ''x''] True]\<rparr>)) of
      None \<Rightarrow> False
    | Some st1 \<Rightarrow>
        (case lex css_prelexer (sequence [quoted_string, optional_spaces, exactly (CHR '';'')])
                True st1 of
           None \<Rightarrow> False
         | Some st2 \<Rightarrow> position st2 = 17))"
  by (simp add: ev cong: eval_congs)

theorem charset_adds_no_statement_witness:
  "\<exists>st2. parse_block_node css_env (parse_factor css_env) (parse_block css_env) True
            ((parser_of ''@charset \"utf-8\";'')\<lparr>block_stack := [Block [Import_Stub ''x''] True]\<rparr>) =
            Inr (True, st2) \<and>
          position st2 = 17 \<and> block_stack st2 = [Block [Import_Stub ''x''] True]"
proof -
  let ?S = "(parser_of ''@charset \"utf-8\";'')\<lparr>block_stack := [Block [Import_Stub ''x''] True]\<rparr>"
  have b: "block_stack ?S \<noteq> []" "block_stack ?S = [Block [Import_Stub ''x''] True]" by simp_all
  have c: "lex (prelex css_env) block_comment True ?S = None"
    and d: "no_block_directive (prelex css_env) (skip_space (prelex css_env) ?S)"
    using charset_trace by (simp_all add: css_env_sel)
  from charset_trace have r0:
    "case lex css_prelexer kwd_charset_directive True (skip_space css_prelexer ?S) of
      None \<Rightarrow> False
    | Some st1 \<Rightarrow>
        (case lex css_prelexer (sequence [quoted_string, optional_spaces, exactly (CHR '';'')])
                True st1 of
           None \<Rightarrow> False
         | Some st2 \<Rightarrow> position st2 = 17)"
    by blast
  from option_caseE [OF r0] obtain s1 where
      e: "lex (prelex css_env) kwd_charset_directive True (skip_space (prelex css_env) ?S) = Some s1"
      and r1: "case lex css_prelexer (sequence [quoted_string, optional_spaces, exactly (CHR '';'')])
                True s1 of
           None \<Rightarrow> False
         | Some st2 \<Rightarrow> position st2 = 17"
    by (auto simp: css_env_sel)
  from option_caseE [OF r1] obtain s2 where
      f: "lex (prelex css_env) (sequence [quoted_string, optional_spaces, exactly (CHR '';'')])
            True s1 = Some s2"
      and g: "position s2 = 17"
    by (auto simp: css_env_sel)
  from charset_adds_no_statement [OF parse_block_comments_none [OF b(1) c] d e,
         of "parse_factor css_env" "parse_block css_env" True]
  show ?thesis using f g b(2) by auto
qed

section \<open>@else\<close>

lemma if_directive_step:
  assumes "block_stack st \<noteq> []"
    and "parse_list E pf False (push_scope Control st) = Inr (predicate, st2)"
    and "pb (is_root (last (block_stack st))) st2 = Inr (blk, st3)"
  shows "if_directive_loop (Suc n) E pf pb else_if st =
           (case lex_css (prelex E) elseif_directive st3 of
              Some st4 \<Rightarrow>
                (case if_directive_loop n E pf pb True st4 of
                   Inl e \<Rightarrow> Inl e
                 | Inr (stm, st5) \<Rightarrow>
                     Inr (If_Node predicate blk (Some (Block [stm] False)), pop_scope st5))
            | None \<Rightarrow>
                (case lex_css (prelex E) kwd_else_directive st3 of
                   Some st4 \<Rightarrow>
                     (case pb (is_root (last (block_stack st))) st4 of
                        Inl e \<Rightarrow> Inl e
                      | Inr (b, st5) \<Rightarrow> Inr (If_Node predicate blk (Some b), pop_scope st5))
                 | None \<Rightarrow> Inr (If_Node predicate blk None, pop_scope st3)))"
  using assms
  by (simp add: Let_def bind_def push_scope_def append_def
           split: option.splits sum.splits prod.splits)

text \<open>
  C5.  Where the dispatch of \<open>parse_block_node\<close>, behind the comments before the
  statement, reaches \<open>@else\<close> (none of the statements tried earlier begins here),
  the parse fails with "Invalid CSS: @else must come after @if" at the token.  An
  \<open>@if\<close> whose predicate and block have been parsed looks for \<open>@else if\<close> and \<open>@else\<close>
  right behind the block: without either the \<open>If\<close> node has no alternative; with
  \<open>@else\<close> its alternative is the block that follows; with \<open>@else if\<close> it is a new
  block holding the \<open>If\<close> node of the rest.
\<close>

theorem else_after_if:
  "(parse_block_comments E True st = Inr (u, st0) \<and>
    no_block_directive (prelex E) (skip_space (prelex E) st0) \<and>
    lex (prelex E) kwd_charset_directive True (skip_space (prelex E) st0) = None \<and>
    lex (prelex E) (exactly_str else_kwd) True (skip_space (prelex E) st0) = Some st1 \<longrightarrow>
      parse_block_node E pf pb root st =
        Inl (InvalidSass (before_token st1) ''Invalid CSS: @else must come after @if'')) \<and>
   (block_stack st \<noteq> [] \<and>
    parse_list E pf False (push_scope Control st) = Inr (predicate, st2) \<and>
    pb (is_root (last (block_stack st))) st2 = Inr (blk, st3) \<longrightarrow>
      (lex_css (prelex E) elseif_directive st3 = None \<and>
       lex_css (prelex E) kwd_else_directive st3 = None \<longrightarrow>
         parse_if_directive E pf pb else_if st = Inr (If_Node predicate blk None, pop_scope st3)) \<and>
      (lex_css (prelex E) elseif_directive st3 = None \<and>
       lex_css (prelex E) kwd_else_directive st3 = Some st4 \<and>
       pb (is_root (last (block_stack st))) st4 = Inr (alt, st5) \<longrightarrow>
         parse_if_directive E pf pb else_if st =
           Inr (If_Node predicate blk (Some alt), pop_scope st5)) \<and>
      (lex_css (prelex E) elseif_directive st3 = Some st4 \<and>
       if_directive_loop (endpos st - position st) E pf pb True st4 = Inr (stm, st5) \<longrightarrow>
         parse_if_directive E pf pb else_if st =
           Inr (If_Node predicate blk (Some (Block [stm] False)), pop_scope st5)))"
proof -
  have 1: "parse_block_node E pf pb root st =
        Inl (InvalidSass (before_token st1) ''Invalid CSS: @else must come after @if'')"
    if "parse_block_comments E True st = Inr (u, st0)"
      "no_block_directive (prelex E) (skip_space (prelex E) st0)"
      "lex (prelex E) kwd_charset_directive True (skip_space (prelex E) st0) = None"
      "lex (prelex E) (exactly_str else_kwd) True (skip_space (prelex E) st0) = Some st1"
    using dispatch_else [OF that, of pf pb root] lex_error_at [OF that(4)] by simp
  have 2: "parse_if_directive E pf pb else_if st =
           (case lex_css (prelex E) elseif_directive st3 of
              Some st4 \<Rightarrow>
                (case if_directive_loop (endpos st - position st) E pf pb True st4 of
                   Inl e \<Rightarrow> Inl e
                 | Inr (stm, st5) \<Rightarrow>
                     Inr (If_Node predicate blk (Some (Block [stm] False)), pop_scope st5))
            | None \<Rightarrow>
                (case lex_css (prelex E) kwd_else_directive st3 of
                   Some st4 \<Rightarrow>
                     (case pb (is_root (last (block_stack st))) st4 of
                        Inl e \<Rightarrow> Inl e
                      | Inr (b, st5) \<Rightarrow> Inr (If_Node predicate blk (Some b), pop_scope st5))
                 | None \<Rightarrow> Inr (If_Node predicate blk None, pop_scope st3)))"
    if "block_stack st \<noteq> []"
      "parse_list E pf False (push_scope Control st) = Inr (predicate, st2)"
      "pb (is_root (last (block_stack st))) st2 = Inr (blk, st3)"
    using if_directive_step [where pb = pb and n = "endpos st - position st" and else_if = else_if,
                             OF that]
    by (simp add: parse_if_directive_def loop_fuel_def)
  show ?thesis
    using 1 2 by (auto split: option.splits)
qed

lemma else_trace:
  "lex css_prelexer block_comment True (parser_of ''@else { }'') = None \<and>
   no_block_directive css_prelexer (skip_space css_prelexer (parser_of ''@else { }'')) \<and>
   lex css_prelexer kwd_charset_directive True
     (skip_space css_prelexer (parser_of ''@else { }'')) = None \<and>
   (case lex css_prelexer (exactly_str else_kwd) True
           (skip_space css_prelexer (parser_of ''@else { }'')) of
      None \<Rightarrow> False
    | Some st1 \<Rightarrow> before_token st1 = \<lparr>line = 0, column = 0\<rparr>)"
  by (simp add: ev cong: eval_congs)

lemma if_else_trace:
  "(case parse_list css_env (parse_factor css_env) False
           (push_scope Control (parser_of '' true { } @else { }'')) of
      Inl e \<Rightarrow> False
    | Inr (predicate, st2) \<Rightarrow>
        predicate = Expression (Boolean True) False False \<and>
        (case parse_block css_env True st2 of
           Inl e \<Rightarrow> False
         | Inr (blk, st3) \<Rightarrow>
             blk = Block [] True \<and>
             lex_css css_prelexer elseif_directive st3 = None \<and>
             (case lex_css css_prelexer kwd_else_directive st3 of
                None \<Rightarrow> False
              | Some st4 \<Rightarrow>
                  (case parse_block css_env True st4 of
                     Inl e \<Rightarrow> False
                   | Inr (alt, st5) \<Rightarrow> alt = Block [] True))))"
  by (simp add: ev cong: eval_congs)

theorem else_after_if_witness:
  "outcome (parse_block_node css_env (parse_factor css_env) (parse_block css_env) True
             (parser_of ''@else { }'')) =
     Inl (InvalidSass \<lparr>line = 0, column = 0\<rparr> ''Invalid CSS: @else must come after @if'') \<and>
   outcome (parse_if_directive css_env (parse_factor css_env) (parse_block css_env) False
             (parser_of '' true { } @else { }'')) =
     Inr (If_Node (Expression (Boolean True) False False) (Block [] True) (Some (Block [] True)))"
proof -
  let ?pf = "parse_factor css_env"
  let ?pb = "parse_block css_env"
  let ?S = "parser_of ''@else { }''"
  let ?T = "parser_of '' true { } @else { }''"
  have b: "block_stack ?S \<noteq> []" "block_stack ?T \<noteq> []" "is_root (last (block_stack ?T))"
    by (simp_all add: parser_of_def Parser_new_def Let_def)
  have c: "lex (prelex css_env) block_comment True ?S = None"
    and d: "no_block_directive (prelex css_env) (skip_space (prelex css_env) ?S)"
    and e: "lex (prelex css_env) kwd_charset_directive True (skip_space (prelex css_env) ?S) = None"
    using else_trace by (simp_all add: css_env_sel)
  from else_trace have r0:
    "case lex css_prelexer (exactly_str else_kwd) True (skip_space css_prelexer ?S) of
      None \<Rightarrow> False
    | Some st1 \<Rightarrow> before_token st1 = \<lparr>line = 0, column = 0\<rparr>"
    by blast
  from option_caseE [OF r0] obtain s1 where
      f: "lex (prelex css_env) (exactly_str else_kwd) True (skip_space (prelex css_env) ?S) = Some s1"
      and g: "before_token s1 = \<lparr>line = 0, column = 0\<rparr>"
    by (auto simp: css_env_sel)
  have A: "parse_block_node css_env ?pf ?pb True ?S =
             Inl (InvalidSass (before_token s1) ''Invalid CSS: @else must come after @if'')"
    using else_after_if [where E = css_env and st = ?S and ?st0.0 = ?S and u = "()"
                           and ?st1.0 = s1 and pf = ?pf and pb = ?pb and root = True]
          parse_block_comments_none [OF b(1) c, of True] d e f
    by blast
  from sum_caseE [OF if_else_trace] obtain p s2 where
      h1: "parse_list css_env ?pf False (push_scope Control ?T) = Inr (p, s2)"
      and h2: "p = Expression (Boolean True) False False"
      and r1: "case parse_block css_env True s2 of
           Inl e \<Rightarrow> False
         | Inr (blk, st3) \<Rightarrow>
             blk = Block [] True \<and>
             lex_css css_prelexer elseif_directive st3 = None \<and>
             (case lex_css css_prelexer kwd_else_directive st3 of
                None \<Rightarrow> False
              | Some st4 \<Rightarrow>
                  (case parse_block css_env True st4 of
                     Inl e \<Rightarrow> False
                   | Inr (alt, st5) \<Rightarrow> alt = Block [] True))"
    by blast
  from sum_caseE [OF r1] obtain bl s3 where
      h3: "?pb True s2 = Inr (bl, s3)"
      and h4: "bl = Block [] True"
      and h5: "lex_css (prelex css_env) elseif_directive s3 = None"
      and r2: "case lex_css css_prelexer kwd_else_directive s3 of
                None \<Rightarrow> False
              | Some st4 \<Rightarrow>
                  (case parse_block css_env True st4 of
                     Inl e \<Rightarrow> False
                   | Inr (alt, st5) \<Rightarrow> alt = Block [] True)"
    by (auto simp: css_env_sel)
  from option_caseE [OF r2] obtain s4 where
      h6: "lex_css (prelex css_env) kwd_else_directive s3 = Some s4"
      and r3: "case parse_block css_env True s4 of
                     Inl e \<Rightarrow> False
                   | Inr (alt, st5) \<Rightarrow> alt = Block [] True"
    by (auto simp: css_env_sel)
  from sum_caseE [OF r3] obtain al s5 where
      h7: "?pb True s4 = Inr (al, s5)" and h8: "al = Block [] True"
    by blast
  have B: "parse_if_directive css_env ?pf ?pb False ?T = Inr (If_Node p bl (Some al), pop_scope s5)"
    using else_after_if [where E = css_env and st = ?T and pf = ?pf and pb = ?pb
                           and predicate = p and ?st2.0 = s2 and blk = bl and ?st3.0 = s3
                           and ?st4.0 = s4 and alt = al and ?st5.0 = s5 and else_if = False]
          b(2,3) h1 h3 h5 h6 h7
    by simp
  from A B g h2 h4 h8 show ?thesis by (simp add: outcome_def)
qed

section \<open>@import\<close>

text \<open>
  C2.  Where the dispatch of \<open>parse_block_node\<close>, behind the comments before the
  statement, reaches \<open>@import\<close> (none of the statements allowed in functions begins
  here): in the scopes \<open>Control\<close>, \<open>Mixin\<close>, \<open>Properties\<close> and \<open>AtRoot\<close>, when \<open>url(\<close>
  does not follow, the parse fails with "Import directives may not be used within
  control directives or mixins." at the token; in the scopes \<open>Function\<close>, \<open>Root\<close>,
  \<open>Rules\<close> and \<open>Media\<close> (and with an empty stack of scopes) the import is parsed
  and its statements are appended to the block.
\<close>

theorem import_scope:
  assumes "parse_block_comments E True st = Inr (u, st0)"
    and "no_function_statement (prelex E) (skip_space (prelex E) st0)"
    and "lex (prelex E) kwd_import True (skip_space (prelex E) st0) = Some st1"
  shows "(stack st1 \<noteq> [] \<and> last (stack st1) \<in> {Control, Mixin, Properties, AtRoot} \<and>
          peek_css (prelex E) uri_prefix (Some (position st1)) st1 = None \<longrightarrow>
            parse_block_node E pf pb root st =
              Inl (InvalidSass (before_token st1)
                     ''Import directives may not be used within control directives or mixins.'')) \<and>
         (stack st1 = [] \<or> last (stack st1) \<in> {Function, Root, Rules, Media} \<longrightarrow>
            parse_block_node E pf pb root st =
              bind (parse_import E pf st1) (\<lambda>imp st2.
                Inr (True, fold (\<lambda>inc s. append_stm (Import_Stub inc) s) (incs imp)
                             (if urls imp \<noteq> [] then append_stm (Import_Node imp) st2 else st2))))"
  using dispatch_import [OF assms, of pf pb root] lex_error_at [OF assms(3)]
  by (auto simp: import_scope_ok_def)

lemma import_trace:
  "lex css_prelexer block_comment True ((parser_of ''@import \"x\";'')\<lparr>stack := sc\<rparr>) = None \<and>
   no_function_statement css_prelexer
     (skip_space css_prelexer ((parser_of ''@import \"x\";'')\<lparr>stack := sc\<rparr>)) \<and>
   (case lex css_prelexer kwd_import True
           (skip_space css_prelexer ((parser_of ''@import \"x\";'')\<lparr>stack := sc\<rparr>)) of
      None \<Rightarrow> False
    | Some st1 \<Rightarrow>
        stack st1 = sc \<and> before_token st1 = \<lparr>line = 0, column = 0\<rparr> \<and>
        peek_css css_prelexer uri_prefix (Some (position st1)) st1 = None \<and>
        (case parse_import css_env (parse_factor css_env) st1 of
           Inl e \<Rightarrow> False
         | Inr (imp, st2) \<Rightarrow>
             imp = \<lparr>urls = [], incs = [[CHR 0x22, CHR ''x'', CHR 0x22]], import_queries = None\<rparr> \<and>
             block_stack st2 = [Block [] True]))"
  by (simp add: ev cong: eval_congs)

theorem import_scope_witness:
  "outcome (parse_block_node css_env (parse_factor css_env) (parse_block css_env) False
             ((parser_of ''@import \"x\";'')\<lparr>stack := [Root, Mixin]\<rparr>)) =
     Inl (InvalidSass \<lparr>line = 0, column = 0\<rparr>
            ''Import directives may not be used within control directives or mixins.'') \<and>
   (\<exists>st2. parse_block_node css_env (parse_factor css_env) (parse_block css_env) False
             ((parser_of ''@import \"x\";'')\<lparr>stack := [Root, Function]\<rparr>) = Inr (True, st2) \<and>
          block_stack st2 = [Block [Import_Stub [CHR 0x22, CHR ''x'', CHR 0x22]] True])"
proof -
  let ?pf = "parse_factor css_env"
  let ?pb = "parse_block css_env"
  have W: "\<exists>s1 imp s2.
      lex (prelex css_env) block_comment True ((parser_of ''@import \"x\";'')\<lparr>stack := sc\<rparr>) = None \<and>
      no_function_statement (prelex css_env)
        (skip_space (prelex css_env) ((parser_of ''@import \"x\";'')\<lparr>stack := sc\<rparr>)) \<and>
      lex (prelex css_env) kwd_import True
        (skip_space (prelex css_env) ((parser_of ''@import \"x\";'')\<lparr>stack := sc\<rparr>)) = Some s1 \<and>
      stack s1 = sc \<and> before_token s1 = \<lparr>line = 0, column = 0\<rparr> \<and>
      peek_css (prelex css_env) uri_prefix (Some (position s1)) s1 = None \<and>
      parse_import css_env ?pf s1 = Inr (imp, s2) \<and>
      imp = \<lparr>urls = [], incs = [[CHR 0x22, CHR ''x'', CHR 0x22]], import_queries = None\<rparr> \<and>
      block_stack s2 = [Block [] True]" for sc
    using import_trace [of sc]
    by (auto simp: css_env_sel split: option.splits sum.splits prod.splits)
  have bs: "block_stack ((parser_of ''@import \"x\";'')\<lparr>stack := sc\<rparr>) \<noteq> []" for sc
    by (simp add: parser_of_def Parser_new_def Let_def)
  from W [of "[Root, Mixin]"] obtain s1 where m:
      "lex (prelex css_env) block_comment True
         ((parser_of ''@import \"x\";'')\<lparr>stack := [Root, Mixin]\<rparr>) = None"
      "no_function_statement (prelex css_env)
        (skip_space (prelex css_env) ((parser_of ''@import \"x\";'')\<lparr>stack := [Root, Mixin]\<rparr>))"
      "lex (prelex css_env) kwd_import True
        (skip_space (prelex css_env) ((parser_of ''@import \"x\";'')\<lparr>stack := [Root, Mixin]\<rparr>)) = Some s1"
      "stack s1 = [Root, Mixin]" "before_token s1 = \<lparr>line = 0, column = 0\<rparr>"
      "peek_css (prelex css_env) uri_prefix (Some (position s1)) s1 = None"
    by blast
  from W [of "[Root, Function]"] obtain t1 imp t2 where f:
      "lex (prelex css_env) block_comment True
         ((parser_of ''@import \"x\";'')\<lparr>stack := [Root, Function]\<rparr>) = None"
      "no_function_statement (prelex css_env)
        (skip_space (prelex css_env) ((parser_of ''@import \"x\";'')\<lparr>stack := [Root, Function]\<rparr>))"
      "lex (prelex css_env) kwd_import True
        (skip_space (prelex css_env) ((parser_of ''@import \"x\";'')\<lparr>stack := [Root, Function]\<rparr>)) = Some t1"
      "stack t1 = [Root, Function]"
      "parse_import css_env ?pf t1 = Inr (imp, t2)"
      "imp = \<lparr>urls = [], incs = [[CHR 0x22, CHR ''x'', CHR 0x22]], import_queries = None\<rparr>"
      "block_stack t2 = [Block [] True]"
    by blast
  have A: "parse_block_node css_env ?pf ?pb False
             ((parser_of ''@import \"x\";'')\<lparr>stack := [Root, Mixin]\<rparr>) =
           Inl (InvalidSass (before_token s1)
                  ''Import directives may not be used within control directives or mixins.'')"
    using import_scope [OF parse_block_comments_none [OF bs m(1)] m(2,3), of ?pf ?pb False] m(4,6)
    by simp
  have B: "parse_block_node css_env ?pf ?pb False
             ((parser_of ''@import \"x\";'')\<lparr>stack := [Root, Function]\<rparr>) =
           bind (parse_import css_env ?pf t1) (\<lambda>imp st2.
                Inr (True, fold (\<lambda>inc s. append_stm (Import_Stub inc) s) (incs imp)
                             (if urls imp \<noteq> [] then append_stm (Import_Node imp) st2 else st2)))"
    using import_scope [OF parse_block_comments_none [OF bs f(1)] f(2,3), of ?pf ?pb False] f(4)
    by simp
  from A B m(5) f(5,6,7) show ?thesis
    by (simp add: outcome_def bind_simps append_stm_def append_def)
qed

lemma function_import_eval:
  "root_statements css_env ''@function f() { @import \"x\"; }'' =
     Inr [Definition ''f'' [] (Block [Import_Stub [CHR 0x22, CHR ''x'', CHR 0x22]] False) FUNCTION]"
  by (simp add: ev cong: eval_congs)

theorem import_in_function_counterexample:
  "root_statements css_env ''@function f() { @import \"x\"; }'' =
     Inr [Definition ''f'' [] (Block [Import_Stub [CHR 0x22, CHR ''x'', CHR 0x22]] False) FUNCTION]"
  by (rule function_import_eval)

end
